theory Spec2Isabelle
  imports Main "HOL-Library.Word"
begin

unbundle bit_operations_syntax

section \<open>Result codes, modes and type tags (include/yapb.h)\<close>

text \<open>
  \<^verbatim>\<open>YAPB_Result_t\<close> is an enum whose negative members are the errors; the code
  tests \<^verbatim>\<open>p->error < 0\<close>, so the numeric value of every member is kept by
  \<open>result_code\<close>.
\<close>

datatype YAPB_Result =
    YAPB_ERR_NO_MORE_ELEMENTS
  | YAPB_ERR_INVALID_PACKET
  | YAPB_ERR_TYPE_MISMATCH
  | YAPB_ERR_INVALID_MODE
  | YAPB_ERR_BUFFER_TOO_SMALL
  | YAPB_ERR_NULL_PTR
  | YAPB_ERR_UNKNOWN
  | YAPB_OK
  | YAPB_STS_COMPLETE

fun result_code :: "YAPB_Result \<Rightarrow> int" where
  "result_code YAPB_ERR_NO_MORE_ELEMENTS = -7"
| "result_code YAPB_ERR_INVALID_PACKET = -6"
| "result_code YAPB_ERR_TYPE_MISMATCH = -5"
| "result_code YAPB_ERR_INVALID_MODE = -4"
| "result_code YAPB_ERR_BUFFER_TOO_SMALL = -3"
| "result_code YAPB_ERR_NULL_PTR = -2"
| "result_code YAPB_ERR_UNKNOWN = -1"
| "result_code YAPB_OK = 0"
| "result_code YAPB_STS_COMPLETE = 1"

datatype YAPB_Mode = YAPB_MODE_WRITE | YAPB_MODE_READ

definition YAPB_HEADER_SIZE :: nat where
  "YAPB_HEADER_SIZE = 4"

text \<open>
  A tag is read from the wire as one byte and cast to \<^verbatim>\<open>YAPB_Type_t\<close>, so any of the
  256 byte values can occur; the eight enum members are constants of that byte type.
\<close>

definition YAPB_INT8 :: "8 word" where "YAPB_INT8 = 0x00"
definition YAPB_INT16 :: "8 word" where "YAPB_INT16 = 0x01"
definition YAPB_INT32 :: "8 word" where "YAPB_INT32 = 0x02"
definition YAPB_INT64 :: "8 word" where "YAPB_INT64 = 0x03"
definition YAPB_FLOAT :: "8 word" where "YAPB_FLOAT = 0x04"
definition YAPB_DOUBLE :: "8 word" where "YAPB_DOUBLE = 0x05"
definition YAPB_BLOB :: "8 word" where "YAPB_BLOB = 0x0E"
definition YAPB_NESTED_PKT :: "8 word" where "YAPB_NESTED_PKT = 0x0F"

section \<open>Memory, pointers and faults\<close>

text \<open>
  A pointer argument is an \<open>option\<close>: \<open>None\<close> is \<^verbatim>\<open>NULL\<close>, \<open>Some x\<close> points to
  storage that currently holds \<open>x\<close>. A pointer to bytes (\<^verbatim>\<open>uint8_t *\<close>) is the byte
  sequence of the caller's object from the pointed-to address to the object's end, so
  \<^verbatim>\<open>ptr + n\<close> is \<open>drop n\<close>. An operation that would dereference \<^verbatim>\<open>NULL\<close> or touch a
  byte outside that object does not return: its value is \<open>Inl\<close> of a fault.

  \<^verbatim>\<open>size_t\<close> is taken to be 64 bits wide and its values are natural numbers. The
  sums formed in the bounds checks (\<^verbatim>\<open>pos + needed\<close>, with \<open>needed\<close> below \<open>2 ^ 32\<close>
  or the length of another object) stay below \<open>2 ^ 64\<close> for any object that fits in
  memory, so they are written without wrap-around; the one narrowing cast of the
  source, \<^verbatim>\<open>(uint32_t)p->pos\<close> in \<^verbatim>\<open>YAPB_finalize\<close>, is written out as
  \<open>word_of_nat\<close>. On a target whose \<^verbatim>\<open>size_t\<close> has 32 bits the sum
  \<^verbatim>\<open>pos + 1 + nested_len\<close> can wrap; that target is not modelled here.
\<close>

datatype fault = NullDeref | OutOfBounds

type_synonym 'a run = "fault + 'a"

definition then_run :: "'a run \<Rightarrow> ('a \<Rightarrow> 'b run) \<Rightarrow> 'b run" where
  "then_run m k = (case m of Inl f \<Rightarrow> Inl f | Inr x \<Rightarrow> k x)"

definition rd :: "8 word list \<Rightarrow> nat \<Rightarrow> 8 word run" where
  "rd b i = (if i < length b then Inr (b ! i) else Inl OutOfBounds)"

definition wr :: "8 word list \<Rightarrow> nat \<Rightarrow> 8 word \<Rightarrow> 8 word list run" where
  "wr b i v = (if i < length b then Inr (b[i := v]) else Inl OutOfBounds)"

text \<open>\<^verbatim>\<open>memcpy(dst + off, src, n)\<close>.\<close>

definition memcpy :: "8 word list \<Rightarrow> nat \<Rightarrow> 8 word list \<Rightarrow> nat \<Rightarrow> 8 word list run" where
  "memcpy dst off src n =
     (if off + n \<le> length dst \<and> n \<le> length src
      then Inr (take off dst @ take n src @ drop (off + n) dst)
      else Inl OutOfBounds)"

section \<open>Network byte order helpers (src/yapb.c)\<close>

text \<open>
  \<^verbatim>\<open>htons\<close>/\<^verbatim>\<open>htonl\<close> followed by \<^verbatim>\<open>memcpy\<close> stores the most significant byte first,
  whatever the host's byte order is.
\<close>

definition write_u16 :: "8 word list \<Rightarrow> nat \<Rightarrow> 16 word \<Rightarrow> 8 word list run" where
  "write_u16 dst off val =
     then_run (wr dst off (ucast (drop_bit 8 val))) (\<lambda>b1.
     wr b1 (off + 1) (ucast val))"

definition write_u32 :: "8 word list \<Rightarrow> nat \<Rightarrow> 32 word \<Rightarrow> 8 word list run" where
  "write_u32 dst off val =
     then_run (wr dst off (ucast (drop_bit 24 val))) (\<lambda>b1.
     then_run (wr b1 (off + 1) (ucast (drop_bit 16 val))) (\<lambda>b2.
     then_run (wr b2 (off + 2) (ucast (drop_bit 8 val))) (\<lambda>b3.
     wr b3 (off + 3) (ucast val))))"

definition write_u64 :: "8 word list \<Rightarrow> nat \<Rightarrow> 64 word \<Rightarrow> 8 word list run" where
  "write_u64 dst off val =
     then_run (write_u32 dst off (ucast (drop_bit 32 val))) (\<lambda>b1.
     write_u32 b1 (off + 4) (ucast (val AND 0xFFFFFFFF)))"

definition read_u16 :: "8 word list \<Rightarrow> nat \<Rightarrow> 16 word run" where
  "read_u16 src off =
     then_run (rd src off) (\<lambda>b0.
     then_run (rd src (off + 1)) (\<lambda>b1.
     Inr (push_bit 8 (ucast b0) OR ucast b1)))"

definition read_u32 :: "8 word list \<Rightarrow> nat \<Rightarrow> 32 word run" where
  "read_u32 src off =
     then_run (rd src off) (\<lambda>b0.
     then_run (rd src (off + 1)) (\<lambda>b1.
     then_run (rd src (off + 2)) (\<lambda>b2.
     then_run (rd src (off + 3)) (\<lambda>b3.
     Inr (push_bit 24 (ucast b0) OR push_bit 16 (ucast b1)
          OR push_bit 8 (ucast b2) OR ucast b3)))))"

definition read_u64 :: "8 word list \<Rightarrow> nat \<Rightarrow> 64 word run" where
  "read_u64 src off =
     then_run (read_u32 src off) (\<lambda>high.
     then_run (read_u32 src (off + 4)) (\<lambda>low.
     Inr (push_bit 32 (ucast high) OR ucast low)))"

section \<open>The packet cursor\<close>

text \<open>
  \<^verbatim>\<open>_YAPB_Packet_t\<close>. The field \<open>buffer\<close> is the caller's memory seen through the
  pointer \<^verbatim>\<open>p->buffer\<close>; a write through the pointer is an update of the field.
\<close>

record YAPB_Packet =
  buffer :: "8 word list"
  buffer_size :: nat
  pos :: nat
  mode :: YAPB_Mode
  error :: YAPB_Result
  finalized :: bool

definition check_complete :: "YAPB_Packet \<Rightarrow> YAPB_Result" where
  "check_complete p = (if pos p \<ge> buffer_size p then YAPB_STS_COMPLETE else YAPB_OK)"

text \<open>
  \<^verbatim>\<open>_pop_validate\<close>: the \<^verbatim>\<open>void *out\<close> is only compared with \<^verbatim>\<open>NULL\<close>. The result is
  the return code and the packet as the call leaves it.
\<close>

definition pop_validate ::
  "YAPB_Packet option \<Rightarrow> 'a option \<Rightarrow> 8 word \<Rightarrow> nat \<Rightarrow> (YAPB_Result \<times> YAPB_Packet option) run"
where
  "pop_validate pkt out expected type_size =
     (case (pkt, out) of
        (Some p, Some _) \<Rightarrow>
          if result_code (error p) < 0 then Inr (error p, pkt)
          else if mode p \<noteq> YAPB_MODE_READ then
            Inr (YAPB_ERR_INVALID_MODE, Some (p\<lparr>error := YAPB_ERR_INVALID_MODE\<rparr>))
          else if pos p \<ge> buffer_size p then
            Inr (YAPB_ERR_NO_MORE_ELEMENTS, Some (p\<lparr>error := YAPB_ERR_NO_MORE_ELEMENTS\<rparr>))
          else
            then_run (rd (buffer p) (pos p)) (\<lambda>ty.
              if ty \<noteq> expected then
                Inr (YAPB_ERR_TYPE_MISMATCH, Some (p\<lparr>error := YAPB_ERR_TYPE_MISMATCH\<rparr>))
              else if pos p + 1 + type_size > buffer_size p then
                Inr (YAPB_ERR_INVALID_PACKET, Some (p\<lparr>error := YAPB_ERR_INVALID_PACKET\<rparr>))
              else Inr (YAPB_OK, Some (p\<lparr>pos := pos p + 1\<rparr>)))
      | _ \<Rightarrow> Inr (YAPB_ERR_NULL_PTR, pkt))"

text \<open>\<^verbatim>\<open>_push_validate\<close> touches no byte of the buffer.\<close>

definition push_validate ::
  "YAPB_Packet option \<Rightarrow> 'a option \<Rightarrow> nat \<Rightarrow> YAPB_Result \<times> YAPB_Packet option"
where
  "push_validate pkt val needed =
     (case (pkt, val) of
        (Some p, Some _) \<Rightarrow>
          if result_code (error p) < 0 then (error p, pkt)
          else if mode p \<noteq> YAPB_MODE_WRITE \<or> finalized p then
            (YAPB_ERR_INVALID_MODE, Some (p\<lparr>error := YAPB_ERR_INVALID_MODE\<rparr>))
          else if pos p + needed > buffer_size p then
            (YAPB_ERR_BUFFER_TOO_SMALL, Some (p\<lparr>error := YAPB_ERR_BUFFER_TOO_SMALL\<rparr>))
          else (YAPB_OK, pkt)
      | _ \<Rightarrow> (YAPB_ERR_NULL_PTR, pkt))"

subsection \<open>Lifecycle\<close>

definition YAPB_initialize ::
  "YAPB_Packet option \<Rightarrow> 8 word list option \<Rightarrow> nat \<Rightarrow> (YAPB_Result \<times> YAPB_Packet option) run"
where
  "YAPB_initialize pkt buf sz =
     (case (pkt, buf) of
        (Some _, Some b) \<Rightarrow>
          if sz < YAPB_HEADER_SIZE then Inr (YAPB_ERR_BUFFER_TOO_SMALL, pkt)
          else
            then_run (write_u32 b 0 0) (\<lambda>b'.
              Inr (YAPB_OK,
                   Some \<lparr>buffer = b', buffer_size = sz, pos = YAPB_HEADER_SIZE,
                         mode = YAPB_MODE_WRITE, error = YAPB_OK, finalized = False\<rparr>))
      | _ \<Rightarrow> Inr (YAPB_ERR_NULL_PTR, pkt))"

definition YAPB_finalize ::
  "YAPB_Packet option \<Rightarrow> nat option \<Rightarrow> (YAPB_Result \<times> YAPB_Packet option \<times> nat option) run"
where
  "YAPB_finalize pkt out_len =
     (case pkt of
        None \<Rightarrow> Inr (YAPB_ERR_NULL_PTR, pkt, out_len)
      | Some p \<Rightarrow>
          if mode p \<noteq> YAPB_MODE_WRITE \<or> finalized p then Inr (YAPB_ERR_INVALID_MODE, pkt, out_len)
          else
            then_run (write_u32 (buffer p) 0 (word_of_nat (pos p))) (\<lambda>b'.
              let p' = p\<lparr>buffer := b', finalized := True\<rparr>
              in Inr (YAPB_OK, Some p',
                      (case out_len of None \<Rightarrow> None | Some _ \<Rightarrow> Some (pos p')))))"

definition YAPB_load ::
  "YAPB_Packet option \<Rightarrow> 8 word list option \<Rightarrow> nat \<Rightarrow> (YAPB_Result \<times> YAPB_Packet option) run"
where
  "YAPB_load pkt data sz =
     (case (pkt, data) of
        (Some _, Some d) \<Rightarrow>
          if sz < YAPB_HEADER_SIZE then Inr (YAPB_ERR_BUFFER_TOO_SMALL, pkt)
          else
            then_run (read_u32 d 0) (\<lambda>pkt_len.
              if unat pkt_len > sz \<or> unat pkt_len < YAPB_HEADER_SIZE then
                Inr (YAPB_ERR_INVALID_PACKET, pkt)
              else
                Inr (YAPB_OK,
                     Some \<lparr>buffer = d, buffer_size = unat pkt_len, pos = YAPB_HEADER_SIZE,
                           mode = YAPB_MODE_READ, error = YAPB_OK, finalized = False\<rparr>))
      | _ \<Rightarrow> Inr (YAPB_ERR_NULL_PTR, pkt))"

subsection \<open>Queries used by the push and pop operations\<close>

definition YAPB_get_error :: "YAPB_Packet option \<Rightarrow> YAPB_Result" where
  "YAPB_get_error pkt = (case pkt of None \<Rightarrow> YAPB_ERR_NULL_PTR | Some p \<Rightarrow> error p)"

definition YAPB_get_buffer ::
  "YAPB_Packet option \<Rightarrow> nat option \<Rightarrow> 8 word list option \<times> nat option"
where
  "YAPB_get_buffer pkt out_len =
     (case pkt of
        None \<Rightarrow> (None, out_len)
      | Some p \<Rightarrow>
          if mode p = YAPB_MODE_WRITE \<and> \<not> finalized p then (None, out_len)
          else (Some (buffer p),
                (case out_len of
                   None \<Rightarrow> None
                 | Some _ \<Rightarrow> Some (if mode p = YAPB_MODE_READ then buffer_size p else pos p))))"

definition YAPB_check_complete :: "8 word list option \<Rightarrow> nat \<Rightarrow> bool run" where
  "YAPB_check_complete data len =
     (case data of
        None \<Rightarrow> Inr False
      | Some d \<Rightarrow>
          if len < YAPB_HEADER_SIZE then Inr False
          else
            then_run (read_u32 d 0) (\<lambda>pkt_len.
              if unat pkt_len < YAPB_HEADER_SIZE then Inr False
              else Inr (len \<ge> unat pkt_len)))"

subsection \<open>Push functions\<close>

text \<open>
  Signed and unsigned integers of one width share their bits, so \<^verbatim>\<open>int8_t\<close> ...
  \<^verbatim>\<open>int64_t\<close> are words. \<^verbatim>\<open>float\<close> and \<^verbatim>\<open>double\<close> are only ever copied bit by bit
  (\<^verbatim>\<open>memcpy\<close> into a \<^verbatim>\<open>uint32_t\<close> or \<^verbatim>\<open>uint64_t\<close>), so a floating-point value is
  its 32- or 64-bit pattern.
\<close>

definition YAPB_push_i8 ::
  "YAPB_Packet option \<Rightarrow> 8 word option \<Rightarrow> (YAPB_Result \<times> YAPB_Packet option) run"
where
  "YAPB_push_i8 pkt val =
     (case push_validate pkt val (1 + 1) of
        (r, pkt1) \<Rightarrow>
          if r \<noteq> YAPB_OK then Inr (r, pkt1)
          else
            (case (pkt1, val) of
               (Some p, Some v) \<Rightarrow>
                 then_run (wr (buffer p) (pos p) YAPB_INT8) (\<lambda>b1.
                 then_run (wr b1 (pos p + 1) v) (\<lambda>b2.
                 Inr (YAPB_OK, Some (p\<lparr>buffer := b2, pos := pos p + 2\<rparr>))))
             | _ \<Rightarrow> Inl NullDeref))"

definition YAPB_push_i16 ::
  "YAPB_Packet option \<Rightarrow> 16 word option \<Rightarrow> (YAPB_Result \<times> YAPB_Packet option) run"
where
  "YAPB_push_i16 pkt val =
     (case push_validate pkt val (1 + 2) of
        (r, pkt1) \<Rightarrow>
          if r \<noteq> YAPB_OK then Inr (r, pkt1)
          else
            (case (pkt1, val) of
               (Some p, Some v) \<Rightarrow>
                 then_run (wr (buffer p) (pos p) YAPB_INT16) (\<lambda>b1.
                 then_run (write_u16 b1 (pos p + 1) v) (\<lambda>b2.
                 Inr (YAPB_OK, Some (p\<lparr>buffer := b2, pos := pos p + 1 + 2\<rparr>))))
             | _ \<Rightarrow> Inl NullDeref))"

definition YAPB_push_i32 ::
  "YAPB_Packet option \<Rightarrow> 32 word option \<Rightarrow> (YAPB_Result \<times> YAPB_Packet option) run"
where
  "YAPB_push_i32 pkt val =
     (case push_validate pkt val (1 + 4) of
        (r, pkt1) \<Rightarrow>
          if r \<noteq> YAPB_OK then Inr (r, pkt1)
          else
            (case (pkt1, val) of
               (Some p, Some v) \<Rightarrow>
                 then_run (wr (buffer p) (pos p) YAPB_INT32) (\<lambda>b1.
                 then_run (write_u32 b1 (pos p + 1) v) (\<lambda>b2.
                 Inr (YAPB_OK, Some (p\<lparr>buffer := b2, pos := pos p + 1 + 4\<rparr>))))
             | _ \<Rightarrow> Inl NullDeref))"

definition YAPB_push_i64 ::
  "YAPB_Packet option \<Rightarrow> 64 word option \<Rightarrow> (YAPB_Result \<times> YAPB_Packet option) run"
where
  "YAPB_push_i64 pkt val =
     (case push_validate pkt val (1 + 8) of
        (r, pkt1) \<Rightarrow>
          if r \<noteq> YAPB_OK then Inr (r, pkt1)
          else
            (case (pkt1, val) of
               (Some p, Some v) \<Rightarrow>
                 then_run (wr (buffer p) (pos p) YAPB_INT64) (\<lambda>b1.
                 then_run (write_u64 b1 (pos p + 1) v) (\<lambda>b2.
                 Inr (YAPB_OK, Some (p\<lparr>buffer := b2, pos := pos p + 1 + 8\<rparr>))))
             | _ \<Rightarrow> Inl NullDeref))"

definition YAPB_push_float ::
  "YAPB_Packet option \<Rightarrow> 32 word option \<Rightarrow> (YAPB_Result \<times> YAPB_Packet option) run"
where
  "YAPB_push_float pkt val =
     (case push_validate pkt val (1 + 4) of
        (r, pkt1) \<Rightarrow>
          if r \<noteq> YAPB_OK then Inr (r, pkt1)
          else
            (case (pkt1, val) of
               (Some p, Some bits) \<Rightarrow>
                 then_run (wr (buffer p) (pos p) YAPB_FLOAT) (\<lambda>b1.
                 then_run (write_u32 b1 (pos p + 1) bits) (\<lambda>b2.
                 Inr (YAPB_OK, Some (p\<lparr>buffer := b2, pos := pos p + 1 + 4\<rparr>))))
             | _ \<Rightarrow> Inl NullDeref))"

definition YAPB_push_double ::
  "YAPB_Packet option \<Rightarrow> 64 word option \<Rightarrow> (YAPB_Result \<times> YAPB_Packet option) run"
where
  "YAPB_push_double pkt val =
     (case push_validate pkt val (1 + 8) of
        (r, pkt1) \<Rightarrow>
          if r \<noteq> YAPB_OK then Inr (r, pkt1)
          else
            (case (pkt1, val) of
               (Some p, Some bits) \<Rightarrow>
                 then_run (wr (buffer p) (pos p) YAPB_DOUBLE) (\<lambda>b1.
                 then_run (write_u64 b1 (pos p + 1) bits) (\<lambda>b2.
                 Inr (YAPB_OK, Some (p\<lparr>buffer := b2, pos := pos p + 1 + 8\<rparr>))))
             | _ \<Rightarrow> Inl NullDeref))"

definition YAPB_push_blob ::
  "YAPB_Packet option \<Rightarrow> 8 word list option \<Rightarrow> 16 word \<Rightarrow> (YAPB_Result \<times> YAPB_Packet option) run"
where
  "YAPB_push_blob pkt data len =
     (case pkt of
        None \<Rightarrow> Inr (YAPB_ERR_NULL_PTR, pkt)
      | Some p \<Rightarrow>
          if result_code (error p) < 0 then Inr (error p, pkt)
          else if len > 0 \<and> data = None then Inr (YAPB_ERR_NULL_PTR, pkt)
          else if mode p \<noteq> YAPB_MODE_WRITE \<or> finalized p then
            Inr (YAPB_ERR_INVALID_MODE, Some (p\<lparr>error := YAPB_ERR_INVALID_MODE\<rparr>))
          else if pos p + 1 + 2 + unat len > buffer_size p then
            Inr (YAPB_ERR_BUFFER_TOO_SMALL, Some (p\<lparr>error := YAPB_ERR_BUFFER_TOO_SMALL\<rparr>))
          else
            then_run (wr (buffer p) (pos p) YAPB_BLOB) (\<lambda>b1.
            then_run (write_u16 b1 (pos p + 1) len) (\<lambda>b2.
            if len > 0 then
              (case data of
                 None \<Rightarrow> Inl NullDeref
               | Some d \<Rightarrow>
                   then_run (memcpy b2 (pos p + 1 + 2) d (unat len)) (\<lambda>b3.
                   Inr (YAPB_OK, Some (p\<lparr>buffer := b3, pos := pos p + 1 + 2 + unat len\<rparr>))))
            else Inr (YAPB_OK, Some (p\<lparr>buffer := b2, pos := pos p + 1 + 2\<rparr>)))))"

text \<open>
  \<^verbatim>\<open>YAPB_push_nested\<close> asks \<^verbatim>\<open>YAPB_get_buffer\<close> for the child's bytes first. The
  local \<^verbatim>\<open>nested_len\<close> is uninitialised before that call and is read only when the
  call has filled it in; the model starts it at 0.
\<close>

definition YAPB_push_nested ::
  "YAPB_Packet option \<Rightarrow> YAPB_Packet option \<Rightarrow> (YAPB_Result \<times> YAPB_Packet option) run"
where
  "YAPB_push_nested pkt nested =
     (case YAPB_get_buffer nested (Some 0) of
        (nested_buf, nl) \<Rightarrow>
          (case (pkt, nested_buf) of
             (Some p, Some nb) \<Rightarrow>
               let nested_len = (case nl of None \<Rightarrow> 0 | Some n \<Rightarrow> n) in
               if result_code (error p) < 0 then Inr (error p, pkt)
               else if mode p \<noteq> YAPB_MODE_WRITE \<or> finalized p then
                 Inr (YAPB_ERR_INVALID_MODE, Some (p\<lparr>error := YAPB_ERR_INVALID_MODE\<rparr>))
               else if pos p + 1 + nested_len > buffer_size p then
                 Inr (YAPB_ERR_BUFFER_TOO_SMALL, Some (p\<lparr>error := YAPB_ERR_BUFFER_TOO_SMALL\<rparr>))
               else
                 then_run (wr (buffer p) (pos p) YAPB_NESTED_PKT) (\<lambda>b1.
                 then_run (memcpy b1 (pos p + 1) nb nested_len) (\<lambda>b2.
                 Inr (YAPB_OK, Some (p\<lparr>buffer := b2, pos := pos p + 1 + nested_len\<rparr>))))
           | _ \<Rightarrow> Inr (YAPB_ERR_NULL_PTR, pkt)))"

subsection \<open>Pop functions\<close>

text \<open>
  A pop takes the output pointer with the value its target holds before the call and
  returns the return code, the packet and the target's value after the call: an output
  the call never writes comes back as it went in.
\<close>

definition YAPB_pop_i8 ::
  "YAPB_Packet option \<Rightarrow> 8 word option
     \<Rightarrow> (YAPB_Result \<times> YAPB_Packet option \<times> 8 word option) run"
where
  "YAPB_pop_i8 pkt out =
     then_run (pop_validate pkt out YAPB_INT8 1) (\<lambda>(r, pkt1).
       if r \<noteq> YAPB_OK then Inr (r, pkt1, out)
       else
         (case (pkt1, out) of
            (Some p, Some _) \<Rightarrow>
              then_run (rd (buffer p) (pos p)) (\<lambda>v.
                let p' = p\<lparr>pos := pos p + 1\<rparr>
                in Inr (check_complete p', Some p', Some v))
          | _ \<Rightarrow> Inl NullDeref))"

definition YAPB_pop_i16 ::
  "YAPB_Packet option \<Rightarrow> 16 word option
     \<Rightarrow> (YAPB_Result \<times> YAPB_Packet option \<times> 16 word option) run"
where
  "YAPB_pop_i16 pkt out =
     then_run (pop_validate pkt out YAPB_INT16 2) (\<lambda>(r, pkt1).
       if r \<noteq> YAPB_OK then Inr (r, pkt1, out)
       else
         (case (pkt1, out) of
            (Some p, Some _) \<Rightarrow>
              then_run (read_u16 (buffer p) (pos p)) (\<lambda>v.
                let p' = p\<lparr>pos := pos p + 2\<rparr>
                in Inr (check_complete p', Some p', Some v))
          | _ \<Rightarrow> Inl NullDeref))"

definition YAPB_pop_i32 ::
  "YAPB_Packet option \<Rightarrow> 32 word option
     \<Rightarrow> (YAPB_Result \<times> YAPB_Packet option \<times> 32 word option) run"
where
  "YAPB_pop_i32 pkt out =
     then_run (pop_validate pkt out YAPB_INT32 4) (\<lambda>(r, pkt1).
       if r \<noteq> YAPB_OK then Inr (r, pkt1, out)
       else
         (case (pkt1, out) of
            (Some p, Some _) \<Rightarrow>
              then_run (read_u32 (buffer p) (pos p)) (\<lambda>v.
                let p' = p\<lparr>pos := pos p + 4\<rparr>
                in Inr (check_complete p', Some p', Some v))
          | _ \<Rightarrow> Inl NullDeref))"

definition YAPB_pop_i64 ::
  "YAPB_Packet option \<Rightarrow> 64 word option
     \<Rightarrow> (YAPB_Result \<times> YAPB_Packet option \<times> 64 word option) run"
where
  "YAPB_pop_i64 pkt out =
     then_run (pop_validate pkt out YAPB_INT64 8) (\<lambda>(r, pkt1).
       if r \<noteq> YAPB_OK then Inr (r, pkt1, out)
       else
         (case (pkt1, out) of
            (Some p, Some _) \<Rightarrow>
              then_run (read_u64 (buffer p) (pos p)) (\<lambda>v.
                let p' = p\<lparr>pos := pos p + 8\<rparr>
                in Inr (check_complete p', Some p', Some v))
          | _ \<Rightarrow> Inl NullDeref))"

definition YAPB_pop_float ::
  "YAPB_Packet option \<Rightarrow> 32 word option
     \<Rightarrow> (YAPB_Result \<times> YAPB_Packet option \<times> 32 word option) run"
where
  "YAPB_pop_float pkt out =
     then_run (pop_validate pkt out YAPB_FLOAT 4) (\<lambda>(r, pkt1).
       if r \<noteq> YAPB_OK then Inr (r, pkt1, out)
       else
         (case (pkt1, out) of
            (Some p, Some _) \<Rightarrow>
              then_run (read_u32 (buffer p) (pos p)) (\<lambda>bits.
                let p' = p\<lparr>pos := pos p + 4\<rparr>
                in Inr (check_complete p', Some p', Some bits))
          | _ \<Rightarrow> Inl NullDeref))"

definition YAPB_pop_double ::
  "YAPB_Packet option \<Rightarrow> 64 word option
     \<Rightarrow> (YAPB_Result \<times> YAPB_Packet option \<times> 64 word option) run"
where
  "YAPB_pop_double pkt out =
     then_run (pop_validate pkt out YAPB_DOUBLE 8) (\<lambda>(r, pkt1).
       if r \<noteq> YAPB_OK then Inr (r, pkt1, out)
       else
         (case (pkt1, out) of
            (Some p, Some _) \<Rightarrow>
              then_run (read_u64 (buffer p) (pos p)) (\<lambda>bits.
                let p' = p\<lparr>pos := pos p + 8\<rparr>
                in Inr (check_complete p', Some p', Some bits))
          | _ \<Rightarrow> Inl NullDeref))"

text \<open>
  \<^verbatim>\<open>YAPB_pop_blob\<close> has two outputs: \<^verbatim>\<open>const uint8_t **data\<close>, whose target is itself
  a pointer to bytes, and \<^verbatim>\<open>uint16_t *len\<close>. It reads \<^verbatim>\<open>p->pos\<close> and stores into
  \<^verbatim>\<open>*len\<close> before it calls \<^verbatim>\<open>_pop_validate\<close>.
\<close>

definition YAPB_pop_blob ::
  "YAPB_Packet option \<Rightarrow> 8 word list option option \<Rightarrow> 16 word option
     \<Rightarrow> (YAPB_Result \<times> YAPB_Packet option \<times> 8 word list option option \<times> 16 word option) run"
where
  "YAPB_pop_blob pkt data len =
     (case len of
        None \<Rightarrow> Inr (YAPB_ERR_NULL_PTR, pkt, data, len)
      | Some _ \<Rightarrow>
          (case pkt of
             None \<Rightarrow> Inl NullDeref
           | Some p \<Rightarrow>
               if pos p + 3 > buffer_size p then
                 Inr (YAPB_ERR_INVALID_PACKET, Some (p\<lparr>error := YAPB_ERR_INVALID_PACKET\<rparr>),
                      data, len)
               else
                 then_run (read_u16 (buffer p) (pos p + 1)) (\<lambda>l.
                 then_run (pop_validate pkt data YAPB_BLOB (unat l + 2)) (\<lambda>(r, pkt1).
                   if r \<noteq> YAPB_OK then Inr (r, pkt1, data, Some l)
                   else
                     (case (pkt1, data) of
                        (Some p1, Some _) \<Rightarrow>
                          let p2 = p1\<lparr>pos := pos p1 + 2\<rparr>;
                              d = drop (pos p2) (buffer p2);
                              p3 = p2\<lparr>pos := pos p2 + unat l\<rparr>
                          in Inr (check_complete p3, Some p3, Some (Some d), Some l)
                      | _ \<Rightarrow> Inl NullDeref)))))"

text \<open>
  \<^verbatim>\<open>YAPB_pop_nested\<close> reads \<^verbatim>\<open>p->pos\<close> before any check of \<^verbatim>\<open>pkt\<close>. The child is
  loaded over the parent's bytes from the nested header on; \<^verbatim>\<open>out\<close> and \<^verbatim>\<open>pkt\<close> are
  taken to be different objects.
\<close>

definition YAPB_pop_nested ::
  "YAPB_Packet option \<Rightarrow> YAPB_Packet option
     \<Rightarrow> (YAPB_Result \<times> YAPB_Packet option \<times> YAPB_Packet option) run"
where
  "YAPB_pop_nested pkt out =
     (case pkt of
        None \<Rightarrow> Inl NullDeref
      | Some p \<Rightarrow>
          if pos p + YAPB_HEADER_SIZE + 1 > buffer_size p then
            Inr (YAPB_ERR_INVALID_PACKET, Some (p\<lparr>error := YAPB_ERR_INVALID_PACKET\<rparr>), out)
          else
            then_run (read_u32 (buffer p) (pos p + 1)) (\<lambda>nested_len.
            then_run (pop_validate pkt out YAPB_NESTED_PKT (unat nested_len)) (\<lambda>(r, pkt1).
              if r \<noteq> YAPB_OK then Inr (r, pkt1, out)
              else
                (case pkt1 of
                   None \<Rightarrow> Inl NullDeref
                 | Some p1 \<Rightarrow>
                     then_run (YAPB_load out (Some (drop (pos p1) (buffer p1))) (unat nested_len))
                       (\<lambda>(r2, out1).
                          if r2 \<noteq> YAPB_OK then Inr (r2, Some (p1\<lparr>error := r2\<rparr>), out1)
                          else
                            let p2 = p1\<lparr>pos := pos p1 + unat nested_len\<rparr>
                            in Inr (check_complete p2, Some p2, out1))))))"

text \<open>
  \<^verbatim>\<open>YAPB_Element_t\<close>: the tag and the union \<^verbatim>\<open>val\<close>. Only the member named by the tag
  is meaningful, so the members are kept side by side; \<^verbatim>\<open>&out->val.i8\<close> is a pointer
  to the field \<open>val_i8\<close>.
\<close>

record YAPB_Element =
  elem_type :: "8 word"
  val_i8 :: "8 word"
  val_i16 :: "16 word"
  val_i32 :: "32 word"
  val_i64 :: "64 word"
  val_f :: "32 word"
  val_d :: "64 word"
  val_blob_data :: "8 word list option"
  val_blob_len :: "16 word"
  val_nested :: YAPB_Packet

definition YAPB_pop_next ::
  "YAPB_Packet option \<Rightarrow> YAPB_Element option
     \<Rightarrow> (YAPB_Result \<times> YAPB_Packet option \<times> YAPB_Element option) run"
where
  "YAPB_pop_next pkt out =
     (case (pkt, out) of
        (Some p, Some e0) \<Rightarrow>
          if result_code (error p) < 0 then Inr (error p, pkt, out)
          else if mode p \<noteq> YAPB_MODE_READ then
            Inr (YAPB_ERR_INVALID_MODE, Some (p\<lparr>error := YAPB_ERR_INVALID_MODE\<rparr>), out)
          else if pos p \<ge> buffer_size p then
            Inr (YAPB_ERR_NO_MORE_ELEMENTS, Some (p\<lparr>error := YAPB_ERR_NO_MORE_ELEMENTS\<rparr>), out)
          else
            then_run (rd (buffer p) (pos p)) (\<lambda>ty.
              let e = e0\<lparr>elem_type := ty\<rparr> in
              if ty = YAPB_INT8 then
                then_run (YAPB_pop_i8 pkt (Some (val_i8 e))) (\<lambda>(r, pkt1, v).
                  Inr (r, pkt1, Some (case v of None \<Rightarrow> e | Some x \<Rightarrow> e\<lparr>val_i8 := x\<rparr>)))
              else if ty = YAPB_INT16 then
                then_run (YAPB_pop_i16 pkt (Some (val_i16 e))) (\<lambda>(r, pkt1, v).
                  Inr (r, pkt1, Some (case v of None \<Rightarrow> e | Some x \<Rightarrow> e\<lparr>val_i16 := x\<rparr>)))
              else if ty = YAPB_INT32 then
                then_run (YAPB_pop_i32 pkt (Some (val_i32 e))) (\<lambda>(r, pkt1, v).
                  Inr (r, pkt1, Some (case v of None \<Rightarrow> e | Some x \<Rightarrow> e\<lparr>val_i32 := x\<rparr>)))
              else if ty = YAPB_INT64 then
                then_run (YAPB_pop_i64 pkt (Some (val_i64 e))) (\<lambda>(r, pkt1, v).
                  Inr (r, pkt1, Some (case v of None \<Rightarrow> e | Some x \<Rightarrow> e\<lparr>val_i64 := x\<rparr>)))
              else if ty = YAPB_FLOAT then
                then_run (YAPB_pop_float pkt (Some (val_f e))) (\<lambda>(r, pkt1, v).
                  Inr (r, pkt1, Some (case v of None \<Rightarrow> e | Some x \<Rightarrow> e\<lparr>val_f := x\<rparr>)))
              else if ty = YAPB_DOUBLE then
                then_run (YAPB_pop_double pkt (Some (val_d e))) (\<lambda>(r, pkt1, v).
                  Inr (r, pkt1, Some (case v of None \<Rightarrow> e | Some x \<Rightarrow> e\<lparr>val_d := x\<rparr>)))
              else if ty = YAPB_BLOB then
                then_run (YAPB_pop_blob pkt (Some (val_blob_data e)) (Some (val_blob_len e)))
                  (\<lambda>(r, pkt1, d, l).
                     Inr (r, pkt1,
                          Some (e\<lparr>val_blob_data := (case d of None \<Rightarrow> val_blob_data e | Some x \<Rightarrow> x),
                                  val_blob_len := (case l of None \<Rightarrow> val_blob_len e | Some x \<Rightarrow> x)\<rparr>)))
              else if ty = YAPB_NESTED_PKT then
                then_run (YAPB_pop_nested pkt (Some (val_nested e))) (\<lambda>(r, pkt1, n).
                  Inr (r, pkt1, Some (case n of None \<Rightarrow> e | Some x \<Rightarrow> e\<lparr>val_nested := x\<rparr>)))
              else
                Inr (YAPB_ERR_INVALID_PACKET, Some (p\<lparr>error := YAPB_ERR_INVALID_PACKET\<rparr>), Some e))
      | _ \<Rightarrow> Inr (YAPB_ERR_NULL_PTR, pkt, out))"

section \<open>The header value, as the wire format describes it\<close>

text \<open>
  The wire format calls the first four bytes of a packet its total length, most
  significant byte first. \<open>declared_length\<close> is that number, written as arithmetic on
  the bytes and independently of \<open>read_u32\<close>, which the code uses to obtain it.
\<close>

definition declared_length :: "8 word list \<Rightarrow> nat" where
  "declared_length d =
     unat (d ! 0) * 2 ^ 24 + unat (d ! 1) * 2 ^ 16 + unat (d ! 2) * 2 ^ 8 + unat (d ! 3)"

section \<open>Latching, as the error policy describes it\<close>

text \<open>
  A call latches when a negative return code is also the code the packet stores
  afterwards. The two predicates say so of the outcome of a push (code and packet) and
  of a pop (code, packet and outputs).
\<close>

definition latches_push :: "(YAPB_Result \<times> YAPB_Packet option) run \<Rightarrow> bool" where
  "latches_push x = (\<forall>r p'. x = Inr (r, p') \<longrightarrow> result_code r < 0 \<longrightarrow>
                        (\<exists>q. p' = Some q \<and> error q = r))"

definition latches_pop :: "(YAPB_Result \<times> YAPB_Packet option \<times> 'a) run \<Rightarrow> bool" where
  "latches_pop x = (\<forall>r p' z. x = Inr (r, p', z) \<longrightarrow> result_code r < 0 \<longrightarrow>
                       (\<exists>q. p' = Some q \<and> error q = r))"

section \<open>Well-formed packets and the order of the pop checks\<close>

text \<open>
  A packet is well formed when its cursor lies between the header and \<open>buffer_size\<close>
  and the buffer really holds \<open>buffer_size\<close> bytes. \<open>first_failed_check\<close> is the list
  of checks a typed pop makes on a non-null packet, in the order the format's
  description gives them, with the code of the first one that fails.
\<close>

definition valid_packet :: "YAPB_Packet \<Rightarrow> bool" where
  "valid_packet p \<longleftrightarrow>
     YAPB_HEADER_SIZE \<le> pos p \<and> pos p \<le> buffer_size p \<and> buffer_size p \<le> length (buffer p)"

definition first_failed_check :: "YAPB_Packet \<Rightarrow> 8 word \<Rightarrow> nat \<Rightarrow> YAPB_Result option" where
  "first_failed_check p tag value_size =
     (if result_code (error p) < 0 then Some (error p)
      else if mode p \<noteq> YAPB_MODE_READ then Some YAPB_ERR_INVALID_MODE
      else if buffer_size p \<le> pos p then Some YAPB_ERR_NO_MORE_ELEMENTS
      else if buffer p ! pos p \<noteq> tag then Some YAPB_ERR_TYPE_MISMATCH
      else if buffer_size p - pos p < 1 + value_size then Some YAPB_ERR_INVALID_PACKET
      else None)"

section \<open>Example data\<close>

text \<open>
  Storage for a packet handle before \<^verbatim>\<open>YAPB_initialize\<close> or \<^verbatim>\<open>YAPB_load\<close> has filled
  it in; the concrete examples below start from it.
\<close>

definition blank_packet :: YAPB_Packet where
  "blank_packet =
     \<lparr>buffer = [], buffer_size = 0, pos = 0, mode = YAPB_MODE_WRITE, error = YAPB_OK,
      finalized = False\<rparr>"

text \<open>
  Concrete packets for the examples: a write-mode packet over eight bytes after one
  \<^verbatim>\<open>push_i8\<close> of 42; the loaded empty packet \<open>00 00 00 04\<close>; a loaded packet holding
  the 16-bit integer \<open>0x1234\<close>; a loaded packet whose only tag is the reserved value
  \<open>0x06\<close>; an element whose fields hold nothing yet; a loaded packet holding the 32-bit
  integer \<open>0xDEADBEEF\<close>, in a buffer with one more byte after the packet.
\<close>

definition ex_written :: YAPB_Packet where
  "ex_written =
     \<lparr>buffer = [0, 0, 0, 0, 0, 42, 9, 9], buffer_size = 8, pos = 6, mode = YAPB_MODE_WRITE,
      error = YAPB_OK, finalized = False\<rparr>"

definition ex_empty :: YAPB_Packet where
  "ex_empty =
     \<lparr>buffer = [0, 0, 0, 4], buffer_size = 4, pos = 4, mode = YAPB_MODE_READ,
      error = YAPB_OK, finalized = False\<rparr>"

definition ex_i16 :: YAPB_Packet where
  "ex_i16 =
     \<lparr>buffer = [0, 0, 0, 7, 0x01, 0x12, 0x34], buffer_size = 7, pos = 4,
      mode = YAPB_MODE_READ, error = YAPB_OK, finalized = False\<rparr>"

definition ex_reserved :: YAPB_Packet where
  "ex_reserved =
     \<lparr>buffer = [0, 0, 0, 5, 0x06], buffer_size = 5, pos = 4, mode = YAPB_MODE_READ,
      error = YAPB_OK, finalized = False\<rparr>"

definition blank_element :: YAPB_Element where
  "blank_element =
     \<lparr>elem_type = 0xFF, val_i8 = 0, val_i16 = 0, val_i32 = 0, val_i64 = 0, val_f = 0,
      val_d = 0, val_blob_data = None, val_blob_len = 0, val_nested = blank_packet\<rparr>"

definition ex_i32_then_end :: YAPB_Packet where
  "ex_i32_then_end =
     \<lparr>buffer = [0, 0, 0, 9, 0x02, 0xDE, 0xAD, 0xBE, 0xEF, 0x55], buffer_size = 9, pos = 4,
      mode = YAPB_MODE_READ, error = YAPB_OK, finalized = False\<rparr>"

section \<open>Basic facts\<close>

lemmas tag_defs =
  YAPB_INT8_def YAPB_INT16_def YAPB_INT32_def YAPB_INT64_def
  YAPB_FLOAT_def YAPB_DOUBLE_def YAPB_BLOB_def YAPB_NESTED_PKT_def

lemma then_run_simps [simp]:
  "then_run (Inl f) k = Inl f"
  "then_run (Inr x) k = k x"
  by (simp_all add: then_run_def)

lemma rd_in [simp]: "i < length b \<Longrightarrow> rd b i = Inr (b ! i)"
  by (simp add: rd_def)

lemma wr_in [simp]: "i < length b \<Longrightarrow> wr b i v = Inr (b[i := v])"
  by (simp add: wr_def)

subsection \<open>Bytes and words\<close>

lemma or_add32:
  fixes b0 b1 b2 b3 :: "8 word"
  shows "(push_bit 24 (ucast b0) OR push_bit 16 (ucast b1) OR push_bit 8 (ucast b2) OR ucast b3 :: 32 word)
       = push_bit 24 (ucast b0) + (push_bit 16 (ucast b1) + (push_bit 8 (ucast b2) + ucast b3))"
proof -
  have 1: "(push_bit 8 (ucast b2) + ucast b3 :: 32 word) = push_bit 8 (ucast b2) OR ucast b3"
    by (rule disjunctive_add) (auto simp: bit_simps dest: bit_imp_le_length)
  have 2: "(push_bit 16 (ucast b1) + (push_bit 8 (ucast b2) OR ucast b3) :: 32 word)
         = push_bit 16 (ucast b1) OR (push_bit 8 (ucast b2) OR ucast b3)"
    by (rule disjunctive_add) (auto simp: bit_simps dest: bit_imp_le_length)
  have 3: "(push_bit 24 (ucast b0) + (push_bit 16 (ucast b1) OR (push_bit 8 (ucast b2) OR ucast b3)) :: 32 word)
         = push_bit 24 (ucast b0) OR (push_bit 16 (ucast b1) OR (push_bit 8 (ucast b2) OR ucast b3))"
    by (rule disjunctive_add) (auto simp: bit_simps dest: bit_imp_le_length)
  show ?thesis by (simp only: 1 2 3 or.assoc)
qed

lemma unat_be32:
  fixes b0 b1 b2 b3 :: "8 word"
  shows "unat (push_bit 24 (ucast b0) OR push_bit 16 (ucast b1) OR push_bit 8 (ucast b2) OR ucast b3 :: 32 word)
       = unat b0 * 2 ^ 24 + unat b1 * 2 ^ 16 + unat b2 * 2 ^ 8 + unat b3"
proof -
  have b: "unat b0 < 256" "unat b1 < 256" "unat b2 < 256" "unat b3 < 256"
    using unsigned_less [of b0, where 'a = nat] unsigned_less [of b1, where 'a = nat]
      unsigned_less [of b2, where 'a = nat] unsigned_less [of b3, where 'a = nat]
    by simp_all
  show ?thesis
    unfolding or_add32 using b
    by (simp add: unat_word_ariths push_bit_eq_mult unsigned_ucast_eq take_bit_nat_eq_self)
qed

lemma bytes_of_u16:
  fixes v :: "16 word"
  shows "push_bit 8 (ucast (ucast (drop_bit 8 v) :: 8 word)) OR ucast (ucast v :: 8 word) = v"
  by (rule bit_word_eqI) (auto simp: bit_simps)

lemma bytes_of_u32:
  fixes v :: "32 word"
  shows "push_bit 24 (ucast (ucast (drop_bit 24 v) :: 8 word))
         OR push_bit 16 (ucast (ucast (drop_bit 16 v) :: 8 word))
         OR push_bit 8 (ucast (ucast (drop_bit 8 v) :: 8 word))
         OR ucast (ucast v :: 8 word) = v"
  apply (rule bit_word_eqI)
  apply (simp add: bit_simps)
  apply (case_tac "n < 8"; case_tac "n < 16"; case_tac "n < 24"; simp)
    apply (auto; arith)+
  done

lemma low_mask_u64: "(0xFFFFFFFF :: 64 word) = mask 32"
  by (simp add: mask_eq_exp_minus_1)

lemma halves_of_u64:
  fixes v :: "64 word"
  shows "push_bit 32 (ucast (ucast (drop_bit 32 v) :: 32 word))
         OR ucast (ucast (v AND 0xFFFFFFFF) :: 32 word) = v"
  unfolding low_mask_u64
  apply (rule bit_word_eqI)
  apply (simp add: bit_simps)
  apply (case_tac "n < 32"; simp)
  apply (auto; arith)
  done

lemma unat_of_nat32: "n < 2 ^ 32 \<Longrightarrow> unat (word_of_nat n :: 32 word) = n"
  by (simp add: unat_of_nat)

subsection \<open>Reads and writes inside the buffer\<close>

lemma read_u16_in:
  "off + 2 \<le> length b \<Longrightarrow>
   read_u16 b off = Inr (push_bit 8 (ucast (b ! off)) OR ucast (b ! (off + 1)))"
  by (simp add: read_u16_def)

lemma read_u32_in:
  "off + 4 \<le> length b \<Longrightarrow>
   read_u32 b off =
     Inr (push_bit 24 (ucast (b ! off)) OR push_bit 16 (ucast (b ! (off + 1)))
          OR push_bit 8 (ucast (b ! (off + 2))) OR ucast (b ! (off + 3)))"
  by (simp add: read_u32_def)

lemma write_u16_in:
  "off + 2 \<le> length b \<Longrightarrow>
   write_u16 b off v = Inr (b[off := ucast (drop_bit 8 v), off + 1 := ucast v])"
  by (simp add: write_u16_def)

lemma write_u32_in:
  "off + 4 \<le> length b \<Longrightarrow>
   write_u32 b off v =
     Inr (b[off := ucast (drop_bit 24 v), off + 1 := ucast (drop_bit 16 v),
            off + 2 := ucast (drop_bit 8 v), off + 3 := ucast v])"
  by (simp add: write_u32_def)

lemma length_write_u32: "write_u32 b off v = Inr b' \<Longrightarrow> length b' = length b"
  by (auto simp: write_u32_def wr_def then_run_def split: if_splits sum.splits)

lemma read_write_u32:
  "off + 4 \<le> length b \<Longrightarrow> write_u32 b off v = Inr b' \<Longrightarrow> read_u32 b' off = Inr v"
  by (auto simp: write_u32_in read_u32_in bytes_of_u32)

lemma read_u32_header:
  assumes "4 \<le> length d"
  shows "\<exists>w. read_u32 d 0 = Inr w \<and> unat w = declared_length d"
  using assms by (simp add: read_u32_in declared_length_def unat_be32 numeral_2_eq_2)

subsection \<open>Reads depend only on the bytes they touch\<close>

lemma read_u16_eqI:
  "off + 2 \<le> length b \<Longrightarrow> off + 2 \<le> length b' \<Longrightarrow>
   (\<And>i. off \<le> i \<Longrightarrow> i < off + 2 \<Longrightarrow> b' ! i = b ! i) \<Longrightarrow>
   read_u16 b' off = read_u16 b off"
  by (simp add: read_u16_in)

lemma read_u32_eqI:
  "off + 4 \<le> length b \<Longrightarrow> off + 4 \<le> length b' \<Longrightarrow>
   (\<And>i. off \<le> i \<Longrightarrow> i < off + 4 \<Longrightarrow> b' ! i = b ! i) \<Longrightarrow>
   read_u32 b' off = read_u32 b off"
  by (simp add: read_u32_in)

lemma read_u64_eqI:
  assumes "off + 8 \<le> length b" and "off + 8 \<le> length b'"
    and "\<And>i. off \<le> i \<Longrightarrow> i < off + 8 \<Longrightarrow> b' ! i = b ! i"
  shows "read_u64 b' off = read_u64 b off"
proof -
  have "read_u32 b' off = read_u32 b off"
    using assms by (intro read_u32_eqI) auto
  moreover have "read_u32 b' (off + 4) = read_u32 b (off + 4)"
    using assms by (intro read_u32_eqI) auto
  ultimately show ?thesis by (simp add: read_u64_def)
qed

lemma nth_write_u32_other:
  "write_u32 b off v = Inr b' \<Longrightarrow> i < off \<or> off + 4 \<le> i \<Longrightarrow> b' ! i = b ! i"
  by (auto simp: write_u32_def wr_def then_run_def split: if_splits sum.splits)

lemma length_write_u16: "write_u16 b off v = Inr b' \<Longrightarrow> length b' = length b"
  by (auto simp: write_u16_def wr_def then_run_def split: if_splits sum.splits)

lemma nth_write_u16_other:
  "write_u16 b off v = Inr b' \<Longrightarrow> i < off \<or> off + 2 \<le> i \<Longrightarrow> b' ! i = b ! i"
  by (auto simp: write_u16_def wr_def then_run_def split: if_splits sum.splits)

lemma read_write_u16:
  "off + 2 \<le> length b \<Longrightarrow> write_u16 b off v = Inr b' \<Longrightarrow> read_u16 b' off = Inr v"
  by (auto simp: write_u16_in read_u16_in bytes_of_u16)

lemma write_u64_in:
  assumes "off + 8 \<le> length b"
  shows "\<exists>b1 b'. write_u32 b off (ucast (drop_bit 32 v)) = Inr b1 \<and>
                  write_u32 b1 (off + 4) (ucast (v AND 0xFFFFFFFF)) = Inr b' \<and>
                  write_u64 b off v = Inr b'"
  using assms by (simp add: write_u64_def write_u32_in)

lemma length_write_u64: "write_u64 b off v = Inr b' \<Longrightarrow> length b' = length b"
  by (auto simp: write_u64_def then_run_def split: sum.splits dest!: length_write_u32)

lemma nth_write_u64_other:
  "write_u64 b off v = Inr b' \<Longrightarrow> i < off \<or> off + 8 \<le> i \<Longrightarrow> b' ! i = b ! i"
  by (auto simp: write_u64_def then_run_def split: sum.splits dest!: nth_write_u32_other [where i = i])

lemma read_write_u64:
  assumes "off + 8 \<le> length b" and "write_u64 b off v = Inr b'"
  shows "read_u64 b' off = Inr v"
proof -
  from write_u64_in [OF assms(1), of v] assms(2) obtain b1 where
    w1: "write_u32 b off (ucast (drop_bit 32 v)) = Inr b1" and
    w2: "write_u32 b1 (off + 4) (ucast (v AND 0xFFFFFFFF)) = Inr b'"
    by auto
  have l1: "length b1 = length b" using w1 by (rule length_write_u32)
  have l2: "length b' = length b1" using w2 by (rule length_write_u32)
  have "read_u32 b1 off = Inr (ucast (drop_bit 32 v))"
    using assms(1) w1 by (intro read_write_u32 [of off b]) auto
  moreover have "read_u32 b' off = read_u32 b1 off"
    using assms(1) l1 l2 nth_write_u32_other [OF w2] by (intro read_u32_eqI) auto
  moreover have "read_u32 b' (off + 4) = Inr (ucast (v AND 0xFFFFFFFF))"
    using assms(1) l1 w2 by (intro read_write_u32 [of "off + 4" b1]) auto
  ultimately show ?thesis
    by (simp add: read_u64_def halves_of_u64)
qed

subsection \<open>Successful calls\<close>

lemma initialize_ok:
  assumes "4 \<le> sz" and "4 \<le> length b"
  shows "\<exists>b'. YAPB_initialize (Some p0) (Some b) sz =
               Inr (YAPB_OK,
                    Some \<lparr>buffer = b', buffer_size = sz, pos = 4, mode = YAPB_MODE_WRITE,
                          error = YAPB_OK, finalized = False\<rparr>) \<and>
              length b' = length b \<and> read_u32 b' 0 = Inr 0"
proof -
  from assms(2) obtain b' where w: "write_u32 b 0 0 = Inr b'"
    by (simp add: write_u32_in)
  then have "length b' = length b" by (rule length_write_u32)
  moreover have "read_u32 b' 0 = Inr 0"
    using read_write_u32 [of 0 b 0 b'] assms(2) w by simp
  ultimately show ?thesis
    using assms(1) w by (simp add: YAPB_initialize_def YAPB_HEADER_SIZE_def)
qed

lemma push_validate_ok:
  "mode p = YAPB_MODE_WRITE \<Longrightarrow> \<not> finalized p \<Longrightarrow> 0 \<le> result_code (error p) \<Longrightarrow>
   pos p + needed \<le> buffer_size p \<Longrightarrow>
   push_validate (Some p) (Some v) needed = (YAPB_OK, Some p)"
  by (simp add: push_validate_def)

lemma pop_validate_ok:
  "mode p = YAPB_MODE_READ \<Longrightarrow> 0 \<le> result_code (error p) \<Longrightarrow>
   pos p + 1 + type_size \<le> buffer_size p \<Longrightarrow> buffer_size p \<le> length (buffer p) \<Longrightarrow>
   buffer p ! pos p = expected \<Longrightarrow>
   pop_validate (Some p) (Some w) expected type_size = Inr (YAPB_OK, Some (p\<lparr>pos := pos p + 1\<rparr>))"
  by (simp add: pop_validate_def)

lemma YAPB_push_i8_ok:
  assumes "mode p = YAPB_MODE_WRITE" and "\<not> finalized p" and "0 \<le> result_code (error p)"
    and "pos p + 2 \<le> buffer_size p" and "buffer_size p \<le> length (buffer p)"
  shows "\<exists>b. YAPB_push_i8 (Some p) (Some v) =
               Inr (YAPB_OK, Some (p\<lparr>buffer := b, pos := pos p + 2\<rparr>)) \<and>
             length b = length (buffer p) \<and> b ! pos p = YAPB_INT8 \<and> b ! (pos p + 1) = v"
  using assms
  by (intro exI [of _ "(buffer p)[pos p := YAPB_INT8, pos p + 1 := v]"])
    (simp add: YAPB_push_i8_def push_validate_ok)

lemma YAPB_pop_i8_ok:
  assumes "mode p = YAPB_MODE_READ" and "0 \<le> result_code (error p)"
    and "pos p + 2 \<le> buffer_size p" and "buffer_size p \<le> length (buffer p)"
    and "buffer p ! pos p = YAPB_INT8"
  shows "YAPB_pop_i8 (Some p) (Some w0) =
           Inr (check_complete (p\<lparr>pos := pos p + 1 + 1\<rparr>), Some (p\<lparr>pos := pos p + 1 + 1\<rparr>),
                Some (buffer p ! (pos p + 1)))"
  using assms by (simp add: YAPB_pop_i8_def pop_validate_ok Let_def)

lemma YAPB_push_i16_ok:
  assumes "mode p = YAPB_MODE_WRITE" and "\<not> finalized p" and "0 \<le> result_code (error p)"
    and "pos p + 3 \<le> buffer_size p" and "buffer_size p \<le> length (buffer p)"
  shows "\<exists>b. YAPB_push_i16 (Some p) (Some v) =
               Inr (YAPB_OK, Some (p\<lparr>buffer := b, pos := pos p + 1 + 2\<rparr>)) \<and>
             length b = length (buffer p) \<and> b ! pos p = YAPB_INT16 \<and>
             read_u16 b (pos p + 1) = Inr v"
proof -
  let ?b1 = "(buffer p)[pos p := YAPB_INT16]"
  have l1: "pos p + 1 + 2 \<le> length ?b1" using assms(4,5) by simp
  then obtain b where w: "write_u16 ?b1 (pos p + 1) v = Inr b"
    using write_u16_in [of "pos p + 1" ?b1 v] by auto
  have "length b = length (buffer p)"
    using length_write_u16 [OF w] by simp
  moreover have "b ! pos p = YAPB_INT16"
    using nth_write_u16_other [OF w, of "pos p"] assms(4,5) by simp
  moreover have "read_u16 b (pos p + 1) = Inr v"
    using l1 w by (rule read_write_u16)
  ultimately show ?thesis
    using assms w by (intro exI [of _ b]) (simp add: YAPB_push_i16_def push_validate_ok)
qed

lemma YAPB_pop_i16_ok:
  assumes "mode p = YAPB_MODE_READ" and "0 \<le> result_code (error p)"
    and "pos p + 3 \<le> buffer_size p" and "buffer_size p \<le> length (buffer p)"
    and "buffer p ! pos p = YAPB_INT16" and "read_u16 (buffer p) (pos p + 1) = Inr v"
  shows "YAPB_pop_i16 (Some p) (Some w0) =
           Inr (check_complete (p\<lparr>pos := pos p + 1 + 2\<rparr>), Some (p\<lparr>pos := pos p + 1 + 2\<rparr>),
                Some v)"
  using assms by (simp add: YAPB_pop_i16_def pop_validate_ok Let_def)

lemma YAPB_push_i32_ok:
  assumes "mode p = YAPB_MODE_WRITE" and "\<not> finalized p" and "0 \<le> result_code (error p)"
    and "pos p + 5 \<le> buffer_size p" and "buffer_size p \<le> length (buffer p)"
  shows "\<exists>b. YAPB_push_i32 (Some p) (Some v) =
               Inr (YAPB_OK, Some (p\<lparr>buffer := b, pos := pos p + 1 + 4\<rparr>)) \<and>
             length b = length (buffer p) \<and> b ! pos p = YAPB_INT32 \<and>
             read_u32 b (pos p + 1) = Inr v"
proof -
  let ?b1 = "(buffer p)[pos p := YAPB_INT32]"
  have l1: "pos p + 1 + 4 \<le> length ?b1" using assms(4,5) by simp
  then obtain b where w: "write_u32 ?b1 (pos p + 1) v = Inr b"
    using write_u32_in [of "pos p + 1" ?b1 v] by auto
  have "length b = length (buffer p)"
    using length_write_u32 [OF w] by simp
  moreover have "b ! pos p = YAPB_INT32"
    using nth_write_u32_other [OF w, of "pos p"] assms(4,5) by simp
  moreover have "read_u32 b (pos p + 1) = Inr v"
    using l1 w by (rule read_write_u32)
  ultimately show ?thesis
    using assms w by (intro exI [of _ b]) (simp add: YAPB_push_i32_def push_validate_ok)
qed

lemma YAPB_pop_i32_ok:
  assumes "mode p = YAPB_MODE_READ" and "0 \<le> result_code (error p)"
    and "pos p + 5 \<le> buffer_size p" and "buffer_size p \<le> length (buffer p)"
    and "buffer p ! pos p = YAPB_INT32" and "read_u32 (buffer p) (pos p + 1) = Inr v"
  shows "YAPB_pop_i32 (Some p) (Some w0) =
           Inr (check_complete (p\<lparr>pos := pos p + 1 + 4\<rparr>), Some (p\<lparr>pos := pos p + 1 + 4\<rparr>),
                Some v)"
  using assms by (simp add: YAPB_pop_i32_def pop_validate_ok Let_def)

lemma YAPB_push_i64_ok:
  assumes "mode p = YAPB_MODE_WRITE" and "\<not> finalized p" and "0 \<le> result_code (error p)"
    and "pos p + 9 \<le> buffer_size p" and "buffer_size p \<le> length (buffer p)"
  shows "\<exists>b. YAPB_push_i64 (Some p) (Some v) =
               Inr (YAPB_OK, Some (p\<lparr>buffer := b, pos := pos p + 1 + 8\<rparr>)) \<and>
             length b = length (buffer p) \<and> b ! pos p = YAPB_INT64 \<and>
             read_u64 b (pos p + 1) = Inr v"
proof -
  let ?b1 = "(buffer p)[pos p := YAPB_INT64]"
  have l1: "pos p + 1 + 8 \<le> length ?b1" using assms(4,5) by simp
  then obtain b where w: "write_u64 ?b1 (pos p + 1) v = Inr b"
    using write_u64_in [of "pos p + 1" ?b1 v] by auto
  have "length b = length (buffer p)"
    using length_write_u64 [OF w] by simp
  moreover have "b ! pos p = YAPB_INT64"
    using nth_write_u64_other [OF w, of "pos p"] assms(4,5) by simp
  moreover have "read_u64 b (pos p + 1) = Inr v"
    using l1 w by (rule read_write_u64)
  ultimately show ?thesis
    using assms w by (intro exI [of _ b]) (simp add: YAPB_push_i64_def push_validate_ok)
qed

lemma YAPB_pop_i64_ok:
  assumes "mode p = YAPB_MODE_READ" and "0 \<le> result_code (error p)"
    and "pos p + 9 \<le> buffer_size p" and "buffer_size p \<le> length (buffer p)"
    and "buffer p ! pos p = YAPB_INT64" and "read_u64 (buffer p) (pos p + 1) = Inr v"
  shows "YAPB_pop_i64 (Some p) (Some w0) =
           Inr (check_complete (p\<lparr>pos := pos p + 1 + 8\<rparr>), Some (p\<lparr>pos := pos p + 1 + 8\<rparr>),
                Some v)"
  using assms by (simp add: YAPB_pop_i64_def pop_validate_ok Let_def)

lemma YAPB_push_float_ok:
  assumes "mode p = YAPB_MODE_WRITE" and "\<not> finalized p" and "0 \<le> result_code (error p)"
    and "pos p + 5 \<le> buffer_size p" and "buffer_size p \<le> length (buffer p)"
  shows "\<exists>b. YAPB_push_float (Some p) (Some v) =
               Inr (YAPB_OK, Some (p\<lparr>buffer := b, pos := pos p + 1 + 4\<rparr>)) \<and>
             length b = length (buffer p) \<and> b ! pos p = YAPB_FLOAT \<and>
             read_u32 b (pos p + 1) = Inr v"
proof -
  let ?b1 = "(buffer p)[pos p := YAPB_FLOAT]"
  have l1: "pos p + 1 + 4 \<le> length ?b1" using assms(4,5) by simp
  then obtain b where w: "write_u32 ?b1 (pos p + 1) v = Inr b"
    using write_u32_in [of "pos p + 1" ?b1 v] by auto
  have "length b = length (buffer p)"
    using length_write_u32 [OF w] by simp
  moreover have "b ! pos p = YAPB_FLOAT"
    using nth_write_u32_other [OF w, of "pos p"] assms(4,5) by simp
  moreover have "read_u32 b (pos p + 1) = Inr v"
    using l1 w by (rule read_write_u32)
  ultimately show ?thesis
    using assms w by (intro exI [of _ b]) (simp add: YAPB_push_float_def push_validate_ok)
qed

lemma YAPB_pop_float_ok:
  assumes "mode p = YAPB_MODE_READ" and "0 \<le> result_code (error p)"
    and "pos p + 5 \<le> buffer_size p" and "buffer_size p \<le> length (buffer p)"
    and "buffer p ! pos p = YAPB_FLOAT" and "read_u32 (buffer p) (pos p + 1) = Inr v"
  shows "YAPB_pop_float (Some p) (Some w0) =
           Inr (check_complete (p\<lparr>pos := pos p + 1 + 4\<rparr>), Some (p\<lparr>pos := pos p + 1 + 4\<rparr>),
                Some v)"
  using assms by (simp add: YAPB_pop_float_def pop_validate_ok Let_def)

lemma YAPB_push_double_ok:
  assumes "mode p = YAPB_MODE_WRITE" and "\<not> finalized p" and "0 \<le> result_code (error p)"
    and "pos p + 9 \<le> buffer_size p" and "buffer_size p \<le> length (buffer p)"
  shows "\<exists>b. YAPB_push_double (Some p) (Some v) =
               Inr (YAPB_OK, Some (p\<lparr>buffer := b, pos := pos p + 1 + 8\<rparr>)) \<and>
             length b = length (buffer p) \<and> b ! pos p = YAPB_DOUBLE \<and>
             read_u64 b (pos p + 1) = Inr v"
proof -
  let ?b1 = "(buffer p)[pos p := YAPB_DOUBLE]"
  have l1: "pos p + 1 + 8 \<le> length ?b1" using assms(4,5) by simp
  then obtain b where w: "write_u64 ?b1 (pos p + 1) v = Inr b"
    using write_u64_in [of "pos p + 1" ?b1 v] by auto
  have "length b = length (buffer p)"
    using length_write_u64 [OF w] by simp
  moreover have "b ! pos p = YAPB_DOUBLE"
    using nth_write_u64_other [OF w, of "pos p"] assms(4,5) by simp
  moreover have "read_u64 b (pos p + 1) = Inr v"
    using l1 w by (rule read_write_u64)
  ultimately show ?thesis
    using assms w by (intro exI [of _ b]) (simp add: YAPB_push_double_def push_validate_ok)
qed

lemma YAPB_pop_double_ok:
  assumes "mode p = YAPB_MODE_READ" and "0 \<le> result_code (error p)"
    and "pos p + 9 \<le> buffer_size p" and "buffer_size p \<le> length (buffer p)"
    and "buffer p ! pos p = YAPB_DOUBLE" and "read_u64 (buffer p) (pos p + 1) = Inr v"
  shows "YAPB_pop_double (Some p) (Some w0) =
           Inr (check_complete (p\<lparr>pos := pos p + 1 + 8\<rparr>), Some (p\<lparr>pos := pos p + 1 + 8\<rparr>),
                Some v)"
  using assms by (simp add: YAPB_pop_double_def pop_validate_ok Let_def)

lemma YAPB_load_eq:
  assumes "sz \<le> length d"
  shows "YAPB_load (Some q) (Some d) sz =
           (if sz < 4 then Inr (YAPB_ERR_BUFFER_TOO_SMALL, Some q)
            else if declared_length d > sz \<or> declared_length d < 4
              then Inr (YAPB_ERR_INVALID_PACKET, Some q)
            else Inr (YAPB_OK,
                      Some \<lparr>buffer = d, buffer_size = declared_length d, pos = 4,
                            mode = YAPB_MODE_READ, error = YAPB_OK, finalized = False\<rparr>))"
proof (cases "sz < 4")
  case True
  then show ?thesis by (simp add: YAPB_load_def YAPB_HEADER_SIZE_def)
next
  case False
  with assms have "4 \<le> length d" by simp
  then obtain w where "read_u32 d 0 = Inr w" "unat w = declared_length d"
    using read_u32_header by blast
  with False show ?thesis
    by (simp add: YAPB_load_def YAPB_HEADER_SIZE_def)
qed

lemma finalize_ok:
  assumes "mode p = YAPB_MODE_WRITE" and "\<not> finalized p" and "4 \<le> length (buffer p)"
  shows "\<exists>b. write_u32 (buffer p) 0 (word_of_nat (pos p)) = Inr b \<and>
             YAPB_finalize (Some p) (Some n) =
               Inr (YAPB_OK, Some (p\<lparr>buffer := b, finalized := True\<rparr>), Some (pos p)) \<and>
             YAPB_finalize (Some p) None =
               Inr (YAPB_OK, Some (p\<lparr>buffer := b, finalized := True\<rparr>), None) \<and>
             read_u32 b 0 = Inr (word_of_nat (pos p)) \<and>
             (pos p < 2 ^ 32 \<longrightarrow> declared_length b = pos p) \<and>
             length b = length (buffer p) \<and>
             drop 4 b = drop 4 (buffer p)"
proof -
  from assms(3) obtain b where w: "write_u32 (buffer p) 0 (word_of_nat (pos p)) = Inr b"
    by (simp add: write_u32_in)
  then have l: "length b = length (buffer p)" by (rule length_write_u32)
  from w assms(3) have r: "read_u32 b 0 = Inr (word_of_nat (pos p))"
    using read_write_u32 [of 0 "buffer p"] by simp
  from l assms(3) obtain w' where "read_u32 b 0 = Inr w'" "unat w' = declared_length b"
    using read_u32_header [of b] by auto
  with r have d: "declared_length b = unat (word_of_nat (pos p) :: 32 word)" by simp
  have dr: "drop 4 b = drop 4 (buffer p)"
    using w assms(3) by (auto simp: write_u32_in drop_update_cancel)
  show ?thesis
    using assms(1,2) w r d dr l
    by (intro exI [of _ b]) (simp add: YAPB_finalize_def unat_of_nat32)
qed

lemma check_complete_nonneg: "0 \<le> result_code (check_complete p)"
  by (simp add: check_complete_def)

text \<open>Finalizing a written packet and loading the bytes it produced.\<close>

lemma finalize_then_load:
  assumes "mode p = YAPB_MODE_WRITE" and "\<not> finalized p"
    and "4 \<le> pos p" and "pos p < 2 ^ 32" and "pos p \<le> length (buffer p)"
  shows "\<exists>b p4. YAPB_finalize (Some p) (Some n0) =
                  Inr (YAPB_OK, Some (p\<lparr>buffer := b, finalized := True\<rparr>), Some (pos p)) \<and>
                YAPB_load (Some q0) (Some (take (pos p) b)) (pos p) = Inr (YAPB_OK, Some p4) \<and>
                mode p4 = YAPB_MODE_READ \<and> error p4 = YAPB_OK \<and> pos p4 = 4 \<and>
                buffer_size p4 = pos p \<and> length (buffer p4) = pos p \<and>
                (\<forall>i. 4 \<le> i \<and> i < pos p \<longrightarrow> buffer p4 ! i = buffer p ! i)"
proof -
  from assms have l4: "4 \<le> length (buffer p)" by simp
  from finalize_ok [OF assms(1,2) l4, of n0] obtain b where
    w: "write_u32 (buffer p) 0 (word_of_nat (pos p)) = Inr b" and
    f: "YAPB_finalize (Some p) (Some n0) =
          Inr (YAPB_OK, Some (p\<lparr>buffer := b, finalized := True\<rparr>), Some (pos p))" and
    d: "declared_length b = pos p" and
    l: "length b = length (buffer p)"
    using assms(4) by blast
  let ?d = "take (pos p) b"
  have ld: "length ?d = pos p" using l assms(5) by simp
  have "declared_length ?d = declared_length b"
    using assms(3) by (simp add: declared_length_def)
  with d have dd: "declared_length ?d = pos p" by simp
  have "YAPB_load (Some q0) (Some ?d) (pos p) =
          Inr (YAPB_OK,
               Some \<lparr>buffer = ?d, buffer_size = pos p, pos = 4, mode = YAPB_MODE_READ,
                     error = YAPB_OK, finalized = False\<rparr>)"
    using YAPB_load_eq [of "pos p" ?d q0] ld dd assms(3) by simp
  moreover have "\<forall>i. 4 \<le> i \<and> i < pos p \<longrightarrow> ?d ! i = buffer p ! i"
    using nth_write_u32_other [OF w] by simp
  ultimately show ?thesis
    using f ld by (intro exI [of _ b]) simp
qed

lemma roundtrip_i8:
  assumes "6 \<le> sz" and "sz \<le> length buf"
  shows "\<exists>p1 p2 p3 n p4 r p5.
           YAPB_initialize (Some p0) (Some buf) sz = Inr (YAPB_OK, Some p1) \<and>
           YAPB_push_i8 (Some p1) (Some v) = Inr (YAPB_OK, Some p2) \<and>
           YAPB_finalize (Some p2) (Some n0) = Inr (YAPB_OK, Some p3, Some n) \<and>
           YAPB_load (Some q0) (Some (take n (buffer p3))) n = Inr (YAPB_OK, Some p4) \<and>
           YAPB_pop_i8 (Some p4) (Some w0) = Inr (r, Some p5, Some v) \<and>
           0 \<le> result_code r"
proof -
  from assms obtain b1 where
    init: "YAPB_initialize (Some p0) (Some buf) sz =
             Inr (YAPB_OK,
                  Some \<lparr>buffer = b1, buffer_size = sz, pos = 4, mode = YAPB_MODE_WRITE,
                        error = YAPB_OK, finalized = False\<rparr>)"
      "length b1 = length buf"
    using initialize_ok [of sz buf p0] by auto
  let ?p1 = "\<lparr>buffer = b1, buffer_size = sz, pos = 4, mode = YAPB_MODE_WRITE,
               error = YAPB_OK, finalized = False\<rparr>"
  from assms init(2) obtain b2 where
    push: "YAPB_push_i8 (Some ?p1) (Some v) =
             Inr (YAPB_OK, Some (?p1\<lparr>buffer := b2, pos := 4 + 2\<rparr>))"
      "length b2 = length buf" "b2 ! 4 = YAPB_INT8" "b2 ! (4 + 1) = v"
    using YAPB_push_i8_ok [of ?p1 v] by auto
  let ?p2 = "?p1\<lparr>buffer := b2, pos := 4 + 2\<rparr>"
  from assms push(2) obtain b3 p4 where
    fin: "YAPB_finalize (Some ?p2) (Some n0) =
            Inr (YAPB_OK, Some (?p2\<lparr>buffer := b3, finalized := True\<rparr>), Some (pos ?p2))" and
    load: "YAPB_load (Some q0) (Some (take (pos ?p2) b3)) (pos ?p2) = Inr (YAPB_OK, Some p4)" and
    p4: "mode p4 = YAPB_MODE_READ" "error p4 = YAPB_OK" "pos p4 = 4"
      "buffer_size p4 = 6" "length (buffer p4) = 6"
      "\<forall>i. 4 \<le> i \<and> i < 6 \<longrightarrow> buffer p4 ! i = b2 ! i"
    using finalize_then_load [of ?p2 n0 q0] by auto
  have tag: "buffer p4 ! pos p4 = YAPB_INT8" and val: "buffer p4 ! (pos p4 + 1) = v"
    using p4 push(3,4) by simp_all
  have pop: "YAPB_pop_i8 (Some p4) (Some w0) =
               Inr (check_complete (p4\<lparr>pos := pos p4 + 1 + 1\<rparr>),
                    Some (p4\<lparr>pos := pos p4 + 1 + 1\<rparr>), Some v)"
    using YAPB_pop_i8_ok [of p4 w0] p4 tag val by simp
  show ?thesis
    using init(1) push(1) fin load pop check_complete_nonneg by auto
qed

lemma roundtrip_i16:
  assumes "7 \<le> sz" and "sz \<le> length buf"
  shows "\<exists>p1 p2 p3 n p4 r p5.
           YAPB_initialize (Some p0) (Some buf) sz = Inr (YAPB_OK, Some p1) \<and>
           YAPB_push_i16 (Some p1) (Some v) = Inr (YAPB_OK, Some p2) \<and>
           YAPB_finalize (Some p2) (Some n0) = Inr (YAPB_OK, Some p3, Some n) \<and>
           YAPB_load (Some q0) (Some (take n (buffer p3))) n = Inr (YAPB_OK, Some p4) \<and>
           YAPB_pop_i16 (Some p4) (Some w0) = Inr (r, Some p5, Some v) \<and>
           0 \<le> result_code r"
proof -
  from assms obtain b1 where
    init: "YAPB_initialize (Some p0) (Some buf) sz =
             Inr (YAPB_OK,
                  Some \<lparr>buffer = b1, buffer_size = sz, pos = 4, mode = YAPB_MODE_WRITE,
                        error = YAPB_OK, finalized = False\<rparr>)"
      "length b1 = length buf"
    using initialize_ok [of sz buf p0] by auto
  let ?p1 = "\<lparr>buffer = b1, buffer_size = sz, pos = 4, mode = YAPB_MODE_WRITE,
               error = YAPB_OK, finalized = False\<rparr>"
  from assms init(2) obtain b2 where
    push: "YAPB_push_i16 (Some ?p1) (Some v) =
             Inr (YAPB_OK, Some (?p1\<lparr>buffer := b2, pos := 4 + 1 + 2\<rparr>))"
      "length b2 = length buf" "b2 ! 4 = YAPB_INT16" "read_u16 b2 (4 + 1) = Inr v"
    using YAPB_push_i16_ok [of ?p1 v] by auto
  let ?p2 = "?p1\<lparr>buffer := b2, pos := 4 + 1 + 2\<rparr>"
  from assms push(2) obtain b3 p4 where
    fin: "YAPB_finalize (Some ?p2) (Some n0) =
            Inr (YAPB_OK, Some (?p2\<lparr>buffer := b3, finalized := True\<rparr>), Some (pos ?p2))" and
    load: "YAPB_load (Some q0) (Some (take (pos ?p2) b3)) (pos ?p2) = Inr (YAPB_OK, Some p4)" and
    p4: "mode p4 = YAPB_MODE_READ" "error p4 = YAPB_OK" "pos p4 = 4"
      "buffer_size p4 = 7" "length (buffer p4) = 7"
      "\<forall>i. 4 \<le> i \<and> i < 7 \<longrightarrow> buffer p4 ! i = b2 ! i"
    using finalize_then_load [of ?p2 n0 q0] by auto
  have tag: "buffer p4 ! pos p4 = YAPB_INT16"
    using p4 push(3) by simp
  have "read_u16 (buffer p4) (4 + 1) = read_u16 b2 (4 + 1)"
    using p4 push(2) assms by (intro read_u16_eqI) auto
  with push(4) p4 have val: "read_u16 (buffer p4) (pos p4 + 1) = Inr v" by simp
  have pop: "YAPB_pop_i16 (Some p4) (Some w0) =
               Inr (check_complete (p4\<lparr>pos := pos p4 + 1 + 2\<rparr>),
                    Some (p4\<lparr>pos := pos p4 + 1 + 2\<rparr>), Some v)"
    using YAPB_pop_i16_ok [of p4 v w0] p4 tag val by simp
  show ?thesis
    using init(1) push(1) fin load pop check_complete_nonneg by auto
qed

lemma roundtrip_i32:
  assumes "9 \<le> sz" and "sz \<le> length buf"
  shows "\<exists>p1 p2 p3 n p4 r p5.
           YAPB_initialize (Some p0) (Some buf) sz = Inr (YAPB_OK, Some p1) \<and>
           YAPB_push_i32 (Some p1) (Some v) = Inr (YAPB_OK, Some p2) \<and>
           YAPB_finalize (Some p2) (Some n0) = Inr (YAPB_OK, Some p3, Some n) \<and>
           YAPB_load (Some q0) (Some (take n (buffer p3))) n = Inr (YAPB_OK, Some p4) \<and>
           YAPB_pop_i32 (Some p4) (Some w0) = Inr (r, Some p5, Some v) \<and>
           0 \<le> result_code r"
proof -
  from assms obtain b1 where
    init: "YAPB_initialize (Some p0) (Some buf) sz =
             Inr (YAPB_OK,
                  Some \<lparr>buffer = b1, buffer_size = sz, pos = 4, mode = YAPB_MODE_WRITE,
                        error = YAPB_OK, finalized = False\<rparr>)"
      "length b1 = length buf"
    using initialize_ok [of sz buf p0] by auto
  let ?p1 = "\<lparr>buffer = b1, buffer_size = sz, pos = 4, mode = YAPB_MODE_WRITE,
               error = YAPB_OK, finalized = False\<rparr>"
  from assms init(2) obtain b2 where
    push: "YAPB_push_i32 (Some ?p1) (Some v) =
             Inr (YAPB_OK, Some (?p1\<lparr>buffer := b2, pos := 4 + 1 + 4\<rparr>))"
      "length b2 = length buf" "b2 ! 4 = YAPB_INT32" "read_u32 b2 (4 + 1) = Inr v"
    using YAPB_push_i32_ok [of ?p1 v] by auto
  let ?p2 = "?p1\<lparr>buffer := b2, pos := 4 + 1 + 4\<rparr>"
  from assms push(2) obtain b3 p4 where
    fin: "YAPB_finalize (Some ?p2) (Some n0) =
            Inr (YAPB_OK, Some (?p2\<lparr>buffer := b3, finalized := True\<rparr>), Some (pos ?p2))" and
    load: "YAPB_load (Some q0) (Some (take (pos ?p2) b3)) (pos ?p2) = Inr (YAPB_OK, Some p4)" and
    p4: "mode p4 = YAPB_MODE_READ" "error p4 = YAPB_OK" "pos p4 = 4"
      "buffer_size p4 = 9" "length (buffer p4) = 9"
      "\<forall>i. 4 \<le> i \<and> i < 9 \<longrightarrow> buffer p4 ! i = b2 ! i"
    using finalize_then_load [of ?p2 n0 q0] by auto
  have tag: "buffer p4 ! pos p4 = YAPB_INT32"
    using p4 push(3) by simp
  have "read_u32 (buffer p4) (4 + 1) = read_u32 b2 (4 + 1)"
    using p4 push(2) assms by (intro read_u32_eqI) auto
  with push(4) p4 have val: "read_u32 (buffer p4) (pos p4 + 1) = Inr v" by simp
  have pop: "YAPB_pop_i32 (Some p4) (Some w0) =
               Inr (check_complete (p4\<lparr>pos := pos p4 + 1 + 4\<rparr>),
                    Some (p4\<lparr>pos := pos p4 + 1 + 4\<rparr>), Some v)"
    using YAPB_pop_i32_ok [of p4 v w0] p4 tag val by simp
  show ?thesis
    using init(1) push(1) fin load pop check_complete_nonneg by auto
qed

lemma roundtrip_i64:
  assumes "13 \<le> sz" and "sz \<le> length buf"
  shows "\<exists>p1 p2 p3 n p4 r p5.
           YAPB_initialize (Some p0) (Some buf) sz = Inr (YAPB_OK, Some p1) \<and>
           YAPB_push_i64 (Some p1) (Some v) = Inr (YAPB_OK, Some p2) \<and>
           YAPB_finalize (Some p2) (Some n0) = Inr (YAPB_OK, Some p3, Some n) \<and>
           YAPB_load (Some q0) (Some (take n (buffer p3))) n = Inr (YAPB_OK, Some p4) \<and>
           YAPB_pop_i64 (Some p4) (Some w0) = Inr (r, Some p5, Some v) \<and>
           0 \<le> result_code r"
proof -
  from assms obtain b1 where
    init: "YAPB_initialize (Some p0) (Some buf) sz =
             Inr (YAPB_OK,
                  Some \<lparr>buffer = b1, buffer_size = sz, pos = 4, mode = YAPB_MODE_WRITE,
                        error = YAPB_OK, finalized = False\<rparr>)"
      "length b1 = length buf"
    using initialize_ok [of sz buf p0] by auto
  let ?p1 = "\<lparr>buffer = b1, buffer_size = sz, pos = 4, mode = YAPB_MODE_WRITE,
               error = YAPB_OK, finalized = False\<rparr>"
  from assms init(2) obtain b2 where
    push: "YAPB_push_i64 (Some ?p1) (Some v) =
             Inr (YAPB_OK, Some (?p1\<lparr>buffer := b2, pos := 4 + 1 + 8\<rparr>))"
      "length b2 = length buf" "b2 ! 4 = YAPB_INT64" "read_u64 b2 (4 + 1) = Inr v"
    using YAPB_push_i64_ok [of ?p1 v] by auto
  let ?p2 = "?p1\<lparr>buffer := b2, pos := 4 + 1 + 8\<rparr>"
  from assms push(2) obtain b3 p4 where
    fin: "YAPB_finalize (Some ?p2) (Some n0) =
            Inr (YAPB_OK, Some (?p2\<lparr>buffer := b3, finalized := True\<rparr>), Some (pos ?p2))" and
    load: "YAPB_load (Some q0) (Some (take (pos ?p2) b3)) (pos ?p2) = Inr (YAPB_OK, Some p4)" and
    p4: "mode p4 = YAPB_MODE_READ" "error p4 = YAPB_OK" "pos p4 = 4"
      "buffer_size p4 = 13" "length (buffer p4) = 13"
      "\<forall>i. 4 \<le> i \<and> i < 13 \<longrightarrow> buffer p4 ! i = b2 ! i"
    using finalize_then_load [of ?p2 n0 q0] by auto
  have tag: "buffer p4 ! pos p4 = YAPB_INT64"
    using p4 push(3) by simp
  have "read_u64 (buffer p4) (4 + 1) = read_u64 b2 (4 + 1)"
    using p4 push(2) assms by (intro read_u64_eqI) auto
  with push(4) p4 have val: "read_u64 (buffer p4) (pos p4 + 1) = Inr v" by simp
  have pop: "YAPB_pop_i64 (Some p4) (Some w0) =
               Inr (check_complete (p4\<lparr>pos := pos p4 + 1 + 8\<rparr>),
                    Some (p4\<lparr>pos := pos p4 + 1 + 8\<rparr>), Some v)"
    using YAPB_pop_i64_ok [of p4 v w0] p4 tag val by simp
  show ?thesis
    using init(1) push(1) fin load pop check_complete_nonneg by auto
qed

lemma roundtrip_float:
  assumes "9 \<le> sz" and "sz \<le> length buf"
  shows "\<exists>p1 p2 p3 n p4 r p5.
           YAPB_initialize (Some p0) (Some buf) sz = Inr (YAPB_OK, Some p1) \<and>
           YAPB_push_float (Some p1) (Some v) = Inr (YAPB_OK, Some p2) \<and>
           YAPB_finalize (Some p2) (Some n0) = Inr (YAPB_OK, Some p3, Some n) \<and>
           YAPB_load (Some q0) (Some (take n (buffer p3))) n = Inr (YAPB_OK, Some p4) \<and>
           YAPB_pop_float (Some p4) (Some w0) = Inr (r, Some p5, Some v) \<and>
           0 \<le> result_code r"
proof -
  from assms obtain b1 where
    init: "YAPB_initialize (Some p0) (Some buf) sz =
             Inr (YAPB_OK,
                  Some \<lparr>buffer = b1, buffer_size = sz, pos = 4, mode = YAPB_MODE_WRITE,
                        error = YAPB_OK, finalized = False\<rparr>)"
      "length b1 = length buf"
    using initialize_ok [of sz buf p0] by auto
  let ?p1 = "\<lparr>buffer = b1, buffer_size = sz, pos = 4, mode = YAPB_MODE_WRITE,
               error = YAPB_OK, finalized = False\<rparr>"
  from assms init(2) obtain b2 where
    push: "YAPB_push_float (Some ?p1) (Some v) =
             Inr (YAPB_OK, Some (?p1\<lparr>buffer := b2, pos := 4 + 1 + 4\<rparr>))"
      "length b2 = length buf" "b2 ! 4 = YAPB_FLOAT" "read_u32 b2 (4 + 1) = Inr v"
    using YAPB_push_float_ok [of ?p1 v] by auto
  let ?p2 = "?p1\<lparr>buffer := b2, pos := 4 + 1 + 4\<rparr>"
  from assms push(2) obtain b3 p4 where
    fin: "YAPB_finalize (Some ?p2) (Some n0) =
            Inr (YAPB_OK, Some (?p2\<lparr>buffer := b3, finalized := True\<rparr>), Some (pos ?p2))" and
    load: "YAPB_load (Some q0) (Some (take (pos ?p2) b3)) (pos ?p2) = Inr (YAPB_OK, Some p4)" and
    p4: "mode p4 = YAPB_MODE_READ" "error p4 = YAPB_OK" "pos p4 = 4"
      "buffer_size p4 = 9" "length (buffer p4) = 9"
      "\<forall>i. 4 \<le> i \<and> i < 9 \<longrightarrow> buffer p4 ! i = b2 ! i"
    using finalize_then_load [of ?p2 n0 q0] by auto
  have tag: "buffer p4 ! pos p4 = YAPB_FLOAT"
    using p4 push(3) by simp
  have "read_u32 (buffer p4) (4 + 1) = read_u32 b2 (4 + 1)"
    using p4 push(2) assms by (intro read_u32_eqI) auto
  with push(4) p4 have val: "read_u32 (buffer p4) (pos p4 + 1) = Inr v" by simp
  have pop: "YAPB_pop_float (Some p4) (Some w0) =
               Inr (check_complete (p4\<lparr>pos := pos p4 + 1 + 4\<rparr>),
                    Some (p4\<lparr>pos := pos p4 + 1 + 4\<rparr>), Some v)"
    using YAPB_pop_float_ok [of p4 v w0] p4 tag val by simp
  show ?thesis
    using init(1) push(1) fin load pop check_complete_nonneg by auto
qed

lemma roundtrip_double:
  assumes "13 \<le> sz" and "sz \<le> length buf"
  shows "\<exists>p1 p2 p3 n p4 r p5.
           YAPB_initialize (Some p0) (Some buf) sz = Inr (YAPB_OK, Some p1) \<and>
           YAPB_push_double (Some p1) (Some v) = Inr (YAPB_OK, Some p2) \<and>
           YAPB_finalize (Some p2) (Some n0) = Inr (YAPB_OK, Some p3, Some n) \<and>
           YAPB_load (Some q0) (Some (take n (buffer p3))) n = Inr (YAPB_OK, Some p4) \<and>
           YAPB_pop_double (Some p4) (Some w0) = Inr (r, Some p5, Some v) \<and>
           0 \<le> result_code r"
proof -
  from assms obtain b1 where
    init: "YAPB_initialize (Some p0) (Some buf) sz =
             Inr (YAPB_OK,
                  Some \<lparr>buffer = b1, buffer_size = sz, pos = 4, mode = YAPB_MODE_WRITE,
                        error = YAPB_OK, finalized = False\<rparr>)"
      "length b1 = length buf"
    using initialize_ok [of sz buf p0] by auto
  let ?p1 = "\<lparr>buffer = b1, buffer_size = sz, pos = 4, mode = YAPB_MODE_WRITE,
               error = YAPB_OK, finalized = False\<rparr>"
  from assms init(2) obtain b2 where
    push: "YAPB_push_double (Some ?p1) (Some v) =
             Inr (YAPB_OK, Some (?p1\<lparr>buffer := b2, pos := 4 + 1 + 8\<rparr>))"
      "length b2 = length buf" "b2 ! 4 = YAPB_DOUBLE" "read_u64 b2 (4 + 1) = Inr v"
    using YAPB_push_double_ok [of ?p1 v] by auto
  let ?p2 = "?p1\<lparr>buffer := b2, pos := 4 + 1 + 8\<rparr>"
  from assms push(2) obtain b3 p4 where
    fin: "YAPB_finalize (Some ?p2) (Some n0) =
            Inr (YAPB_OK, Some (?p2\<lparr>buffer := b3, finalized := True\<rparr>), Some (pos ?p2))" and
    load: "YAPB_load (Some q0) (Some (take (pos ?p2) b3)) (pos ?p2) = Inr (YAPB_OK, Some p4)" and
    p4: "mode p4 = YAPB_MODE_READ" "error p4 = YAPB_OK" "pos p4 = 4"
      "buffer_size p4 = 13" "length (buffer p4) = 13"
      "\<forall>i. 4 \<le> i \<and> i < 13 \<longrightarrow> buffer p4 ! i = b2 ! i"
    using finalize_then_load [of ?p2 n0 q0] by auto
  have tag: "buffer p4 ! pos p4 = YAPB_DOUBLE"
    using p4 push(3) by simp
  have "read_u64 (buffer p4) (4 + 1) = read_u64 b2 (4 + 1)"
    using p4 push(2) assms by (intro read_u64_eqI) auto
  with push(4) p4 have val: "read_u64 (buffer p4) (pos p4 + 1) = Inr v" by simp
  have pop: "YAPB_pop_double (Some p4) (Some w0) =
               Inr (check_complete (p4\<lparr>pos := pos p4 + 1 + 8\<rparr>),
                    Some (p4\<lparr>pos := pos p4 + 1 + 8\<rparr>), Some v)"
    using YAPB_pop_double_ok [of p4 v w0] p4 tag val by simp
  show ?thesis
    using init(1) push(1) fin load pop check_complete_nonneg by auto
qed

subsection \<open>What a call can return\<close>

text \<open>
  For each operation, the outcomes a call on a non-null handle can have when it returns
  at all: success, with the cursor advanced, or a negative code that is stored in the
  packet, the outputs being as they were.
\<close>

lemma negative_not_ok [simp]: "result_code r < 0 \<Longrightarrow> (r = YAPB_OK) = False"
  by (cases r) simp_all

lemma then_run_Inr_iff:
  "then_run m k = Inr y \<longleftrightarrow> (\<exists>x. m = Inr x \<and> k x = Inr y)"
  by (cases m) simp_all

lemma push_validate_cases [consumes 1, case_names ok fail]:
  assumes "push_validate (Some p) (Some v) needed = (r, pkt')"
  obtains "r = YAPB_OK" and "pkt' = Some p" and "mode p = YAPB_MODE_WRITE" and "\<not> finalized p"
      and "0 \<le> result_code (error p)" and "pos p + needed \<le> buffer_size p"
    | "result_code r < 0" and "pkt' = Some (p\<lparr>error := r\<rparr>)"
  using assms by (auto simp: push_validate_def split: if_splits)

lemma pop_validate_cases [consumes 1, case_names ok fail]:
  assumes "pop_validate (Some p) (Some w) expected type_size = Inr (r, pkt')"
  obtains "r = YAPB_OK" and "pkt' = Some (p\<lparr>pos := pos p + 1\<rparr>)" and "mode p = YAPB_MODE_READ"
      and "0 \<le> result_code (error p)" and "pos p + 1 + type_size \<le> buffer_size p"
      and "rd (buffer p) (pos p) = Inr expected"
    | "result_code r < 0" and "pkt' = Some (p\<lparr>error := r\<rparr>)"
  using assms by (auto simp: pop_validate_def then_run_Inr_iff split: if_splits)

lemma YAPB_push_i8_shape:
  assumes "YAPB_push_i8 (Some p) (Some v) = Inr (r, pkt')"
  shows "(r = YAPB_OK \<and> (\<exists>b. pkt' = Some (p\<lparr>buffer := b, pos := pos p + 2\<rparr>))) \<or>
         (result_code r < 0 \<and> pkt' = Some (p\<lparr>error := r\<rparr>))"
proof -
  obtain r1 pkt1 where pv: "push_validate (Some p) (Some v) (1 + 1) = (r1, pkt1)"
    by (cases "push_validate (Some p) (Some v) (1 + 1)")
  from pv show ?thesis
  proof (cases rule: push_validate_cases)
    case ok
    with assms pv show ?thesis
      by (auto simp: YAPB_push_i8_def then_run_Inr_iff)
  next
    case fail
    with assms pv show ?thesis
      by (auto simp: YAPB_push_i8_def)
  qed
qed

lemma YAPB_pop_i8_shape:
  assumes "YAPB_pop_i8 (Some p) (Some w) = Inr (r, pkt', out')"
  shows "(0 \<le> result_code r \<and> pkt' = Some (p\<lparr>pos := pos p + 1 + 1\<rparr>) \<and> (\<exists>v. out' = Some v)) \<or>
         (result_code r < 0 \<and> pkt' = Some (p\<lparr>error := r\<rparr>) \<and> out' = Some w)"
proof -
  from assms obtain r1 pkt1 where
    pv: "pop_validate (Some p) (Some w) YAPB_INT8 1 = Inr (r1, pkt1)"
    by (auto simp: YAPB_pop_i8_def then_run_Inr_iff)
  from pv show ?thesis
  proof (cases rule: pop_validate_cases)
    case ok
    with assms pv show ?thesis
      by (auto simp: YAPB_pop_i8_def then_run_Inr_iff Let_def check_complete_nonneg)
  next
    case fail
    with assms pv show ?thesis
      by (auto simp: YAPB_pop_i8_def)
  qed
qed

lemma YAPB_push_i16_shape:
  assumes "YAPB_push_i16 (Some p) (Some v) = Inr (r, pkt')"
  shows "(r = YAPB_OK \<and> (\<exists>b. pkt' = Some (p\<lparr>buffer := b, pos := pos p + 1 + 2\<rparr>))) \<or>
         (result_code r < 0 \<and> pkt' = Some (p\<lparr>error := r\<rparr>))"
proof -
  obtain r1 pkt1 where pv: "push_validate (Some p) (Some v) (1 + 2) = (r1, pkt1)"
    by (cases "push_validate (Some p) (Some v) (1 + 2)")
  from pv show ?thesis
  proof (cases rule: push_validate_cases)
    case ok
    with assms pv show ?thesis
      by (auto simp: YAPB_push_i16_def then_run_Inr_iff)
  next
    case fail
    with assms pv show ?thesis
      by (auto simp: YAPB_push_i16_def)
  qed
qed

lemma YAPB_pop_i16_shape:
  assumes "YAPB_pop_i16 (Some p) (Some w) = Inr (r, pkt', out')"
  shows "(0 \<le> result_code r \<and> pkt' = Some (p\<lparr>pos := pos p + 1 + 2\<rparr>) \<and> (\<exists>v. out' = Some v)) \<or>
         (result_code r < 0 \<and> pkt' = Some (p\<lparr>error := r\<rparr>) \<and> out' = Some w)"
proof -
  from assms obtain r1 pkt1 where
    pv: "pop_validate (Some p) (Some w) YAPB_INT16 2 = Inr (r1, pkt1)"
    by (auto simp: YAPB_pop_i16_def then_run_Inr_iff)
  from pv show ?thesis
  proof (cases rule: pop_validate_cases)
    case ok
    with assms pv show ?thesis
      by (auto simp: YAPB_pop_i16_def then_run_Inr_iff Let_def check_complete_nonneg)
  next
    case fail
    with assms pv show ?thesis
      by (auto simp: YAPB_pop_i16_def)
  qed
qed

lemma YAPB_push_i32_shape:
  assumes "YAPB_push_i32 (Some p) (Some v) = Inr (r, pkt')"
  shows "(r = YAPB_OK \<and> (\<exists>b. pkt' = Some (p\<lparr>buffer := b, pos := pos p + 1 + 4\<rparr>))) \<or>
         (result_code r < 0 \<and> pkt' = Some (p\<lparr>error := r\<rparr>))"
proof -
  obtain r1 pkt1 where pv: "push_validate (Some p) (Some v) (1 + 4) = (r1, pkt1)"
    by (cases "push_validate (Some p) (Some v) (1 + 4)")
  from pv show ?thesis
  proof (cases rule: push_validate_cases)
    case ok
    with assms pv show ?thesis
      by (auto simp: YAPB_push_i32_def then_run_Inr_iff)
  next
    case fail
    with assms pv show ?thesis
      by (auto simp: YAPB_push_i32_def)
  qed
qed

lemma YAPB_pop_i32_shape:
  assumes "YAPB_pop_i32 (Some p) (Some w) = Inr (r, pkt', out')"
  shows "(0 \<le> result_code r \<and> pkt' = Some (p\<lparr>pos := pos p + 1 + 4\<rparr>) \<and> (\<exists>v. out' = Some v)) \<or>
         (result_code r < 0 \<and> pkt' = Some (p\<lparr>error := r\<rparr>) \<and> out' = Some w)"
proof -
  from assms obtain r1 pkt1 where
    pv: "pop_validate (Some p) (Some w) YAPB_INT32 4 = Inr (r1, pkt1)"
    by (auto simp: YAPB_pop_i32_def then_run_Inr_iff)
  from pv show ?thesis
  proof (cases rule: pop_validate_cases)
    case ok
    with assms pv show ?thesis
      by (auto simp: YAPB_pop_i32_def then_run_Inr_iff Let_def check_complete_nonneg)
  next
    case fail
    with assms pv show ?thesis
      by (auto simp: YAPB_pop_i32_def)
  qed
qed

lemma YAPB_push_i64_shape:
  assumes "YAPB_push_i64 (Some p) (Some v) = Inr (r, pkt')"
  shows "(r = YAPB_OK \<and> (\<exists>b. pkt' = Some (p\<lparr>buffer := b, pos := pos p + 1 + 8\<rparr>))) \<or>
         (result_code r < 0 \<and> pkt' = Some (p\<lparr>error := r\<rparr>))"
proof -
  obtain r1 pkt1 where pv: "push_validate (Some p) (Some v) (1 + 8) = (r1, pkt1)"
    by (cases "push_validate (Some p) (Some v) (1 + 8)")
  from pv show ?thesis
  proof (cases rule: push_validate_cases)
    case ok
    with assms pv show ?thesis
      by (auto simp: YAPB_push_i64_def then_run_Inr_iff)
  next
    case fail
    with assms pv show ?thesis
      by (auto simp: YAPB_push_i64_def)
  qed
qed

lemma YAPB_pop_i64_shape:
  assumes "YAPB_pop_i64 (Some p) (Some w) = Inr (r, pkt', out')"
  shows "(0 \<le> result_code r \<and> pkt' = Some (p\<lparr>pos := pos p + 1 + 8\<rparr>) \<and> (\<exists>v. out' = Some v)) \<or>
         (result_code r < 0 \<and> pkt' = Some (p\<lparr>error := r\<rparr>) \<and> out' = Some w)"
proof -
  from assms obtain r1 pkt1 where
    pv: "pop_validate (Some p) (Some w) YAPB_INT64 8 = Inr (r1, pkt1)"
    by (auto simp: YAPB_pop_i64_def then_run_Inr_iff)
  from pv show ?thesis
  proof (cases rule: pop_validate_cases)
    case ok
    with assms pv show ?thesis
      by (auto simp: YAPB_pop_i64_def then_run_Inr_iff Let_def check_complete_nonneg)
  next
    case fail
    with assms pv show ?thesis
      by (auto simp: YAPB_pop_i64_def)
  qed
qed

lemma YAPB_push_float_shape:
  assumes "YAPB_push_float (Some p) (Some v) = Inr (r, pkt')"
  shows "(r = YAPB_OK \<and> (\<exists>b. pkt' = Some (p\<lparr>buffer := b, pos := pos p + 1 + 4\<rparr>))) \<or>
         (result_code r < 0 \<and> pkt' = Some (p\<lparr>error := r\<rparr>))"
proof -
  obtain r1 pkt1 where pv: "push_validate (Some p) (Some v) (1 + 4) = (r1, pkt1)"
    by (cases "push_validate (Some p) (Some v) (1 + 4)")
  from pv show ?thesis
  proof (cases rule: push_validate_cases)
    case ok
    with assms pv show ?thesis
      by (auto simp: YAPB_push_float_def then_run_Inr_iff)
  next
    case fail
    with assms pv show ?thesis
      by (auto simp: YAPB_push_float_def)
  qed
qed

lemma YAPB_pop_float_shape:
  assumes "YAPB_pop_float (Some p) (Some w) = Inr (r, pkt', out')"
  shows "(0 \<le> result_code r \<and> pkt' = Some (p\<lparr>pos := pos p + 1 + 4\<rparr>) \<and> (\<exists>v. out' = Some v)) \<or>
         (result_code r < 0 \<and> pkt' = Some (p\<lparr>error := r\<rparr>) \<and> out' = Some w)"
proof -
  from assms obtain r1 pkt1 where
    pv: "pop_validate (Some p) (Some w) YAPB_FLOAT 4 = Inr (r1, pkt1)"
    by (auto simp: YAPB_pop_float_def then_run_Inr_iff)
  from pv show ?thesis
  proof (cases rule: pop_validate_cases)
    case ok
    with assms pv show ?thesis
      by (auto simp: YAPB_pop_float_def then_run_Inr_iff Let_def check_complete_nonneg)
  next
    case fail
    with assms pv show ?thesis
      by (auto simp: YAPB_pop_float_def)
  qed
qed

lemma YAPB_push_double_shape:
  assumes "YAPB_push_double (Some p) (Some v) = Inr (r, pkt')"
  shows "(r = YAPB_OK \<and> (\<exists>b. pkt' = Some (p\<lparr>buffer := b, pos := pos p + 1 + 8\<rparr>))) \<or>
         (result_code r < 0 \<and> pkt' = Some (p\<lparr>error := r\<rparr>))"
proof -
  obtain r1 pkt1 where pv: "push_validate (Some p) (Some v) (1 + 8) = (r1, pkt1)"
    by (cases "push_validate (Some p) (Some v) (1 + 8)")
  from pv show ?thesis
  proof (cases rule: push_validate_cases)
    case ok
    with assms pv show ?thesis
      by (auto simp: YAPB_push_double_def then_run_Inr_iff)
  next
    case fail
    with assms pv show ?thesis
      by (auto simp: YAPB_push_double_def)
  qed
qed

lemma YAPB_pop_double_shape:
  assumes "YAPB_pop_double (Some p) (Some w) = Inr (r, pkt', out')"
  shows "(0 \<le> result_code r \<and> pkt' = Some (p\<lparr>pos := pos p + 1 + 8\<rparr>) \<and> (\<exists>v. out' = Some v)) \<or>
         (result_code r < 0 \<and> pkt' = Some (p\<lparr>error := r\<rparr>) \<and> out' = Some w)"
proof -
  from assms obtain r1 pkt1 where
    pv: "pop_validate (Some p) (Some w) YAPB_DOUBLE 8 = Inr (r1, pkt1)"
    by (auto simp: YAPB_pop_double_def then_run_Inr_iff)
  from pv show ?thesis
  proof (cases rule: pop_validate_cases)
    case ok
    with assms pv show ?thesis
      by (auto simp: YAPB_pop_double_def then_run_Inr_iff Let_def check_complete_nonneg)
  next
    case fail
    with assms pv show ?thesis
      by (auto simp: YAPB_pop_double_def)
  qed
qed

lemma YAPB_push_blob_shape:
  assumes "YAPB_push_blob (Some p) data len = Inr (r, pkt')"
  shows "(r = YAPB_OK \<and> (\<exists>b. pkt' = Some (p\<lparr>buffer := b, pos := pos p + 1 + 2 + unat len\<rparr>))) \<or>
         (result_code r < 0 \<and> pkt' = Some (p\<lparr>error := r\<rparr>)) \<or>
         (r = YAPB_ERR_NULL_PTR \<and> pkt' = Some p \<and> 0 < len \<and> data = None)"
proof (cases "len = 0")
  case True
  with assms show ?thesis
    by (auto simp: YAPB_push_blob_def then_run_Inr_iff split: if_splits)
next
  case False
  then have "0 < len" by (simp add: word_gt_0)
  with assms show ?thesis
    by (auto simp: YAPB_push_blob_def then_run_Inr_iff memcpy_def split: if_splits option.splits)
qed

lemma YAPB_push_nested_shape:
  assumes "YAPB_push_nested (Some p) (Some c) = Inr (r, pkt')"
  shows "(r = YAPB_OK \<and> (\<exists>b n. pkt' = Some (p\<lparr>buffer := b, pos := pos p + 1 + n\<rparr>))) \<or>
         (result_code r < 0 \<and> pkt' = Some (p\<lparr>error := r\<rparr>)) \<or>
         (r = YAPB_ERR_NULL_PTR \<and> pkt' = Some p \<and> mode c = YAPB_MODE_WRITE \<and> \<not> finalized c)"
  using assms
  by (auto simp: YAPB_push_nested_def YAPB_get_buffer_def then_run_Inr_iff memcpy_def Let_def
      split: if_splits option.splits)

lemma YAPB_pop_blob_shape:
  assumes "YAPB_pop_blob (Some p) (Some d) (Some l) = Inr (r, pkt', d', l')"
  shows "(0 \<le> result_code r \<and>
          (\<exists>n. l' = Some n \<and> pkt' = Some (p\<lparr>pos := pos p + 1 + 2 + unat n\<rparr>) \<and>
               d' = Some (Some (drop (pos p + 1 + 2) (buffer p))))) \<or>
         (result_code r < 0 \<and> pkt' = Some (p\<lparr>error := r\<rparr>) \<and> d' = Some d \<and> (\<exists>n. l' = Some n))"
proof (cases "pos p + 3 > buffer_size p")
  case True
  with assms show ?thesis by (auto simp: YAPB_pop_blob_def)
next
  case False
  with assms obtain n r1 pkt1 where
    n: "read_u16 (buffer p) (pos p + 1) = Inr n" and
    pv: "pop_validate (Some p) (Some d) YAPB_BLOB (unat n + 2) = Inr (r1, pkt1)"
    by (auto simp: YAPB_pop_blob_def then_run_Inr_iff)
  from pv show ?thesis
  proof (cases rule: pop_validate_cases)
    case ok
    with assms False n pv show ?thesis
      by (auto simp: YAPB_pop_blob_def Let_def check_complete_nonneg)
  next
    case fail
    with assms False n pv show ?thesis
      by (auto simp: YAPB_pop_blob_def)
  qed
qed

lemma YAPB_load_shape:
  assumes "YAPB_load (Some q) (Some d) sz = Inr (r, pkt')"
  shows "(r = YAPB_OK \<and>
          (\<exists>n. 4 \<le> n \<and> n \<le> sz \<and>
               pkt' = Some \<lparr>buffer = d, buffer_size = n, pos = 4, mode = YAPB_MODE_READ,
                             error = YAPB_OK, finalized = False\<rparr>)) \<or>
         (result_code r < 0 \<and> pkt' = Some q)"
  using assms
  by (auto simp: YAPB_load_def YAPB_HEADER_SIZE_def then_run_Inr_iff split: if_splits)

lemma YAPB_pop_nested_shape:
  assumes "YAPB_pop_nested (Some p) (Some c) = Inr (r, pkt', out')"
  shows "(0 \<le> result_code r \<and>
          (\<exists>n c'. pkt' = Some (p\<lparr>pos := pos p + 1 + n\<rparr>) \<and> out' = Some c')) \<or>
         (result_code r < 0 \<and> out' = Some c \<and>
          (pkt' = Some (p\<lparr>error := r\<rparr>) \<or> pkt' = Some (p\<lparr>pos := pos p + 1, error := r\<rparr>)))"
proof (cases "pos p + YAPB_HEADER_SIZE + 1 > buffer_size p")
  case True
  with assms show ?thesis by (auto simp: YAPB_pop_nested_def)
next
  case False
  with assms obtain n r1 pkt1 where
    n: "read_u32 (buffer p) (pos p + 1) = Inr n" and
    pv: "pop_validate (Some p) (Some c) YAPB_NESTED_PKT (unat n) = Inr (r1, pkt1)"
    by (auto simp: YAPB_pop_nested_def then_run_Inr_iff)
  from pv show ?thesis
  proof (cases rule: pop_validate_cases)
    case ok
    with assms False n pv obtain r2 out1 where
      ld: "YAPB_load (Some c) (Some (drop (pos p + 1) (buffer p))) (unat n) = Inr (r2, out1)"
      by (auto simp: YAPB_pop_nested_def then_run_Inr_iff)
    from YAPB_load_shape [OF ld] show ?thesis
    proof
      assume "r2 = YAPB_OK \<and>
          (\<exists>m. 4 \<le> m \<and> m \<le> unat n \<and>
               out1 = Some \<lparr>buffer = drop (pos p + 1) (buffer p), buffer_size = m, pos = 4,
                             mode = YAPB_MODE_READ, error = YAPB_OK, finalized = False\<rparr>)"
      with assms False n pv ok ld show ?thesis
        by (auto simp: YAPB_pop_nested_def Let_def check_complete_nonneg)
    next
      assume "result_code r2 < 0 \<and> out1 = Some c"
      with assms False n pv ok ld show ?thesis
        by (auto simp: YAPB_pop_nested_def)
    qed
  next
    case fail
    with assms False n pv show ?thesis
      by (auto simp: YAPB_pop_nested_def)
  qed
qed

lemma YAPB_pop_next_latches:
  assumes "YAPB_pop_next (Some p) (Some e) = Inr (r, pkt', out')" and "result_code r < 0"
  shows "\<exists>p'. pkt' = Some p' \<and> error p' = r"
proof (cases "result_code (error p) < 0 \<or> mode p \<noteq> YAPB_MODE_READ \<or> pos p \<ge> buffer_size p")
  case True
  with assms show ?thesis
    by (auto simp: YAPB_pop_next_def split: if_splits)
next
  case False
  with assms obtain ty where ty: "rd (buffer p) (pos p) = Inr ty"
    by (auto simp: YAPB_pop_next_def then_run_Inr_iff Let_def)
  let ?e = "e\<lparr>elem_type := ty\<rparr>"
  consider "ty = YAPB_INT8" | "ty = YAPB_INT16" | "ty = YAPB_INT32" | "ty = YAPB_INT64"
    | "ty = YAPB_FLOAT" | "ty = YAPB_DOUBLE" | "ty = YAPB_BLOB" | "ty = YAPB_NESTED_PKT"
    | "ty \<notin> {YAPB_INT8, YAPB_INT16, YAPB_INT32, YAPB_INT64, YAPB_FLOAT, YAPB_DOUBLE,
               YAPB_BLOB, YAPB_NESTED_PKT}"
    by auto
  then show ?thesis
  proof cases
    case 1
    with assms False ty obtain o' where
      "YAPB_pop_i8 (Some p) (Some (val_i8 ?e)) = Inr (r, pkt', o')"
      by (auto simp: YAPB_pop_next_def then_run_Inr_iff Let_def)
    from YAPB_pop_i8_shape [OF this] assms(2) show ?thesis by auto
  next
    case 2
    with assms False ty obtain o' where
      "YAPB_pop_i16 (Some p) (Some (val_i16 ?e)) = Inr (r, pkt', o')"
      by (auto simp: YAPB_pop_next_def then_run_Inr_iff tag_defs Let_def)
    from YAPB_pop_i16_shape [OF this] assms(2) show ?thesis by auto
  next
    case 3
    with assms False ty obtain o' where
      "YAPB_pop_i32 (Some p) (Some (val_i32 ?e)) = Inr (r, pkt', o')"
      by (auto simp: YAPB_pop_next_def then_run_Inr_iff tag_defs Let_def)
    from YAPB_pop_i32_shape [OF this] assms(2) show ?thesis by auto
  next
    case 4
    with assms False ty obtain o' where
      "YAPB_pop_i64 (Some p) (Some (val_i64 ?e)) = Inr (r, pkt', o')"
      by (auto simp: YAPB_pop_next_def then_run_Inr_iff tag_defs Let_def)
    from YAPB_pop_i64_shape [OF this] assms(2) show ?thesis by auto
  next
    case 5
    with assms False ty obtain o' where
      "YAPB_pop_float (Some p) (Some (val_f ?e)) = Inr (r, pkt', o')"
      by (auto simp: YAPB_pop_next_def then_run_Inr_iff tag_defs Let_def)
    from YAPB_pop_float_shape [OF this] assms(2) show ?thesis by auto
  next
    case 6
    with assms False ty obtain o' where
      "YAPB_pop_double (Some p) (Some (val_d ?e)) = Inr (r, pkt', o')"
      by (auto simp: YAPB_pop_next_def then_run_Inr_iff tag_defs Let_def)
    from YAPB_pop_double_shape [OF this] assms(2) show ?thesis by auto
  next
    case 7
    with assms False ty obtain d' l' where
      "YAPB_pop_blob (Some p) (Some (val_blob_data ?e)) (Some (val_blob_len ?e)) =
         Inr (r, pkt', d', l')"
      by (auto simp: YAPB_pop_next_def then_run_Inr_iff tag_defs Let_def)
    from YAPB_pop_blob_shape [OF this] assms(2) show ?thesis by auto
  next
    case 8
    with assms False ty obtain o' where
      "YAPB_pop_nested (Some p) (Some (val_nested ?e)) = Inr (r, pkt', o')"
      by (auto simp: YAPB_pop_next_def then_run_Inr_iff tag_defs Let_def)
    from YAPB_pop_nested_shape [OF this] assms(2) show ?thesis by auto
  next
    case 9
    with assms False ty show ?thesis
      by (auto simp: YAPB_pop_next_def Let_def)
  qed
qed


lemma push_validate_sticky:
  "result_code (error p) < 0 \<Longrightarrow> push_validate (Some p) (Some v) needed = (error p, Some p)"
  by (simp add: push_validate_def)

lemma pop_validate_sticky:
  "result_code (error p) < 0 \<Longrightarrow>
   pop_validate (Some p) (Some w) expected type_size = Inr (error p, Some p)"
  by (simp add: pop_validate_def)

lemma YAPB_push_i8_sticky:
  "result_code (error p) < 0 \<Longrightarrow> YAPB_push_i8 (Some p) (Some v) = Inr (error p, Some p)"
  by (simp add: YAPB_push_i8_def push_validate_sticky)

lemma YAPB_pop_i8_sticky:
  "result_code (error p) < 0 \<Longrightarrow>
   YAPB_pop_i8 (Some p) (Some w) = Inr (error p, Some p, Some w)"
  by (simp add: YAPB_pop_i8_def pop_validate_sticky)

lemma YAPB_push_i16_sticky:
  "result_code (error p) < 0 \<Longrightarrow> YAPB_push_i16 (Some p) (Some v) = Inr (error p, Some p)"
  by (simp add: YAPB_push_i16_def push_validate_sticky)

lemma YAPB_pop_i16_sticky:
  "result_code (error p) < 0 \<Longrightarrow>
   YAPB_pop_i16 (Some p) (Some w) = Inr (error p, Some p, Some w)"
  by (simp add: YAPB_pop_i16_def pop_validate_sticky)

lemma YAPB_push_i32_sticky:
  "result_code (error p) < 0 \<Longrightarrow> YAPB_push_i32 (Some p) (Some v) = Inr (error p, Some p)"
  by (simp add: YAPB_push_i32_def push_validate_sticky)

lemma YAPB_pop_i32_sticky:
  "result_code (error p) < 0 \<Longrightarrow>
   YAPB_pop_i32 (Some p) (Some w) = Inr (error p, Some p, Some w)"
  by (simp add: YAPB_pop_i32_def pop_validate_sticky)

lemma YAPB_push_i64_sticky:
  "result_code (error p) < 0 \<Longrightarrow> YAPB_push_i64 (Some p) (Some v) = Inr (error p, Some p)"
  by (simp add: YAPB_push_i64_def push_validate_sticky)

lemma YAPB_pop_i64_sticky:
  "result_code (error p) < 0 \<Longrightarrow>
   YAPB_pop_i64 (Some p) (Some w) = Inr (error p, Some p, Some w)"
  by (simp add: YAPB_pop_i64_def pop_validate_sticky)

lemma YAPB_push_float_sticky:
  "result_code (error p) < 0 \<Longrightarrow> YAPB_push_float (Some p) (Some v) = Inr (error p, Some p)"
  by (simp add: YAPB_push_float_def push_validate_sticky)

lemma YAPB_pop_float_sticky:
  "result_code (error p) < 0 \<Longrightarrow>
   YAPB_pop_float (Some p) (Some w) = Inr (error p, Some p, Some w)"
  by (simp add: YAPB_pop_float_def pop_validate_sticky)

lemma YAPB_push_double_sticky:
  "result_code (error p) < 0 \<Longrightarrow> YAPB_push_double (Some p) (Some v) = Inr (error p, Some p)"
  by (simp add: YAPB_push_double_def push_validate_sticky)

lemma YAPB_pop_double_sticky:
  "result_code (error p) < 0 \<Longrightarrow>
   YAPB_pop_double (Some p) (Some w) = Inr (error p, Some p, Some w)"
  by (simp add: YAPB_pop_double_def pop_validate_sticky)

lemma YAPB_push_blob_sticky:
  "result_code (error p) < 0 \<Longrightarrow> YAPB_push_blob (Some p) data len = Inr (error p, Some p)"
  by (simp add: YAPB_push_blob_def)

lemma YAPB_push_nested_sticky:
  "result_code (error p) < 0 \<Longrightarrow> mode c = YAPB_MODE_READ \<or> finalized c \<Longrightarrow>
   YAPB_push_nested (Some p) (Some c) = Inr (error p, Some p)"
  by (auto simp add: YAPB_push_nested_def YAPB_get_buffer_def)

lemma YAPB_pop_next_sticky:
  "result_code (error p) < 0 \<Longrightarrow>
   YAPB_pop_next (Some p) (Some e) = Inr (error p, Some p, Some e)"
  by (simp add: YAPB_pop_next_def)

lemma push_null: "push_validate (Some p) None needed = (YAPB_ERR_NULL_PTR, Some p)"
  by (simp add: push_validate_def)

lemma pop_null: "pop_validate (Some p) None expected k = Inr (YAPB_ERR_NULL_PTR, Some p)"
  by (simp add: pop_validate_def)


subsection \<open>Calls on well-formed packets\<close>

lemma read_u64_in:
  "off + 8 \<le> length b \<Longrightarrow> \<exists>v. read_u64 b off = Inr v"
  by (simp add: read_u64_def read_u32_in)

lemma pop_validate_checked:
  assumes "valid_packet p"
  shows "pop_validate (Some p) (Some w) tag k =
           (case first_failed_check p tag k of
              Some e \<Rightarrow> Inr (e, Some (p\<lparr>error := e\<rparr>))
            | None \<Rightarrow> Inr (YAPB_OK, Some (p\<lparr>pos := pos p + 1\<rparr>)))"
  using assms
  by (auto simp: pop_validate_def first_failed_check_def valid_packet_def)

lemma first_failed_check_None:
  "first_failed_check p tag k = None \<Longrightarrow>
   0 \<le> result_code (error p) \<and> mode p = YAPB_MODE_READ \<and> pos p + 1 + k \<le> buffer_size p \<and>
   buffer p ! pos p = tag"
  by (auto simp: first_failed_check_def split: if_splits)

lemma first_failed_check_Some:
  "first_failed_check p tag k = Some e \<Longrightarrow> result_code e < 0"
  by (auto simp: first_failed_check_def split: if_splits)

lemma YAPB_pop_i8_checked:
  assumes "valid_packet p"
  shows "\<exists>r p' out'.
           YAPB_pop_i8 (Some p) (Some w) = Inr (r, Some p', out') \<and> valid_packet p' \<and>
           (case first_failed_check p YAPB_INT8 1 of
              Some e \<Rightarrow> r = e \<and> p' = p\<lparr>error := e\<rparr> \<and> out' = Some w
            | None \<Rightarrow> r = check_complete p' \<and> p' = p\<lparr>pos := pos p + 1 + 1\<rparr> \<and>
                      (\<exists>v. out' = Some v \<and> rd (buffer p) (pos p + 1) = Inr v))"
proof (cases "first_failed_check p YAPB_INT8 1")
  case (Some e)
  with assms first_failed_check_Some [OF Some] show ?thesis
    by (simp add: YAPB_pop_i8_def pop_validate_checked valid_packet_def)
next
  case None
  from first_failed_check_None [OF None] assms
  have b: "pos p + 1 + 1 \<le> length (buffer p)" and c: "pos p + 1 + 1 \<le> buffer_size p"
    by (auto simp: valid_packet_def)
  then obtain v where v: "rd (buffer p) (pos p + 1) = Inr v"
    using rd_in [of "pos p + 1" "buffer p"] by auto
  with assms None c show ?thesis
    by (simp add: YAPB_pop_i8_def pop_validate_checked valid_packet_def Let_def)
qed

lemma YAPB_pop_i16_checked:
  assumes "valid_packet p"
  shows "\<exists>r p' out'.
           YAPB_pop_i16 (Some p) (Some w) = Inr (r, Some p', out') \<and> valid_packet p' \<and>
           (case first_failed_check p YAPB_INT16 2 of
              Some e \<Rightarrow> r = e \<and> p' = p\<lparr>error := e\<rparr> \<and> out' = Some w
            | None \<Rightarrow> r = check_complete p' \<and> p' = p\<lparr>pos := pos p + 1 + 2\<rparr> \<and>
                      (\<exists>v. out' = Some v \<and> read_u16 (buffer p) (pos p + 1) = Inr v))"
proof (cases "first_failed_check p YAPB_INT16 2")
  case (Some e)
  with assms first_failed_check_Some [OF Some] show ?thesis
    by (simp add: YAPB_pop_i16_def pop_validate_checked valid_packet_def)
next
  case None
  from first_failed_check_None [OF None] assms
  have b: "pos p + 1 + 2 \<le> length (buffer p)" and c: "pos p + 1 + 2 \<le> buffer_size p"
    by (auto simp: valid_packet_def)
  then obtain v where v: "read_u16 (buffer p) (pos p + 1) = Inr v"
    using read_u16_in [of "pos p + 1" "buffer p"] by auto
  with assms None c show ?thesis
    by (simp add: YAPB_pop_i16_def pop_validate_checked valid_packet_def Let_def)
qed

lemma YAPB_pop_i32_checked:
  assumes "valid_packet p"
  shows "\<exists>r p' out'.
           YAPB_pop_i32 (Some p) (Some w) = Inr (r, Some p', out') \<and> valid_packet p' \<and>
           (case first_failed_check p YAPB_INT32 4 of
              Some e \<Rightarrow> r = e \<and> p' = p\<lparr>error := e\<rparr> \<and> out' = Some w
            | None \<Rightarrow> r = check_complete p' \<and> p' = p\<lparr>pos := pos p + 1 + 4\<rparr> \<and>
                      (\<exists>v. out' = Some v \<and> read_u32 (buffer p) (pos p + 1) = Inr v))"
proof (cases "first_failed_check p YAPB_INT32 4")
  case (Some e)
  with assms first_failed_check_Some [OF Some] show ?thesis
    by (simp add: YAPB_pop_i32_def pop_validate_checked valid_packet_def)
next
  case None
  from first_failed_check_None [OF None] assms
  have b: "pos p + 1 + 4 \<le> length (buffer p)" and c: "pos p + 1 + 4 \<le> buffer_size p"
    by (auto simp: valid_packet_def)
  then obtain v where v: "read_u32 (buffer p) (pos p + 1) = Inr v"
    using read_u32_in [of "pos p + 1" "buffer p"] by auto
  with assms None c show ?thesis
    by (simp add: YAPB_pop_i32_def pop_validate_checked valid_packet_def Let_def)
qed

lemma YAPB_pop_i64_checked:
  assumes "valid_packet p"
  shows "\<exists>r p' out'.
           YAPB_pop_i64 (Some p) (Some w) = Inr (r, Some p', out') \<and> valid_packet p' \<and>
           (case first_failed_check p YAPB_INT64 8 of
              Some e \<Rightarrow> r = e \<and> p' = p\<lparr>error := e\<rparr> \<and> out' = Some w
            | None \<Rightarrow> r = check_complete p' \<and> p' = p\<lparr>pos := pos p + 1 + 8\<rparr> \<and>
                      (\<exists>v. out' = Some v \<and> read_u64 (buffer p) (pos p + 1) = Inr v))"
proof (cases "first_failed_check p YAPB_INT64 8")
  case (Some e)
  with assms first_failed_check_Some [OF Some] show ?thesis
    by (simp add: YAPB_pop_i64_def pop_validate_checked valid_packet_def)
next
  case None
  from first_failed_check_None [OF None] assms
  have b: "pos p + 1 + 8 \<le> length (buffer p)" and c: "pos p + 1 + 8 \<le> buffer_size p"
    by (auto simp: valid_packet_def)
  then obtain v where v: "read_u64 (buffer p) (pos p + 1) = Inr v"
    using read_u64_in [of "pos p + 1" "buffer p"] by auto
  with assms None c show ?thesis
    by (simp add: YAPB_pop_i64_def pop_validate_checked valid_packet_def Let_def)
qed

lemma YAPB_pop_float_checked:
  assumes "valid_packet p"
  shows "\<exists>r p' out'.
           YAPB_pop_float (Some p) (Some w) = Inr (r, Some p', out') \<and> valid_packet p' \<and>
           (case first_failed_check p YAPB_FLOAT 4 of
              Some e \<Rightarrow> r = e \<and> p' = p\<lparr>error := e\<rparr> \<and> out' = Some w
            | None \<Rightarrow> r = check_complete p' \<and> p' = p\<lparr>pos := pos p + 1 + 4\<rparr> \<and>
                      (\<exists>v. out' = Some v \<and> read_u32 (buffer p) (pos p + 1) = Inr v))"
proof (cases "first_failed_check p YAPB_FLOAT 4")
  case (Some e)
  with assms first_failed_check_Some [OF Some] show ?thesis
    by (simp add: YAPB_pop_float_def pop_validate_checked valid_packet_def)
next
  case None
  from first_failed_check_None [OF None] assms
  have b: "pos p + 1 + 4 \<le> length (buffer p)" and c: "pos p + 1 + 4 \<le> buffer_size p"
    by (auto simp: valid_packet_def)
  then obtain v where v: "read_u32 (buffer p) (pos p + 1) = Inr v"
    using read_u32_in [of "pos p + 1" "buffer p"] by auto
  with assms None c show ?thesis
    by (simp add: YAPB_pop_float_def pop_validate_checked valid_packet_def Let_def)
qed

lemma YAPB_pop_double_checked:
  assumes "valid_packet p"
  shows "\<exists>r p' out'.
           YAPB_pop_double (Some p) (Some w) = Inr (r, Some p', out') \<and> valid_packet p' \<and>
           (case first_failed_check p YAPB_DOUBLE 8 of
              Some e \<Rightarrow> r = e \<and> p' = p\<lparr>error := e\<rparr> \<and> out' = Some w
            | None \<Rightarrow> r = check_complete p' \<and> p' = p\<lparr>pos := pos p + 1 + 8\<rparr> \<and>
                      (\<exists>v. out' = Some v \<and> read_u64 (buffer p) (pos p + 1) = Inr v))"
proof (cases "first_failed_check p YAPB_DOUBLE 8")
  case (Some e)
  with assms first_failed_check_Some [OF Some] show ?thesis
    by (simp add: YAPB_pop_double_def pop_validate_checked valid_packet_def)
next
  case None
  from first_failed_check_None [OF None] assms
  have b: "pos p + 1 + 8 \<le> length (buffer p)" and c: "pos p + 1 + 8 \<le> buffer_size p"
    by (auto simp: valid_packet_def)
  then obtain v where v: "read_u64 (buffer p) (pos p + 1) = Inr v"
    using read_u64_in [of "pos p + 1" "buffer p"] by auto
  with assms None c show ?thesis
    by (simp add: YAPB_pop_double_def pop_validate_checked valid_packet_def Let_def)
qed

lemma valid_packet_error [simp]: "valid_packet (p\<lparr>error := e\<rparr>) = valid_packet p"
  by (simp add: valid_packet_def)

lemma YAPB_push_i8_safe:
  assumes "valid_packet p"
  shows "\<exists>r p'. YAPB_push_i8 (Some p) (Some v) = Inr (r, Some p') \<and> valid_packet p'"
proof (cases "result_code (error p) < 0 \<or> mode p \<noteq> YAPB_MODE_WRITE \<or> finalized p \<or>
              pos p + (1 + 1) > buffer_size p")
  case True
  with assms show ?thesis
    by (auto simp: YAPB_push_i8_def push_validate_def)
next
  case False
  with assms obtain b where
    "YAPB_push_i8 (Some p) (Some v) = Inr (YAPB_OK, Some (p\<lparr>buffer := b, pos := pos p + 2\<rparr>))"
    "length b = length (buffer p)"
    using YAPB_push_i8_ok [of p v] by (auto simp: valid_packet_def)
  with assms False show ?thesis
    by (auto simp: valid_packet_def)
qed

lemma YAPB_pop_i8_safe:
  assumes "valid_packet p"
  shows "\<exists>r p' out'. YAPB_pop_i8 (Some p) (Some w) = Inr (r, Some p', out') \<and> valid_packet p'"
  using YAPB_pop_i8_checked [OF assms, of w] by blast

lemma YAPB_push_i16_safe:
  assumes "valid_packet p"
  shows "\<exists>r p'. YAPB_push_i16 (Some p) (Some v) = Inr (r, Some p') \<and> valid_packet p'"
proof (cases "result_code (error p) < 0 \<or> mode p \<noteq> YAPB_MODE_WRITE \<or> finalized p \<or>
              pos p + (1 + 2) > buffer_size p")
  case True
  with assms show ?thesis
    by (auto simp: YAPB_push_i16_def push_validate_def)
next
  case False
  with assms obtain b where
    "YAPB_push_i16 (Some p) (Some v) = Inr (YAPB_OK, Some (p\<lparr>buffer := b, pos := pos p + 1 + 2\<rparr>))"
    "length b = length (buffer p)"
    using YAPB_push_i16_ok [of p v] by (auto simp: valid_packet_def)
  with assms False show ?thesis
    by (auto simp: valid_packet_def)
qed

lemma YAPB_pop_i16_safe:
  assumes "valid_packet p"
  shows "\<exists>r p' out'. YAPB_pop_i16 (Some p) (Some w) = Inr (r, Some p', out') \<and> valid_packet p'"
  using YAPB_pop_i16_checked [OF assms, of w] by blast

lemma YAPB_push_i32_safe:
  assumes "valid_packet p"
  shows "\<exists>r p'. YAPB_push_i32 (Some p) (Some v) = Inr (r, Some p') \<and> valid_packet p'"
proof (cases "result_code (error p) < 0 \<or> mode p \<noteq> YAPB_MODE_WRITE \<or> finalized p \<or>
              pos p + (1 + 4) > buffer_size p")
  case True
  with assms show ?thesis
    by (auto simp: YAPB_push_i32_def push_validate_def)
next
  case False
  with assms obtain b where
    "YAPB_push_i32 (Some p) (Some v) = Inr (YAPB_OK, Some (p\<lparr>buffer := b, pos := pos p + 1 + 4\<rparr>))"
    "length b = length (buffer p)"
    using YAPB_push_i32_ok [of p v] by (auto simp: valid_packet_def)
  with assms False show ?thesis
    by (auto simp: valid_packet_def)
qed

lemma YAPB_pop_i32_safe:
  assumes "valid_packet p"
  shows "\<exists>r p' out'. YAPB_pop_i32 (Some p) (Some w) = Inr (r, Some p', out') \<and> valid_packet p'"
  using YAPB_pop_i32_checked [OF assms, of w] by blast

lemma YAPB_push_i64_safe:
  assumes "valid_packet p"
  shows "\<exists>r p'. YAPB_push_i64 (Some p) (Some v) = Inr (r, Some p') \<and> valid_packet p'"
proof (cases "result_code (error p) < 0 \<or> mode p \<noteq> YAPB_MODE_WRITE \<or> finalized p \<or>
              pos p + (1 + 8) > buffer_size p")
  case True
  with assms show ?thesis
    by (auto simp: YAPB_push_i64_def push_validate_def)
next
  case False
  with assms obtain b where
    "YAPB_push_i64 (Some p) (Some v) = Inr (YAPB_OK, Some (p\<lparr>buffer := b, pos := pos p + 1 + 8\<rparr>))"
    "length b = length (buffer p)"
    using YAPB_push_i64_ok [of p v] by (auto simp: valid_packet_def)
  with assms False show ?thesis
    by (auto simp: valid_packet_def)
qed

lemma YAPB_pop_i64_safe:
  assumes "valid_packet p"
  shows "\<exists>r p' out'. YAPB_pop_i64 (Some p) (Some w) = Inr (r, Some p', out') \<and> valid_packet p'"
  using YAPB_pop_i64_checked [OF assms, of w] by blast

lemma YAPB_push_float_safe:
  assumes "valid_packet p"
  shows "\<exists>r p'. YAPB_push_float (Some p) (Some v) = Inr (r, Some p') \<and> valid_packet p'"
proof (cases "result_code (error p) < 0 \<or> mode p \<noteq> YAPB_MODE_WRITE \<or> finalized p \<or>
              pos p + (1 + 4) > buffer_size p")
  case True
  with assms show ?thesis
    by (auto simp: YAPB_push_float_def push_validate_def)
next
  case False
  with assms obtain b where
    "YAPB_push_float (Some p) (Some v) = Inr (YAPB_OK, Some (p\<lparr>buffer := b, pos := pos p + 1 + 4\<rparr>))"
    "length b = length (buffer p)"
    using YAPB_push_float_ok [of p v] by (auto simp: valid_packet_def)
  with assms False show ?thesis
    by (auto simp: valid_packet_def)
qed

lemma YAPB_pop_float_safe:
  assumes "valid_packet p"
  shows "\<exists>r p' out'. YAPB_pop_float (Some p) (Some w) = Inr (r, Some p', out') \<and> valid_packet p'"
  using YAPB_pop_float_checked [OF assms, of w] by blast

lemma YAPB_push_double_safe:
  assumes "valid_packet p"
  shows "\<exists>r p'. YAPB_push_double (Some p) (Some v) = Inr (r, Some p') \<and> valid_packet p'"
proof (cases "result_code (error p) < 0 \<or> mode p \<noteq> YAPB_MODE_WRITE \<or> finalized p \<or>
              pos p + (1 + 8) > buffer_size p")
  case True
  with assms show ?thesis
    by (auto simp: YAPB_push_double_def push_validate_def)
next
  case False
  with assms obtain b where
    "YAPB_push_double (Some p) (Some v) = Inr (YAPB_OK, Some (p\<lparr>buffer := b, pos := pos p + 1 + 8\<rparr>))"
    "length b = length (buffer p)"
    using YAPB_push_double_ok [of p v] by (auto simp: valid_packet_def)
  with assms False show ?thesis
    by (auto simp: valid_packet_def)
qed

lemma YAPB_pop_double_safe:
  assumes "valid_packet p"
  shows "\<exists>r p' out'. YAPB_pop_double (Some p) (Some w) = Inr (r, Some p', out') \<and> valid_packet p'"
  using YAPB_pop_double_checked [OF assms, of w] by blast

lemma YAPB_finalize_safe:
  assumes "valid_packet p"
  shows "\<exists>r p' n'. YAPB_finalize (Some p) out_len = Inr (r, Some p', n') \<and> valid_packet p'"
proof (cases "mode p \<noteq> YAPB_MODE_WRITE \<or> finalized p")
  case True
  with assms show ?thesis by (auto simp: YAPB_finalize_def)
next
  case False
  with assms obtain b where
    "write_u32 (buffer p) 0 (word_of_nat (pos p)) = Inr b" "length b = length (buffer p)"
    using finalize_ok [of p 0] by (auto simp: valid_packet_def YAPB_HEADER_SIZE_def)
  with assms False show ?thesis
    by (auto simp: YAPB_finalize_def valid_packet_def Let_def)
qed

lemma YAPB_push_blob_safe:
  assumes "valid_packet p" and "\<And>d. data = Some d \<Longrightarrow> unat len \<le> length d"
  shows "\<exists>r p'. YAPB_push_blob (Some p) data len = Inr (r, Some p') \<and> valid_packet p'"
proof (cases "result_code (error p) < 0 \<or> (len > 0 \<and> data = None) \<or> mode p \<noteq> YAPB_MODE_WRITE \<or>
              finalized p \<or> pos p + 1 + 2 + unat len > buffer_size p")
  case True
  with assms(1) show ?thesis
    by (auto simp: YAPB_push_blob_def)
next
  case False
  let ?b1 = "(buffer p)[pos p := YAPB_BLOB]"
  from False assms(1) have l: "pos p + 1 + 2 + unat len \<le> length (buffer p)"
    by (auto simp: valid_packet_def)
  then obtain b2 where b2: "write_u16 ?b1 (pos p + 1) len = Inr b2" "length b2 = length (buffer p)"
    using write_u16_in [of "pos p + 1" ?b1 len] by auto
  show ?thesis
  proof (cases "len > 0")
    case True
    with False obtain d where d: "data = Some d" by auto
    with assms(2) have "unat len \<le> length d" by simp
    with l b2 d True False assms(1) show ?thesis
      by (auto simp: YAPB_push_blob_def memcpy_def valid_packet_def)
  next
    case False
    then have "len = 0" by (simp add: word_gt_0)
    with l b2 \<open>\<not> (result_code (error p) < 0 \<or> (len > 0 \<and> data = None) \<or>
        mode p \<noteq> YAPB_MODE_WRITE \<or> finalized p \<or> pos p + 1 + 2 + unat len > buffer_size p)\<close>
      assms(1) show ?thesis
      by (auto simp: YAPB_push_blob_def valid_packet_def)
  qed
qed

lemma YAPB_push_nested_safe:
  assumes "valid_packet p" and "\<And>c. nested = Some c \<Longrightarrow> valid_packet c"
  shows "\<exists>r p'. YAPB_push_nested (Some p) nested = Inr (r, Some p') \<and> valid_packet p'"
proof (cases "YAPB_get_buffer nested (Some 0)")
  case (Pair nested_buf nl)
  show ?thesis
  proof (cases nested_buf)
    case None
    with Pair assms(1) show ?thesis by (simp add: YAPB_push_nested_def)
  next
    case (Some nb)
    with Pair obtain c where c: "nested = Some c" "nb = buffer c"
      "nl = Some (if mode c = YAPB_MODE_READ then buffer_size c else pos c)"
      by (auto simp: YAPB_get_buffer_def split: option.splits if_splits)
    let ?n = "if mode c = YAPB_MODE_READ then buffer_size c else pos c"
    from assms(2) c have n: "?n \<le> length nb" by (auto simp: valid_packet_def)
    show ?thesis
    proof (cases "result_code (error p) < 0 \<or> mode p \<noteq> YAPB_MODE_WRITE \<or> finalized p \<or>
                  pos p + 1 + ?n > buffer_size p")
      case True
      with Pair Some c assms(1) show ?thesis
        by (auto simp: YAPB_push_nested_def Let_def)
    next
      case False
      with Pair Some c n assms(1) show ?thesis
        by (auto simp: YAPB_push_nested_def Let_def memcpy_def valid_packet_def)
    qed
  qed
qed

lemma YAPB_pop_blob_safe:
  assumes "valid_packet p"
  shows "\<exists>r p' d' l'. YAPB_pop_blob (Some p) data (Some l) = Inr (r, Some p', d', l') \<and>
                       valid_packet p'"
proof (cases "pos p + 3 > buffer_size p")
  case True
  with assms show ?thesis by (simp add: YAPB_pop_blob_def)
next
  case False
  with assms have "pos p + 1 + 2 \<le> length (buffer p)" by (simp add: valid_packet_def)
  then obtain n where n: "read_u16 (buffer p) (pos p + 1) = Inr n"
    by (simp add: read_u16_in)
  show ?thesis
  proof (cases data)
    case None
    with False n assms show ?thesis
      by (simp add: YAPB_pop_blob_def pop_validate_def)
  next
    case (Some d)
    show ?thesis
    proof (cases "first_failed_check p YAPB_BLOB (unat n + 2)")
      case None
      from first_failed_check_None [OF None] assms None Some False n show ?thesis
        by (simp add: YAPB_pop_blob_def pop_validate_checked Let_def valid_packet_def)
    next
      case (Some e)
      with first_failed_check_Some [OF Some] assms \<open>data = Some d\<close> False n show ?thesis
        by (simp add: YAPB_pop_blob_def pop_validate_checked)
    qed
  qed
qed

lemma YAPB_pop_nested_safe:
  assumes "valid_packet p"
  shows "\<exists>r p' out'. YAPB_pop_nested (Some p) out = Inr (r, Some p', out') \<and> valid_packet p' \<and>
                      (0 \<le> result_code r \<longrightarrow> (\<exists>c. out' = Some c \<and> valid_packet c))"
proof (cases "pos p + YAPB_HEADER_SIZE + 1 > buffer_size p")
  case True
  with assms show ?thesis by (simp add: YAPB_pop_nested_def)
next
  case False
  with assms have "pos p + 1 + 4 \<le> length (buffer p)"
    by (simp add: valid_packet_def YAPB_HEADER_SIZE_def)
  then obtain n where n: "read_u32 (buffer p) (pos p + 1) = Inr n"
    by (simp add: read_u32_in)
  show ?thesis
  proof (cases out)
    case None
    with False n assms show ?thesis
      by (simp add: YAPB_pop_nested_def pop_validate_def)
  next
    case (Some c)
    show ?thesis
    proof (cases "first_failed_check p YAPB_NESTED_PKT (unat n)")
      case (Some e)
      with first_failed_check_Some [OF Some] assms \<open>out = Some c\<close> False n show ?thesis
        by (simp add: YAPB_pop_nested_def pop_validate_checked)
    next
      case None
      let ?d = "drop (pos p + 1) (buffer p)"
      from first_failed_check_None [OF None] assms
      have sz: "unat n \<le> length ?d" and b: "pos p + 1 + unat n \<le> buffer_size p"
        by (auto simp: valid_packet_def)
      note ld = YAPB_load_eq [OF sz, of c]
      show ?thesis
      proof (cases "unat n < 4 \<or> declared_length ?d > unat n \<or> declared_length ?d < 4")
        case True
        with assms None \<open>out = Some c\<close> False n ld show ?thesis
          by (auto simp: YAPB_pop_nested_def pop_validate_checked valid_packet_def)
      next
        case False
        with assms None \<open>out = Some c\<close> \<open>\<not> pos p + YAPB_HEADER_SIZE + 1 > buffer_size p\<close> n ld sz b
        show ?thesis
          by (auto simp: YAPB_pop_nested_def pop_validate_checked valid_packet_def Let_def
              check_complete_nonneg YAPB_HEADER_SIZE_def)
      qed
    qed
  qed
qed

lemma YAPB_pop_next_safe:
  assumes "valid_packet p"
  shows "\<exists>r p' e'. YAPB_pop_next (Some p) (Some e) = Inr (r, Some p', e') \<and> valid_packet p'"
proof (cases "result_code (error p) < 0 \<or> mode p \<noteq> YAPB_MODE_READ \<or> pos p \<ge> buffer_size p")
  case True
  with assms show ?thesis
    by (auto simp: YAPB_pop_next_def)
next
  case False
  with assms have ty: "rd (buffer p) (pos p) = Inr (buffer p ! pos p)"
    by (simp add: valid_packet_def)
  let ?ty = "buffer p ! pos p"
  let ?e = "e\<lparr>elem_type := ?ty\<rparr>"
  consider "?ty = YAPB_INT8" | "?ty = YAPB_INT16" | "?ty = YAPB_INT32" | "?ty = YAPB_INT64"
    | "?ty = YAPB_FLOAT" | "?ty = YAPB_DOUBLE" | "?ty = YAPB_BLOB" | "?ty = YAPB_NESTED_PKT"
    | "?ty \<notin> {YAPB_INT8, YAPB_INT16, YAPB_INT32, YAPB_INT64, YAPB_FLOAT, YAPB_DOUBLE,
               YAPB_BLOB, YAPB_NESTED_PKT}"
    by auto
  then show ?thesis
  proof cases
    case 1
    from YAPB_pop_i8_safe [OF assms, of "val_i8 ?e"] obtain r p' o' where
      "YAPB_pop_i8 (Some p) (Some (val_i8 ?e)) = Inr (r, Some p', o')" "valid_packet p'"
      by blast
    with 1 False ty show ?thesis
      by (simp add: YAPB_pop_next_def Let_def tag_defs)
  next
    case 2
    from YAPB_pop_i16_safe [OF assms, of "val_i16 ?e"] obtain r p' o' where
      "YAPB_pop_i16 (Some p) (Some (val_i16 ?e)) = Inr (r, Some p', o')" "valid_packet p'"
      by blast
    with 2 False ty show ?thesis
      by (simp add: YAPB_pop_next_def Let_def tag_defs)
  next
    case 3
    from YAPB_pop_i32_safe [OF assms, of "val_i32 ?e"] obtain r p' o' where
      "YAPB_pop_i32 (Some p) (Some (val_i32 ?e)) = Inr (r, Some p', o')" "valid_packet p'"
      by blast
    with 3 False ty show ?thesis
      by (simp add: YAPB_pop_next_def Let_def tag_defs)
  next
    case 4
    from YAPB_pop_i64_safe [OF assms, of "val_i64 ?e"] obtain r p' o' where
      "YAPB_pop_i64 (Some p) (Some (val_i64 ?e)) = Inr (r, Some p', o')" "valid_packet p'"
      by blast
    with 4 False ty show ?thesis
      by (simp add: YAPB_pop_next_def Let_def tag_defs)
  next
    case 5
    from YAPB_pop_float_safe [OF assms, of "val_f ?e"] obtain r p' o' where
      "YAPB_pop_float (Some p) (Some (val_f ?e)) = Inr (r, Some p', o')" "valid_packet p'"
      by blast
    with 5 False ty show ?thesis
      by (simp add: YAPB_pop_next_def Let_def tag_defs)
  next
    case 6
    from YAPB_pop_double_safe [OF assms, of "val_d ?e"] obtain r p' o' where
      "YAPB_pop_double (Some p) (Some (val_d ?e)) = Inr (r, Some p', o')" "valid_packet p'"
      by blast
    with 6 False ty show ?thesis
      by (simp add: YAPB_pop_next_def Let_def tag_defs)
  next
    case 7
    from YAPB_pop_blob_safe [OF assms, of "Some (val_blob_data ?e)" "val_blob_len ?e"]
    obtain r p' d' l' where
      "YAPB_pop_blob (Some p) (Some (val_blob_data ?e)) (Some (val_blob_len ?e)) =
         Inr (r, Some p', d', l')" "valid_packet p'"
      by blast
    with 7 False ty show ?thesis
      by (simp add: YAPB_pop_next_def Let_def tag_defs)
  next
    case 8
    from YAPB_pop_nested_safe [OF assms, of "Some (val_nested ?e)"] obtain r p' o' where
      "YAPB_pop_nested (Some p) (Some (val_nested ?e)) = Inr (r, Some p', o')" "valid_packet p'"
      by blast
    with 8 False ty show ?thesis
      by (simp add: YAPB_pop_next_def Let_def tag_defs)
  next
    case 9
    with assms False ty show ?thesis
      by (simp add: YAPB_pop_next_def Let_def)
  qed
qed

lemma YAPB_initialize_safe:
  assumes "sz \<le> length b"
  shows "\<exists>r pkt'. YAPB_initialize (Some q) (Some b) sz = Inr (r, pkt') \<and>
                  (r = YAPB_OK \<longrightarrow> (\<exists>p. pkt' = Some p \<and> valid_packet p))"
proof (cases "sz < 4")
  case True
  then show ?thesis by (simp add: YAPB_initialize_def YAPB_HEADER_SIZE_def)
next
  case False
  with assms obtain b' where
    "YAPB_initialize (Some q) (Some b) sz =
       Inr (YAPB_OK,
            Some \<lparr>buffer = b', buffer_size = sz, pos = 4, mode = YAPB_MODE_WRITE,
                  error = YAPB_OK, finalized = False\<rparr>)" "length b' = length b"
    using initialize_ok [of sz b q] by auto
  with assms False show ?thesis
    by (simp add: valid_packet_def YAPB_HEADER_SIZE_def)
qed

lemma YAPB_load_safe:
  assumes "sz \<le> length d"
  shows "\<exists>r pkt'. YAPB_load (Some q) (Some d) sz = Inr (r, pkt') \<and>
                  (r = YAPB_OK \<longrightarrow> (\<exists>p. pkt' = Some p \<and> valid_packet p))"
  using assms by (auto simp: YAPB_load_eq valid_packet_def YAPB_HEADER_SIZE_def)

subsection \<open>Bytes past \<open>buffer_size\<close>\<close>

lemma rd_eqI:
  "off + 1 \<le> length b \<Longrightarrow> off + 1 \<le> length b' \<Longrightarrow>
   (\<And>i. off \<le> i \<Longrightarrow> i < off + 1 \<Longrightarrow> b' ! i = b ! i) \<Longrightarrow> rd b' off = rd b off"
  by simp

lemma first_failed_check_same_prefix:
  assumes "\<forall>i < buffer_size p. b2 ! i = buffer p ! i"
  shows "first_failed_check (p\<lparr>buffer := b2\<rparr>) tag k = first_failed_check p tag k"
  using assms by (auto simp: first_failed_check_def)

lemma YAPB_pop_i8_same_prefix:
  assumes "valid_packet p" and "buffer_size p \<le> length b2"
    and "\<forall>i < buffer_size p. b2 ! i = buffer p ! i"
  shows "\<exists>r p' out'.
           YAPB_pop_i8 (Some p) (Some w) = Inr (r, Some p', out') \<and>
           YAPB_pop_i8 (Some (p\<lparr>buffer := b2\<rparr>)) (Some w) = Inr (r, Some (p'\<lparr>buffer := b2\<rparr>), out')"
proof -
  let ?p2 = "p\<lparr>buffer := b2\<rparr>"
  from assms(1,2) have v2: "valid_packet ?p2" by (simp add: valid_packet_def)
  note f = first_failed_check_same_prefix [OF assms(3), of YAPB_INT8 1]
  from YAPB_pop_i8_checked [OF assms(1), of w] obtain r p' out' where
    a: "YAPB_pop_i8 (Some p) (Some w) = Inr (r, Some p', out')"
      "case first_failed_check p YAPB_INT8 1 of
         Some e \<Rightarrow> r = e \<and> p' = p\<lparr>error := e\<rparr> \<and> out' = Some w
       | None \<Rightarrow> r = check_complete p' \<and> p' = p\<lparr>pos := pos p + 1 + 1\<rparr> \<and>
                 (\<exists>v. out' = Some v \<and> rd (buffer p) (pos p + 1) = Inr v)"
    by blast
  from YAPB_pop_i8_checked [OF v2, of w] obtain r2 p2' out2' where
    b: "YAPB_pop_i8 (Some ?p2) (Some w) = Inr (r2, Some p2', out2')"
      "case first_failed_check ?p2 YAPB_INT8 1 of
         Some e \<Rightarrow> r2 = e \<and> p2' = ?p2\<lparr>error := e\<rparr> \<and> out2' = Some w
       | None \<Rightarrow> r2 = check_complete p2' \<and> p2' = ?p2\<lparr>pos := pos ?p2 + 1 + 1\<rparr> \<and>
                 (\<exists>v. out2' = Some v \<and> rd (buffer ?p2) (pos ?p2 + 1) = Inr v)"
    by blast
  show ?thesis
  proof (cases "first_failed_check p YAPB_INT8 1")
    case (Some e)
    with a b f show ?thesis by simp
  next
    case None
    from first_failed_check_None [OF None] assms
    have "rd b2 (pos p + 1) = rd (buffer p) (pos p + 1)"
      by (intro rd_eqI) (auto simp: valid_packet_def)
    with None a b f show ?thesis
      by (auto simp: check_complete_def)
  qed
qed

lemma YAPB_pop_i16_same_prefix:
  assumes "valid_packet p" and "buffer_size p \<le> length b2"
    and "\<forall>i < buffer_size p. b2 ! i = buffer p ! i"
  shows "\<exists>r p' out'.
           YAPB_pop_i16 (Some p) (Some w) = Inr (r, Some p', out') \<and>
           YAPB_pop_i16 (Some (p\<lparr>buffer := b2\<rparr>)) (Some w) = Inr (r, Some (p'\<lparr>buffer := b2\<rparr>), out')"
proof -
  let ?p2 = "p\<lparr>buffer := b2\<rparr>"
  from assms(1,2) have v2: "valid_packet ?p2" by (simp add: valid_packet_def)
  note f = first_failed_check_same_prefix [OF assms(3), of YAPB_INT16 2]
  from YAPB_pop_i16_checked [OF assms(1), of w] obtain r p' out' where
    a: "YAPB_pop_i16 (Some p) (Some w) = Inr (r, Some p', out')"
      "case first_failed_check p YAPB_INT16 2 of
         Some e \<Rightarrow> r = e \<and> p' = p\<lparr>error := e\<rparr> \<and> out' = Some w
       | None \<Rightarrow> r = check_complete p' \<and> p' = p\<lparr>pos := pos p + 1 + 2\<rparr> \<and>
                 (\<exists>v. out' = Some v \<and> read_u16 (buffer p) (pos p + 1) = Inr v)"
    by blast
  from YAPB_pop_i16_checked [OF v2, of w] obtain r2 p2' out2' where
    b: "YAPB_pop_i16 (Some ?p2) (Some w) = Inr (r2, Some p2', out2')"
      "case first_failed_check ?p2 YAPB_INT16 2 of
         Some e \<Rightarrow> r2 = e \<and> p2' = ?p2\<lparr>error := e\<rparr> \<and> out2' = Some w
       | None \<Rightarrow> r2 = check_complete p2' \<and> p2' = ?p2\<lparr>pos := pos ?p2 + 1 + 2\<rparr> \<and>
                 (\<exists>v. out2' = Some v \<and> read_u16 (buffer ?p2) (pos ?p2 + 1) = Inr v)"
    by blast
  show ?thesis
  proof (cases "first_failed_check p YAPB_INT16 2")
    case (Some e)
    with a b f show ?thesis by simp
  next
    case None
    from first_failed_check_None [OF None] assms
    have "read_u16 b2 (pos p + 1) = read_u16 (buffer p) (pos p + 1)"
      by (intro read_u16_eqI) (auto simp: valid_packet_def)
    with None a b f show ?thesis
      by (auto simp: check_complete_def)
  qed
qed

lemma YAPB_pop_i32_same_prefix:
  assumes "valid_packet p" and "buffer_size p \<le> length b2"
    and "\<forall>i < buffer_size p. b2 ! i = buffer p ! i"
  shows "\<exists>r p' out'.
           YAPB_pop_i32 (Some p) (Some w) = Inr (r, Some p', out') \<and>
           YAPB_pop_i32 (Some (p\<lparr>buffer := b2\<rparr>)) (Some w) = Inr (r, Some (p'\<lparr>buffer := b2\<rparr>), out')"
proof -
  let ?p2 = "p\<lparr>buffer := b2\<rparr>"
  from assms(1,2) have v2: "valid_packet ?p2" by (simp add: valid_packet_def)
  note f = first_failed_check_same_prefix [OF assms(3), of YAPB_INT32 4]
  from YAPB_pop_i32_checked [OF assms(1), of w] obtain r p' out' where
    a: "YAPB_pop_i32 (Some p) (Some w) = Inr (r, Some p', out')"
      "case first_failed_check p YAPB_INT32 4 of
         Some e \<Rightarrow> r = e \<and> p' = p\<lparr>error := e\<rparr> \<and> out' = Some w
       | None \<Rightarrow> r = check_complete p' \<and> p' = p\<lparr>pos := pos p + 1 + 4\<rparr> \<and>
                 (\<exists>v. out' = Some v \<and> read_u32 (buffer p) (pos p + 1) = Inr v)"
    by blast
  from YAPB_pop_i32_checked [OF v2, of w] obtain r2 p2' out2' where
    b: "YAPB_pop_i32 (Some ?p2) (Some w) = Inr (r2, Some p2', out2')"
      "case first_failed_check ?p2 YAPB_INT32 4 of
         Some e \<Rightarrow> r2 = e \<and> p2' = ?p2\<lparr>error := e\<rparr> \<and> out2' = Some w
       | None \<Rightarrow> r2 = check_complete p2' \<and> p2' = ?p2\<lparr>pos := pos ?p2 + 1 + 4\<rparr> \<and>
                 (\<exists>v. out2' = Some v \<and> read_u32 (buffer ?p2) (pos ?p2 + 1) = Inr v)"
    by blast
  show ?thesis
  proof (cases "first_failed_check p YAPB_INT32 4")
    case (Some e)
    with a b f show ?thesis by simp
  next
    case None
    from first_failed_check_None [OF None] assms
    have "read_u32 b2 (pos p + 1) = read_u32 (buffer p) (pos p + 1)"
      by (intro read_u32_eqI) (auto simp: valid_packet_def)
    with None a b f show ?thesis
      by (auto simp: check_complete_def)
  qed
qed

lemma YAPB_pop_i64_same_prefix:
  assumes "valid_packet p" and "buffer_size p \<le> length b2"
    and "\<forall>i < buffer_size p. b2 ! i = buffer p ! i"
  shows "\<exists>r p' out'.
           YAPB_pop_i64 (Some p) (Some w) = Inr (r, Some p', out') \<and>
           YAPB_pop_i64 (Some (p\<lparr>buffer := b2\<rparr>)) (Some w) = Inr (r, Some (p'\<lparr>buffer := b2\<rparr>), out')"
proof -
  let ?p2 = "p\<lparr>buffer := b2\<rparr>"
  from assms(1,2) have v2: "valid_packet ?p2" by (simp add: valid_packet_def)
  note f = first_failed_check_same_prefix [OF assms(3), of YAPB_INT64 8]
  from YAPB_pop_i64_checked [OF assms(1), of w] obtain r p' out' where
    a: "YAPB_pop_i64 (Some p) (Some w) = Inr (r, Some p', out')"
      "case first_failed_check p YAPB_INT64 8 of
         Some e \<Rightarrow> r = e \<and> p' = p\<lparr>error := e\<rparr> \<and> out' = Some w
       | None \<Rightarrow> r = check_complete p' \<and> p' = p\<lparr>pos := pos p + 1 + 8\<rparr> \<and>
                 (\<exists>v. out' = Some v \<and> read_u64 (buffer p) (pos p + 1) = Inr v)"
    by blast
  from YAPB_pop_i64_checked [OF v2, of w] obtain r2 p2' out2' where
    b: "YAPB_pop_i64 (Some ?p2) (Some w) = Inr (r2, Some p2', out2')"
      "case first_failed_check ?p2 YAPB_INT64 8 of
         Some e \<Rightarrow> r2 = e \<and> p2' = ?p2\<lparr>error := e\<rparr> \<and> out2' = Some w
       | None \<Rightarrow> r2 = check_complete p2' \<and> p2' = ?p2\<lparr>pos := pos ?p2 + 1 + 8\<rparr> \<and>
                 (\<exists>v. out2' = Some v \<and> read_u64 (buffer ?p2) (pos ?p2 + 1) = Inr v)"
    by blast
  show ?thesis
  proof (cases "first_failed_check p YAPB_INT64 8")
    case (Some e)
    with a b f show ?thesis by simp
  next
    case None
    from first_failed_check_None [OF None] assms
    have "read_u64 b2 (pos p + 1) = read_u64 (buffer p) (pos p + 1)"
      by (intro read_u64_eqI) (auto simp: valid_packet_def)
    with None a b f show ?thesis
      by (auto simp: check_complete_def)
  qed
qed

lemma YAPB_pop_float_same_prefix:
  assumes "valid_packet p" and "buffer_size p \<le> length b2"
    and "\<forall>i < buffer_size p. b2 ! i = buffer p ! i"
  shows "\<exists>r p' out'.
           YAPB_pop_float (Some p) (Some w) = Inr (r, Some p', out') \<and>
           YAPB_pop_float (Some (p\<lparr>buffer := b2\<rparr>)) (Some w) = Inr (r, Some (p'\<lparr>buffer := b2\<rparr>), out')"
proof -
  let ?p2 = "p\<lparr>buffer := b2\<rparr>"
  from assms(1,2) have v2: "valid_packet ?p2" by (simp add: valid_packet_def)
  note f = first_failed_check_same_prefix [OF assms(3), of YAPB_FLOAT 4]
  from YAPB_pop_float_checked [OF assms(1), of w] obtain r p' out' where
    a: "YAPB_pop_float (Some p) (Some w) = Inr (r, Some p', out')"
      "case first_failed_check p YAPB_FLOAT 4 of
         Some e \<Rightarrow> r = e \<and> p' = p\<lparr>error := e\<rparr> \<and> out' = Some w
       | None \<Rightarrow> r = check_complete p' \<and> p' = p\<lparr>pos := pos p + 1 + 4\<rparr> \<and>
                 (\<exists>v. out' = Some v \<and> read_u32 (buffer p) (pos p + 1) = Inr v)"
    by blast
  from YAPB_pop_float_checked [OF v2, of w] obtain r2 p2' out2' where
    b: "YAPB_pop_float (Some ?p2) (Some w) = Inr (r2, Some p2', out2')"
      "case first_failed_check ?p2 YAPB_FLOAT 4 of
         Some e \<Rightarrow> r2 = e \<and> p2' = ?p2\<lparr>error := e\<rparr> \<and> out2' = Some w
       | None \<Rightarrow> r2 = check_complete p2' \<and> p2' = ?p2\<lparr>pos := pos ?p2 + 1 + 4\<rparr> \<and>
                 (\<exists>v. out2' = Some v \<and> read_u32 (buffer ?p2) (pos ?p2 + 1) = Inr v)"
    by blast
  show ?thesis
  proof (cases "first_failed_check p YAPB_FLOAT 4")
    case (Some e)
    with a b f show ?thesis by simp
  next
    case None
    from first_failed_check_None [OF None] assms
    have "read_u32 b2 (pos p + 1) = read_u32 (buffer p) (pos p + 1)"
      by (intro read_u32_eqI) (auto simp: valid_packet_def)
    with None a b f show ?thesis
      by (auto simp: check_complete_def)
  qed
qed

lemma YAPB_pop_double_same_prefix:
  assumes "valid_packet p" and "buffer_size p \<le> length b2"
    and "\<forall>i < buffer_size p. b2 ! i = buffer p ! i"
  shows "\<exists>r p' out'.
           YAPB_pop_double (Some p) (Some w) = Inr (r, Some p', out') \<and>
           YAPB_pop_double (Some (p\<lparr>buffer := b2\<rparr>)) (Some w) = Inr (r, Some (p'\<lparr>buffer := b2\<rparr>), out')"
proof -
  let ?p2 = "p\<lparr>buffer := b2\<rparr>"
  from assms(1,2) have v2: "valid_packet ?p2" by (simp add: valid_packet_def)
  note f = first_failed_check_same_prefix [OF assms(3), of YAPB_DOUBLE 8]
  from YAPB_pop_double_checked [OF assms(1), of w] obtain r p' out' where
    a: "YAPB_pop_double (Some p) (Some w) = Inr (r, Some p', out')"
      "case first_failed_check p YAPB_DOUBLE 8 of
         Some e \<Rightarrow> r = e \<and> p' = p\<lparr>error := e\<rparr> \<and> out' = Some w
       | None \<Rightarrow> r = check_complete p' \<and> p' = p\<lparr>pos := pos p + 1 + 8\<rparr> \<and>
                 (\<exists>v. out' = Some v \<and> read_u64 (buffer p) (pos p + 1) = Inr v)"
    by blast
  from YAPB_pop_double_checked [OF v2, of w] obtain r2 p2' out2' where
    b: "YAPB_pop_double (Some ?p2) (Some w) = Inr (r2, Some p2', out2')"
      "case first_failed_check ?p2 YAPB_DOUBLE 8 of
         Some e \<Rightarrow> r2 = e \<and> p2' = ?p2\<lparr>error := e\<rparr> \<and> out2' = Some w
       | None \<Rightarrow> r2 = check_complete p2' \<and> p2' = ?p2\<lparr>pos := pos ?p2 + 1 + 8\<rparr> \<and>
                 (\<exists>v. out2' = Some v \<and> read_u64 (buffer ?p2) (pos ?p2 + 1) = Inr v)"
    by blast
  show ?thesis
  proof (cases "first_failed_check p YAPB_DOUBLE 8")
    case (Some e)
    with a b f show ?thesis by simp
  next
    case None
    from first_failed_check_None [OF None] assms
    have "read_u64 b2 (pos p + 1) = read_u64 (buffer p) (pos p + 1)"
      by (intro read_u64_eqI) (auto simp: valid_packet_def)
    with None a b f show ?thesis
      by (auto simp: check_complete_def)
  qed
qed

lemma fresh_cursor_no_error:
  "YAPB_load (Some q) (Some d) sz = Inr (YAPB_OK, Some p') \<Longrightarrow> error p' = YAPB_OK"
  "YAPB_initialize (Some q) (Some b) sz = Inr (YAPB_OK, Some p') \<Longrightarrow> error p' = YAPB_OK"
  by (auto simp: YAPB_load_def YAPB_initialize_def then_run_Inr_iff split: if_splits)

section \<open>Lifecycle and framing\<close>

text \<open>
  Claim C8. \<^verbatim>\<open>YAPB_check_complete(data, len)\<close> takes no packet. It answers false when
  \<open>data\<close> is absent or \<open>len < 4\<close>, false when the four header bytes, read most
  significant first, declare a length below 4, false when \<open>len\<close> is less than the
  declared length, and true otherwise, also when \<open>len\<close> equals the declared length.
  The caller's \<open>len\<close> bytes are taken to exist.
\<close>

theorem check_complete_spec:
  assumes "len \<le> length d"
  shows "YAPB_check_complete None len = Inr False \<and>
         YAPB_check_complete (Some d) len =
           Inr (4 \<le> len \<and> 4 \<le> declared_length d \<and> declared_length d \<le> len)"
proof -
  have "YAPB_check_complete (Some d) len =
          Inr (4 \<le> len \<and> 4 \<le> declared_length d \<and> declared_length d \<le> len)"
  proof (cases "len < 4")
    case True
    then show ?thesis by (simp add: YAPB_check_complete_def YAPB_HEADER_SIZE_def)
  next
    case False
    with assms have "4 \<le> length d" by simp
    then obtain w where "read_u32 d 0 = Inr w" "unat w = declared_length d"
      using read_u32_header by blast
    with False show ?thesis
      by (auto simp add: YAPB_check_complete_def YAPB_HEADER_SIZE_def)
  qed
  then show ?thesis by (simp add: YAPB_check_complete_def)
qed

theorem check_complete_spec_witness:
  "YAPB_check_complete (Some [0, 0, 0, 6, 0, 42, 7]) 6 = Inr True \<and>
   YAPB_check_complete (Some [0, 0, 0, 6, 0, 42, 7]) 7 = Inr True \<and>
   YAPB_check_complete (Some [0, 0, 0, 6, 0, 42, 7]) 5 = Inr False \<and>
   YAPB_check_complete (Some [0, 0, 0, 3, 0, 42, 7]) 7 = Inr False"
  using check_complete_spec [of 6 "[0, 0, 0, 6, 0, 42, 7]"]
    check_complete_spec [of 7 "[0, 0, 0, 6, 0, 42, 7]"]
    check_complete_spec [of 5 "[0, 0, 0, 6, 0, 42, 7]"]
    check_complete_spec [of 7 "[0, 0, 0, 3, 0, 42, 7]"]
  by (simp add: declared_length_def)

text \<open>
  Claim C6. \<^verbatim>\<open>YAPB_load\<close> answers NullPointer when the packet handle or the data
  pointer is absent, BufferTooSmall when \<open>size < 4\<close>, and InvalidPacket when the
  declared length exceeds \<open>size\<close> or is below 4; a failed load leaves the handle as
  it was. On success the packet is in read mode at position 4 with no error, and its
  \<open>buffer_size\<close> is the declared length, not the caller's \<open>size\<close>. The caller's
  \<open>size\<close> bytes are taken to exist.
\<close>

theorem load_spec:
  assumes "sz \<le> length d"
  shows "YAPB_load None data sz = Inr (YAPB_ERR_NULL_PTR, None) \<and>
         YAPB_load pkt None sz = Inr (YAPB_ERR_NULL_PTR, pkt) \<and>
         YAPB_load (Some q) (Some d) sz =
           (if sz < 4 then Inr (YAPB_ERR_BUFFER_TOO_SMALL, Some q)
            else if declared_length d > sz \<or> declared_length d < 4
              then Inr (YAPB_ERR_INVALID_PACKET, Some q)
            else Inr (YAPB_OK,
                      Some \<lparr>buffer = d, buffer_size = declared_length d, pos = 4,
                            mode = YAPB_MODE_READ, error = YAPB_OK, finalized = False\<rparr>))"
  using YAPB_load_eq [OF assms, of q]
  by (simp add: YAPB_load_def split: option.splits)

theorem load_spec_witness:
  "YAPB_load (Some blank_packet) (Some [0, 0, 0, 6, 0, 42, 7]) 7 =
     Inr (YAPB_OK,
          Some \<lparr>buffer = [0, 0, 0, 6, 0, 42, 7], buffer_size = 6, pos = 4,
                mode = YAPB_MODE_READ, error = YAPB_OK, finalized = False\<rparr>) \<and>
   YAPB_load (Some blank_packet) (Some [0, 0, 0, 6, 0, 42, 7]) 5 = Inr (YAPB_ERR_INVALID_PACKET, Some blank_packet) \<and>
   YAPB_load (Some blank_packet) (Some [0, 0, 0, 3, 0, 42, 7]) 7 = Inr (YAPB_ERR_INVALID_PACKET, Some blank_packet) \<and>
   YAPB_load (Some blank_packet) (Some [0, 0, 0, 6, 0, 42, 7]) 3 = Inr (YAPB_ERR_BUFFER_TOO_SMALL, Some blank_packet)"
  using load_spec [of 7 "[0, 0, 0, 6, 0, 42, 7]" None None blank_packet]
    load_spec [of 5 "[0, 0, 0, 6, 0, 42, 7]" None None blank_packet]
    load_spec [of 7 "[0, 0, 0, 3, 0, 42, 7]" None None blank_packet]
    load_spec [of 3 "[0, 0, 0, 6, 0, 42, 7]" None None blank_packet]
  by (simp add: declared_length_def)


text \<open>
  Claim C7. \<^verbatim>\<open>YAPB_finalize\<close> is one-shot. On a write-mode packet that is not yet
  finalized it stores the position in the four header bytes, most significant byte
  first (the position is narrowed to 32 bits, so the header equals it below \<open>2^32\<close>),
  leaves every byte after the header alone, sets \<open>finalized\<close>, answers OK and hands
  the position back through \<open>out_len\<close>. A second call on the resulting packet answers
  InvalidMode and changes nothing, so the header stays as the first call wrote it. A
  read-mode packet gets InvalidMode as well.
\<close>

theorem finalize_one_shot:
  assumes "mode p = YAPB_MODE_WRITE" and "\<not> finalized p" and "4 \<le> length (buffer p)"
  shows "(\<exists>b. YAPB_finalize (Some p) (Some n) =
               Inr (YAPB_OK, Some (p\<lparr>buffer := b, finalized := True\<rparr>), Some (pos p)) \<and>
             YAPB_finalize (Some p) None =
               Inr (YAPB_OK, Some (p\<lparr>buffer := b, finalized := True\<rparr>), None) \<and>
             read_u32 b 0 = Inr (word_of_nat (pos p)) \<and>
             (pos p < 2 ^ 32 \<longrightarrow> declared_length b = pos p) \<and>
             drop 4 b = drop 4 (buffer p) \<and>
             YAPB_finalize (Some (p\<lparr>buffer := b, finalized := True\<rparr>)) out =
               Inr (YAPB_ERR_INVALID_MODE, Some (p\<lparr>buffer := b, finalized := True\<rparr>), out)) \<and>
         (mode q = YAPB_MODE_READ \<longrightarrow>
            YAPB_finalize (Some q) out = Inr (YAPB_ERR_INVALID_MODE, Some q, out))"
proof -
  from finalize_ok [OF assms, of n] obtain b where
    "YAPB_finalize (Some p) (Some n) =
       Inr (YAPB_OK, Some (p\<lparr>buffer := b, finalized := True\<rparr>), Some (pos p))"
    "YAPB_finalize (Some p) None =
       Inr (YAPB_OK, Some (p\<lparr>buffer := b, finalized := True\<rparr>), None)"
    "read_u32 b 0 = Inr (word_of_nat (pos p))"
    "pos p < 2 ^ 32 \<longrightarrow> declared_length b = pos p"
    "drop 4 b = drop 4 (buffer p)"
    by blast
  moreover have "YAPB_finalize (Some (p\<lparr>buffer := b, finalized := True\<rparr>)) out =
      Inr (YAPB_ERR_INVALID_MODE, Some (p\<lparr>buffer := b, finalized := True\<rparr>), out)"
    by (simp add: YAPB_finalize_def)
  moreover have "mode q = YAPB_MODE_READ \<longrightarrow>
      YAPB_finalize (Some q) out = Inr (YAPB_ERR_INVALID_MODE, Some q, out)"
    by (simp add: YAPB_finalize_def)
  ultimately show ?thesis by blast
qed

theorem finalize_one_shot_witness:
  "YAPB_finalize (Some ex_written) (Some 0) =
     Inr (YAPB_OK,
          Some (ex_written\<lparr>buffer := [0, 0, 0, 6, 0, 42, 9, 9], finalized := True\<rparr>), Some 6) \<and>
   YAPB_finalize (Some (ex_written\<lparr>buffer := [0, 0, 0, 6, 0, 42, 9, 9], finalized := True\<rparr>))
       (Some 0) =
     Inr (YAPB_ERR_INVALID_MODE,
          Some (ex_written\<lparr>buffer := [0, 0, 0, 6, 0, 42, 9, 9], finalized := True\<rparr>), Some 0) \<and>
   YAPB_finalize (Some ex_empty) (Some 0) = Inr (YAPB_ERR_INVALID_MODE, Some ex_empty, Some 0)"
  using finalize_one_shot [of ex_written 0 "Some 0" ex_empty]
  by (simp add: ex_written_def ex_empty_def YAPB_finalize_def write_u32_in)

text \<open>
  Claim C9. \<^verbatim>\<open>YAPB_finalize\<close> never looks at the sticky error. A write-mode packet
  that is not finalized and has no room for a 32-bit integer fails
  \<^verbatim>\<open>YAPB_push_i32\<close> with BufferTooSmall, which latches that code and moves nothing;
  finalizing the packet afterwards answers OK and stamps the header with the position
  the successful pushes had reached. The same holds whatever code is latched.
\<close>

theorem finalize_ignores_sticky_error:
  assumes "mode p = YAPB_MODE_WRITE" and "\<not> finalized p" and "4 \<le> length (buffer p)"
    and "0 \<le> result_code (error p)" and "buffer_size p < pos p + 5"
  shows "YAPB_push_i32 (Some p) (Some v) =
           Inr (YAPB_ERR_BUFFER_TOO_SMALL, Some (p\<lparr>error := YAPB_ERR_BUFFER_TOO_SMALL\<rparr>)) \<and>
         (\<forall>e. \<exists>b. YAPB_finalize (Some (p\<lparr>error := e\<rparr>)) (Some n) =
                   Inr (YAPB_OK, Some (p\<lparr>buffer := b, error := e, finalized := True\<rparr>),
                        Some (pos p)) \<and>
                 read_u32 b 0 = Inr (word_of_nat (pos p)) \<and>
                 (pos p < 2 ^ 32 \<longrightarrow> declared_length b = pos p))"
proof -
  have "YAPB_push_i32 (Some p) (Some v) =
          Inr (YAPB_ERR_BUFFER_TOO_SMALL, Some (p\<lparr>error := YAPB_ERR_BUFFER_TOO_SMALL\<rparr>))"
    using assms by (simp add: YAPB_push_i32_def push_validate_def)
  moreover have "\<exists>b. YAPB_finalize (Some (p\<lparr>error := e\<rparr>)) (Some n) =
                   Inr (YAPB_OK, Some (p\<lparr>buffer := b, error := e, finalized := True\<rparr>),
                        Some (pos p)) \<and>
                 read_u32 b 0 = Inr (word_of_nat (pos p)) \<and>
                 (pos p < 2 ^ 32 \<longrightarrow> declared_length b = pos p)" for e
  proof -
    from finalize_ok [of "p\<lparr>error := e\<rparr>" n] assms(1-3) obtain b where
      "YAPB_finalize (Some (p\<lparr>error := e\<rparr>)) (Some n) =
         Inr (YAPB_OK, Some (p\<lparr>error := e, buffer := b, finalized := True\<rparr>), Some (pos p))"
      "read_u32 b 0 = Inr (word_of_nat (pos p))"
      "pos p < 2 ^ 32 \<longrightarrow> declared_length b = pos p"
      by auto
    then show ?thesis by (intro exI [of _ b]) simp
  qed
  ultimately show ?thesis by blast
qed

theorem finalize_ignores_sticky_error_witness:
  "YAPB_push_i32 (Some ex_written) (Some 7) =
     Inr (YAPB_ERR_BUFFER_TOO_SMALL, Some (ex_written\<lparr>error := YAPB_ERR_BUFFER_TOO_SMALL\<rparr>)) \<and>
   result_code YAPB_ERR_BUFFER_TOO_SMALL < 0 \<and>
   YAPB_finalize (Some (ex_written\<lparr>error := YAPB_ERR_BUFFER_TOO_SMALL\<rparr>)) (Some 0) =
     Inr (YAPB_OK,
          Some (ex_written\<lparr>buffer := [0, 0, 0, 6, 0, 42, 9, 9],
                  error := YAPB_ERR_BUFFER_TOO_SMALL, finalized := True\<rparr>),
          Some 6)"
  using finalize_ignores_sticky_error [of ex_written 7 0]
  by (simp add: ex_written_def YAPB_finalize_def write_u32_in)

section \<open>Round trip of the primitive types\<close>

text \<open>
  Claim C4. For each primitive type (8-, 16-, 32- and 64-bit integers, float and double
  as their bit patterns) and every value \<open>v\<close>: initialising a packet over a buffer
  with room for the header, the tag and the value, pushing \<open>v\<close>, finalizing, loading
  the bytes the finalize reported and popping with the same type gives back exactly
  \<open>v\<close> with a status that is not negative. Every call on the way answers OK.
\<close>

theorem roundtrip_primitives:
  assumes "sz \<le> length buf"
  shows "(6 \<le> sz \<longrightarrow>
           (\<exists>p1 p2 p3 n p4 r p5.
              YAPB_initialize (Some p0) (Some buf) sz = Inr (YAPB_OK, Some p1) \<and>
              YAPB_push_i8 (Some p1) (Some v8) = Inr (YAPB_OK, Some p2) \<and>
              YAPB_finalize (Some p2) (Some n0) = Inr (YAPB_OK, Some p3, Some n) \<and>
              YAPB_load (Some q0) (Some (take n (buffer p3))) n = Inr (YAPB_OK, Some p4) \<and>
              YAPB_pop_i8 (Some p4) (Some out8) = Inr (r, Some p5, Some v8) \<and>
              0 \<le> result_code r)) \<and>
         (7 \<le> sz \<longrightarrow>
           (\<exists>p1 p2 p3 n p4 r p5.
              YAPB_initialize (Some p0) (Some buf) sz = Inr (YAPB_OK, Some p1) \<and>
              YAPB_push_i16 (Some p1) (Some v16) = Inr (YAPB_OK, Some p2) \<and>
              YAPB_finalize (Some p2) (Some n0) = Inr (YAPB_OK, Some p3, Some n) \<and>
              YAPB_load (Some q0) (Some (take n (buffer p3))) n = Inr (YAPB_OK, Some p4) \<and>
              YAPB_pop_i16 (Some p4) (Some out16) = Inr (r, Some p5, Some v16) \<and>
              0 \<le> result_code r)) \<and>
         (9 \<le> sz \<longrightarrow>
           (\<exists>p1 p2 p3 n p4 r p5.
              YAPB_initialize (Some p0) (Some buf) sz = Inr (YAPB_OK, Some p1) \<and>
              YAPB_push_i32 (Some p1) (Some v32) = Inr (YAPB_OK, Some p2) \<and>
              YAPB_finalize (Some p2) (Some n0) = Inr (YAPB_OK, Some p3, Some n) \<and>
              YAPB_load (Some q0) (Some (take n (buffer p3))) n = Inr (YAPB_OK, Some p4) \<and>
              YAPB_pop_i32 (Some p4) (Some out32) = Inr (r, Some p5, Some v32) \<and>
              0 \<le> result_code r)) \<and>
         (13 \<le> sz \<longrightarrow>
           (\<exists>p1 p2 p3 n p4 r p5.
              YAPB_initialize (Some p0) (Some buf) sz = Inr (YAPB_OK, Some p1) \<and>
              YAPB_push_i64 (Some p1) (Some v64) = Inr (YAPB_OK, Some p2) \<and>
              YAPB_finalize (Some p2) (Some n0) = Inr (YAPB_OK, Some p3, Some n) \<and>
              YAPB_load (Some q0) (Some (take n (buffer p3))) n = Inr (YAPB_OK, Some p4) \<and>
              YAPB_pop_i64 (Some p4) (Some out64) = Inr (r, Some p5, Some v64) \<and>
              0 \<le> result_code r)) \<and>
         (9 \<le> sz \<longrightarrow>
           (\<exists>p1 p2 p3 n p4 r p5.
              YAPB_initialize (Some p0) (Some buf) sz = Inr (YAPB_OK, Some p1) \<and>
              YAPB_push_float (Some p1) (Some vf) = Inr (YAPB_OK, Some p2) \<and>
              YAPB_finalize (Some p2) (Some n0) = Inr (YAPB_OK, Some p3, Some n) \<and>
              YAPB_load (Some q0) (Some (take n (buffer p3))) n = Inr (YAPB_OK, Some p4) \<and>
              YAPB_pop_float (Some p4) (Some outf) = Inr (r, Some p5, Some vf) \<and>
              0 \<le> result_code r)) \<and>
         (13 \<le> sz \<longrightarrow>
           (\<exists>p1 p2 p3 n p4 r p5.
              YAPB_initialize (Some p0) (Some buf) sz = Inr (YAPB_OK, Some p1) \<and>
              YAPB_push_double (Some p1) (Some vd) = Inr (YAPB_OK, Some p2) \<and>
              YAPB_finalize (Some p2) (Some n0) = Inr (YAPB_OK, Some p3, Some n) \<and>
              YAPB_load (Some q0) (Some (take n (buffer p3))) n = Inr (YAPB_OK, Some p4) \<and>
              YAPB_pop_double (Some p4) (Some outd) = Inr (r, Some p5, Some vd) \<and>
              0 \<le> result_code r))"
  using roundtrip_i8 [OF _ assms] roundtrip_i16 [OF _ assms] roundtrip_i32 [OF _ assms]
    roundtrip_i64 [OF _ assms] roundtrip_float [OF _ assms] roundtrip_double [OF _ assms]
  by (intro conjI impI) blast+

theorem roundtrip_primitives_witness:
  "(\<exists>p1 p2 p3 n p4 r p5.
      YAPB_initialize (Some blank_packet) (Some (replicate 16 0)) 16 = Inr (YAPB_OK, Some p1) \<and>
      YAPB_push_i8 (Some p1) (Some 0x80) = Inr (YAPB_OK, Some p2) \<and>
      YAPB_finalize (Some p2) (Some 0) = Inr (YAPB_OK, Some p3, Some n) \<and>
      YAPB_load (Some blank_packet) (Some (take n (buffer p3))) n = Inr (YAPB_OK, Some p4) \<and>
      YAPB_pop_i8 (Some p4) (Some 0) = Inr (r, Some p5, Some 0x80) \<and>
      0 \<le> result_code r) \<and>
   (\<exists>p1 p2 p3 n p4 r p5.
      YAPB_initialize (Some blank_packet) (Some (replicate 16 0)) 16 = Inr (YAPB_OK, Some p1) \<and>
      YAPB_push_i64 (Some p1) (Some 0x8000000000000001) = Inr (YAPB_OK, Some p2) \<and>
      YAPB_finalize (Some p2) (Some 0) = Inr (YAPB_OK, Some p3, Some n) \<and>
      YAPB_load (Some blank_packet) (Some (take n (buffer p3))) n = Inr (YAPB_OK, Some p4) \<and>
      YAPB_pop_i64 (Some p4) (Some 0) = Inr (r, Some p5, Some 0x8000000000000001) \<and>
      0 \<le> result_code r)"
  using roundtrip_primitives [of 16 "replicate 16 0" blank_packet "0x80" 0 blank_packet 0
      0 0 0 0 "0x8000000000000001" 0 0 0 0 0]
  by simp

section \<open>Generic pop\<close>

text \<open>
  Claim C10. On a read-mode packet with no error and bytes left, whose next tag byte
  is none of the eight defined tags, \<^verbatim>\<open>YAPB_pop_next\<close> answers InvalidPacket and
  latches it; the cursor stays where it was, and the unrecognised tag has been stored
  in the element's type field, the rest of the element being untouched.
\<close>

theorem pop_next_unknown_tag:
  assumes "mode p = YAPB_MODE_READ" and "0 \<le> result_code (error p)"
    and "pos p < buffer_size p" and "buffer_size p \<le> length (buffer p)"
    and "buffer p ! pos p \<notin> {YAPB_INT8, YAPB_INT16, YAPB_INT32, YAPB_INT64, YAPB_FLOAT,
                                YAPB_DOUBLE, YAPB_BLOB, YAPB_NESTED_PKT}"
  shows "YAPB_pop_next (Some p) (Some e) =
           Inr (YAPB_ERR_INVALID_PACKET, Some (p\<lparr>error := YAPB_ERR_INVALID_PACKET\<rparr>),
                Some (e\<lparr>elem_type := buffer p ! pos p\<rparr>))"
  using assms by (simp add: YAPB_pop_next_def)

theorem pop_next_unknown_tag_witness:
  "YAPB_pop_next (Some ex_reserved) (Some blank_element) =
     Inr (YAPB_ERR_INVALID_PACKET, Some (ex_reserved\<lparr>error := YAPB_ERR_INVALID_PACKET\<rparr>),
          Some (blank_element\<lparr>elem_type := 0x06\<rparr>))"
  using pop_next_unknown_tag [of ex_reserved blank_element]
  by (simp add: ex_reserved_def tag_defs)

section \<open>Sticky errors\<close>

text \<open>
  Claim C1, as amended. The null-pointer checks come first and latch nothing: a push
  or pop of a primitive type or \<^verbatim>\<open>YAPB_pop_next\<close> with a null value or output pointer,
  and \<^verbatim>\<open>YAPB_push_nested\<close> with a null child or a child that has no buffer to give
  (write mode, not finalized), answer NullPointer and leave the packet as it was;
  \<^verbatim>\<open>YAPB_push_blob\<close> with a null data pointer and a non-zero length does so only on a
  packet that stores no error, since it looks at the stored error first. With non-null
  pointers (and a child that has a buffer to give) a push or pop latches: a negative
  code it returns is the code the packet stores afterwards. Once the stored code is
  negative, every push, every pop of a primitive type and \<^verbatim>\<open>YAPB_pop_next\<close>, called
  with non-null pointers, returns the stored code and changes neither the packet nor
  its output; \<^verbatim>\<open>YAPB_push_blob\<close> does so whatever its data pointer is, and
  \<^verbatim>\<open>YAPB_push_nested\<close> whenever the child has a buffer to give (it is in read mode or
  finalized). A successful \<^verbatim>\<open>YAPB_load\<close> or \<^verbatim>\<open>YAPB_initialize\<close> over the handle
  starts again with no error stored.
\<close>

theorem sticky_error_amended:
  "latches_push (YAPB_push_i8 (Some p) (Some vb)) \<and>
         latches_push (YAPB_push_i16 (Some p) (Some vs)) \<and>
         latches_push (YAPB_push_i32 (Some p) (Some vw)) \<and>
         latches_push (YAPB_push_i64 (Some p) (Some vq)) \<and>
         latches_push (YAPB_push_float (Some p) (Some vf)) \<and>
         latches_push (YAPB_push_double (Some p) (Some vd)) \<and>
         latches_pop (YAPB_pop_i8 (Some p) (Some outb)) \<and>
         latches_pop (YAPB_pop_i16 (Some p) (Some outs)) \<and>
         latches_pop (YAPB_pop_i32 (Some p) (Some outw)) \<and>
         latches_pop (YAPB_pop_i64 (Some p) (Some outq)) \<and>
         latches_pop (YAPB_pop_float (Some p) (Some outf)) \<and>
         latches_pop (YAPB_pop_double (Some p) (Some outd)) \<and>
         (len = 0 \<or> data \<noteq> None \<longrightarrow> latches_push (YAPB_push_blob (Some p) data len)) \<and>
         (mode c = YAPB_MODE_READ \<or> finalized c \<longrightarrow> latches_push (YAPB_push_nested (Some p) (Some c))) \<and>
         latches_pop (YAPB_pop_blob (Some p) (Some d) (Some l)) \<and>
         latches_pop (YAPB_pop_nested (Some p) (Some c)) \<and>
         latches_pop (YAPB_pop_next (Some p) (Some e)) \<and>
         YAPB_push_i8 (Some p) None = Inr (YAPB_ERR_NULL_PTR, Some p) \<and>
         YAPB_push_i16 (Some p) None = Inr (YAPB_ERR_NULL_PTR, Some p) \<and>
         YAPB_push_i32 (Some p) None = Inr (YAPB_ERR_NULL_PTR, Some p) \<and>
         YAPB_push_i64 (Some p) None = Inr (YAPB_ERR_NULL_PTR, Some p) \<and>
         YAPB_push_float (Some p) None = Inr (YAPB_ERR_NULL_PTR, Some p) \<and>
         YAPB_push_double (Some p) None = Inr (YAPB_ERR_NULL_PTR, Some p) \<and>
         YAPB_pop_i8 (Some p) None = Inr (YAPB_ERR_NULL_PTR, Some p, None) \<and>
         YAPB_pop_i16 (Some p) None = Inr (YAPB_ERR_NULL_PTR, Some p, None) \<and>
         YAPB_pop_i32 (Some p) None = Inr (YAPB_ERR_NULL_PTR, Some p, None) \<and>
         YAPB_pop_i64 (Some p) None = Inr (YAPB_ERR_NULL_PTR, Some p, None) \<and>
         YAPB_pop_float (Some p) None = Inr (YAPB_ERR_NULL_PTR, Some p, None) \<and>
         YAPB_pop_double (Some p) None = Inr (YAPB_ERR_NULL_PTR, Some p, None) \<and>
         YAPB_pop_next (Some p) None = Inr (YAPB_ERR_NULL_PTR, Some p, None) \<and>
         (0 \<le> result_code (error p) \<and> 0 < len \<longrightarrow>
            YAPB_push_blob (Some p) None len = Inr (YAPB_ERR_NULL_PTR, Some p)) \<and>
         YAPB_push_nested (Some p) None = Inr (YAPB_ERR_NULL_PTR, Some p) \<and>
         (mode c = YAPB_MODE_WRITE \<and> \<not> finalized c \<longrightarrow>
            YAPB_push_nested (Some p) (Some c) = Inr (YAPB_ERR_NULL_PTR, Some p)) \<and>
         (result_code (error p) < 0 \<longrightarrow>
            YAPB_push_i8 (Some p) (Some vb) = Inr (error p, Some p) \<and>
            YAPB_push_i16 (Some p) (Some vs) = Inr (error p, Some p) \<and>
            YAPB_push_i32 (Some p) (Some vw) = Inr (error p, Some p) \<and>
            YAPB_push_i64 (Some p) (Some vq) = Inr (error p, Some p) \<and>
            YAPB_push_float (Some p) (Some vf) = Inr (error p, Some p) \<and>
            YAPB_push_double (Some p) (Some vd) = Inr (error p, Some p) \<and>
            YAPB_push_blob (Some p) data len = Inr (error p, Some p) \<and>
            (mode c = YAPB_MODE_READ \<or> finalized c \<longrightarrow> YAPB_push_nested (Some p) (Some c) = Inr (error p, Some p)) \<and>
            YAPB_pop_i8 (Some p) (Some outb) = Inr (error p, Some p, Some outb) \<and>
            YAPB_pop_i16 (Some p) (Some outs) = Inr (error p, Some p, Some outs) \<and>
            YAPB_pop_i32 (Some p) (Some outw) = Inr (error p, Some p, Some outw) \<and>
            YAPB_pop_i64 (Some p) (Some outq) = Inr (error p, Some p, Some outq) \<and>
            YAPB_pop_float (Some p) (Some outf) = Inr (error p, Some p, Some outf) \<and>
            YAPB_pop_double (Some p) (Some outd) = Inr (error p, Some p, Some outd) \<and>
            YAPB_pop_next (Some p) (Some e) = Inr (error p, Some p, Some e)) \<and>
         (\<forall>p'. YAPB_load (Some p) (Some bytes) sz = Inr (YAPB_OK, Some p') \<longrightarrow>
               error p' = YAPB_OK) \<and>
         (\<forall>p'. YAPB_initialize (Some p) (Some bytes) sz = Inr (YAPB_OK, Some p') \<longrightarrow>
               error p' = YAPB_OK)"
proof -
  have A: "latches_push (YAPB_push_i8 (Some p) (Some vb)) \<and>
         latches_push (YAPB_push_i16 (Some p) (Some vs)) \<and>
         latches_push (YAPB_push_i32 (Some p) (Some vw)) \<and>
         latches_push (YAPB_push_i64 (Some p) (Some vq)) \<and>
         latches_push (YAPB_push_float (Some p) (Some vf)) \<and>
         latches_push (YAPB_push_double (Some p) (Some vd)) \<and>
         latches_pop (YAPB_pop_i8 (Some p) (Some outb)) \<and>
         latches_pop (YAPB_pop_i16 (Some p) (Some outs)) \<and>
         latches_pop (YAPB_pop_i32 (Some p) (Some outw)) \<and>
         latches_pop (YAPB_pop_i64 (Some p) (Some outq)) \<and>
         latches_pop (YAPB_pop_float (Some p) (Some outf)) \<and>
         latches_pop (YAPB_pop_double (Some p) (Some outd)) \<and>
         (len = 0 \<or> data \<noteq> None \<longrightarrow> latches_push (YAPB_push_blob (Some p) data len)) \<and>
         (mode c = YAPB_MODE_READ \<or> finalized c \<longrightarrow> latches_push (YAPB_push_nested (Some p) (Some c))) \<and>
         latches_pop (YAPB_pop_blob (Some p) (Some d) (Some l)) \<and>
         latches_pop (YAPB_pop_nested (Some p) (Some c)) \<and>
         latches_pop (YAPB_pop_next (Some p) (Some e))"
    unfolding latches_push_def latches_pop_def
    by (intro conjI allI impI)
      (auto dest!: YAPB_push_i8_shape YAPB_push_i16_shape YAPB_push_i32_shape YAPB_push_i64_shape
        YAPB_push_float_shape YAPB_push_double_shape YAPB_pop_i8_shape YAPB_pop_i16_shape
        YAPB_pop_i32_shape YAPB_pop_i64_shape YAPB_pop_float_shape YAPB_pop_double_shape
        YAPB_push_blob_shape YAPB_push_nested_shape YAPB_pop_blob_shape YAPB_pop_nested_shape
        YAPB_pop_next_latches)
  have N: "YAPB_push_i8 (Some p) None = Inr (YAPB_ERR_NULL_PTR, Some p) \<and>
         YAPB_push_i16 (Some p) None = Inr (YAPB_ERR_NULL_PTR, Some p) \<and>
         YAPB_push_i32 (Some p) None = Inr (YAPB_ERR_NULL_PTR, Some p) \<and>
         YAPB_push_i64 (Some p) None = Inr (YAPB_ERR_NULL_PTR, Some p) \<and>
         YAPB_push_float (Some p) None = Inr (YAPB_ERR_NULL_PTR, Some p) \<and>
         YAPB_push_double (Some p) None = Inr (YAPB_ERR_NULL_PTR, Some p) \<and>
         YAPB_pop_i8 (Some p) None = Inr (YAPB_ERR_NULL_PTR, Some p, None) \<and>
         YAPB_pop_i16 (Some p) None = Inr (YAPB_ERR_NULL_PTR, Some p, None) \<and>
         YAPB_pop_i32 (Some p) None = Inr (YAPB_ERR_NULL_PTR, Some p, None) \<and>
         YAPB_pop_i64 (Some p) None = Inr (YAPB_ERR_NULL_PTR, Some p, None) \<and>
         YAPB_pop_float (Some p) None = Inr (YAPB_ERR_NULL_PTR, Some p, None) \<and>
         YAPB_pop_double (Some p) None = Inr (YAPB_ERR_NULL_PTR, Some p, None) \<and>
         YAPB_pop_next (Some p) None = Inr (YAPB_ERR_NULL_PTR, Some p, None) \<and>
         (0 \<le> result_code (error p) \<and> 0 < len \<longrightarrow>
            YAPB_push_blob (Some p) None len = Inr (YAPB_ERR_NULL_PTR, Some p)) \<and>
         YAPB_push_nested (Some p) None = Inr (YAPB_ERR_NULL_PTR, Some p) \<and>
         (mode c = YAPB_MODE_WRITE \<and> \<not> finalized c \<longrightarrow>
            YAPB_push_nested (Some p) (Some c) = Inr (YAPB_ERR_NULL_PTR, Some p))"
    by (simp add: YAPB_push_i8_def YAPB_push_i16_def YAPB_push_i32_def YAPB_push_i64_def
        YAPB_push_float_def YAPB_push_double_def YAPB_pop_i8_def YAPB_pop_i16_def
        YAPB_pop_i32_def YAPB_pop_i64_def YAPB_pop_float_def YAPB_pop_double_def
        YAPB_pop_next_def push_null pop_null YAPB_push_blob_def YAPB_push_nested_def
        YAPB_get_buffer_def)
  have B: "YAPB_push_i8 (Some p) (Some vb) = Inr (error p, Some p) \<and>
         YAPB_push_i16 (Some p) (Some vs) = Inr (error p, Some p) \<and>
         YAPB_push_i32 (Some p) (Some vw) = Inr (error p, Some p) \<and>
         YAPB_push_i64 (Some p) (Some vq) = Inr (error p, Some p) \<and>
         YAPB_push_float (Some p) (Some vf) = Inr (error p, Some p) \<and>
         YAPB_push_double (Some p) (Some vd) = Inr (error p, Some p) \<and>
         YAPB_push_blob (Some p) data len = Inr (error p, Some p) \<and>
         (mode c = YAPB_MODE_READ \<or> finalized c \<longrightarrow> YAPB_push_nested (Some p) (Some c) = Inr (error p, Some p)) \<and>
         YAPB_pop_i8 (Some p) (Some outb) = Inr (error p, Some p, Some outb) \<and>
         YAPB_pop_i16 (Some p) (Some outs) = Inr (error p, Some p, Some outs) \<and>
         YAPB_pop_i32 (Some p) (Some outw) = Inr (error p, Some p, Some outw) \<and>
         YAPB_pop_i64 (Some p) (Some outq) = Inr (error p, Some p, Some outq) \<and>
         YAPB_pop_float (Some p) (Some outf) = Inr (error p, Some p, Some outf) \<and>
         YAPB_pop_double (Some p) (Some outd) = Inr (error p, Some p, Some outd) \<and>
         YAPB_pop_next (Some p) (Some e) = Inr (error p, Some p, Some e)"
    if "result_code (error p) < 0"
    using that
    by (simp add: YAPB_push_i8_sticky YAPB_push_i16_sticky YAPB_push_i32_sticky
        YAPB_push_i64_sticky YAPB_push_float_sticky YAPB_push_double_sticky
        YAPB_push_blob_sticky YAPB_push_nested_sticky YAPB_pop_i8_sticky YAPB_pop_i16_sticky
        YAPB_pop_i32_sticky YAPB_pop_i64_sticky YAPB_pop_float_sticky YAPB_pop_double_sticky
        YAPB_pop_next_sticky)
  have R: "(\<forall>p'. YAPB_load (Some p) (Some bytes) sz = Inr (YAPB_OK, Some p') \<longrightarrow>
               error p' = YAPB_OK) \<and>
           (\<forall>p'. YAPB_initialize (Some p) (Some bytes) sz = Inr (YAPB_OK, Some p') \<longrightarrow>
               error p' = YAPB_OK)"
    using fresh_cursor_no_error by blast
  from A N B R show ?thesis by blast
qed

theorem sticky_error_amended_witness:
  "YAPB_pop_i8 (Some ex_empty) (Some 5) =
     Inr (YAPB_ERR_NO_MORE_ELEMENTS, Some (ex_empty\<lparr>error := YAPB_ERR_NO_MORE_ELEMENTS\<rparr>), Some 5) \<and>
   YAPB_pop_i32 (Some (ex_empty\<lparr>error := YAPB_ERR_NO_MORE_ELEMENTS\<rparr>)) (Some 5) =
     Inr (YAPB_ERR_NO_MORE_ELEMENTS, Some (ex_empty\<lparr>error := YAPB_ERR_NO_MORE_ELEMENTS\<rparr>), Some 5) \<and>
   YAPB_push_i8 (Some (ex_empty\<lparr>error := YAPB_ERR_NO_MORE_ELEMENTS\<rparr>)) (Some 1) =
     Inr (YAPB_ERR_NO_MORE_ELEMENTS, Some (ex_empty\<lparr>error := YAPB_ERR_NO_MORE_ELEMENTS\<rparr>)) \<and>
   YAPB_pop_next (Some (ex_empty\<lparr>error := YAPB_ERR_NO_MORE_ELEMENTS\<rparr>)) (Some blank_element) =
     Inr (YAPB_ERR_NO_MORE_ELEMENTS, Some (ex_empty\<lparr>error := YAPB_ERR_NO_MORE_ELEMENTS\<rparr>),
          Some blank_element)"
  using sticky_error_amended
      [where p = "ex_empty\<lparr>error := YAPB_ERR_NO_MORE_ELEMENTS\<rparr>" and vb = 1 and outw = 5
         and e = blank_element]
  by (simp add: ex_empty_def YAPB_pop_i8_def pop_validate_def)

text \<open>
  The claim as first stated fails on null arguments: after a pop has latched
  NoMoreElements, a pop with a null output answers NullPointer, not the latched code;
  and a pop that answered NullPointer for its null output latched nothing, the next
  pop on the same packet succeeds.
\<close>

theorem sticky_error_null_argument_counterexample:
  "YAPB_pop_i8 (Some ex_empty) (Some 5) =
     Inr (YAPB_ERR_NO_MORE_ELEMENTS, Some (ex_empty\<lparr>error := YAPB_ERR_NO_MORE_ELEMENTS\<rparr>), Some 5) \<and>
   result_code YAPB_ERR_NO_MORE_ELEMENTS < 0 \<and>
   YAPB_pop_i8 (Some (ex_empty\<lparr>error := YAPB_ERR_NO_MORE_ELEMENTS\<rparr>)) None =
     Inr (YAPB_ERR_NULL_PTR, Some (ex_empty\<lparr>error := YAPB_ERR_NO_MORE_ELEMENTS\<rparr>), None) \<and>
   YAPB_ERR_NULL_PTR \<noteq> YAPB_ERR_NO_MORE_ELEMENTS \<and>
   YAPB_pop_i16 (Some ex_i16) None = Inr (YAPB_ERR_NULL_PTR, Some ex_i16, None) \<and>
   result_code YAPB_ERR_NULL_PTR < 0 \<and>
   YAPB_pop_i16 (Some ex_i16) (Some 0) =
     Inr (YAPB_STS_COMPLETE, Some (ex_i16\<lparr>pos := 7\<rparr>), Some 0x1234)"
  by (simp add: ex_empty_def ex_i16_def YAPB_pop_i8_def YAPB_pop_i16_def pop_validate_def
      read_u16_in check_complete_def tag_defs)

text \<open>
  \<^verbatim>\<open>YAPB_pop_blob\<close> and \<^verbatim>\<open>YAPB_pop_nested\<close> test the remaining length before they look
  at the stored error: on a packet that has latched NoMoreElements they store and
  return InvalidPacket.
\<close>

lemma pop_blob_overwrites_latched_error:
  "YAPB_pop_blob (Some (ex_empty\<lparr>error := YAPB_ERR_NO_MORE_ELEMENTS\<rparr>)) (Some None) (Some 0) =
     Inr (YAPB_ERR_INVALID_PACKET, Some (ex_empty\<lparr>error := YAPB_ERR_INVALID_PACKET\<rparr>),
          Some None, Some 0) \<and>
   YAPB_pop_nested (Some (ex_empty\<lparr>error := YAPB_ERR_NO_MORE_ELEMENTS\<rparr>)) (Some blank_packet) =
     Inr (YAPB_ERR_INVALID_PACKET, Some (ex_empty\<lparr>error := YAPB_ERR_INVALID_PACKET\<rparr>),
          Some blank_packet)"
  by (simp add: ex_empty_def YAPB_pop_blob_def YAPB_pop_nested_def YAPB_HEADER_SIZE_def)

section \<open>Blob and nested pops ahead of the common validation\<close>

text \<open>
  Claim C2, at the input where the code departs from it. The loaded packet holds one
  16-bit integer \<open>0x1234\<close>. \<^verbatim>\<open>YAPB_pop_blob\<close> on it fails with TypeMismatch, and the
  caller's length, \<open>0xFFFF\<close> before the call, is \<open>0x1234\<close> after it: the two bytes
  after the tag were stored into \<^verbatim>\<open>*len\<close> before the tag was validated.
\<close>

theorem pop_blob_writes_len_on_failure:
  "YAPB_load (Some blank_packet) (Some [0, 0, 0, 7, 0x01, 0x12, 0x34]) 7 = Inr (YAPB_OK, Some ex_i16) \<and>
   YAPB_pop_blob (Some ex_i16) (Some None) (Some 0xFFFF) =
     Inr (YAPB_ERR_TYPE_MISMATCH, Some (ex_i16\<lparr>error := YAPB_ERR_TYPE_MISMATCH\<rparr>),
          Some None, Some 0x1234)"
  by (simp add: ex_i16_def YAPB_load_def YAPB_HEADER_SIZE_def read_u32_in
      YAPB_pop_blob_def read_u16_in pop_validate_def tag_defs)

text \<open>
  Claim C3, at the inputs where the code departs from it. On the loaded empty packet
  a pop of a primitive type answers NoMoreElements, while \<^verbatim>\<open>YAPB_pop_blob\<close> and
  \<^verbatim>\<open>YAPB_pop_nested\<close> answer InvalidPacket; on a write-mode packet with fewer than
  three bytes of room \<^verbatim>\<open>YAPB_pop_blob\<close> answers InvalidPacket where a primitive pop
  answers InvalidMode.
\<close>

theorem pop_blob_nested_skip_validation_order:
  "YAPB_load (Some blank_packet) (Some [0, 0, 0, 4]) 4 = Inr (YAPB_OK, Some ex_empty) \<and>
   YAPB_pop_i8 (Some ex_empty) (Some 0) =
     Inr (YAPB_ERR_NO_MORE_ELEMENTS, Some (ex_empty\<lparr>error := YAPB_ERR_NO_MORE_ELEMENTS\<rparr>), Some 0) \<and>
   YAPB_pop_blob (Some ex_empty) (Some None) (Some 0) =
     Inr (YAPB_ERR_INVALID_PACKET, Some (ex_empty\<lparr>error := YAPB_ERR_INVALID_PACKET\<rparr>),
          Some None, Some 0) \<and>
   YAPB_pop_nested (Some ex_empty) (Some blank_packet) =
     Inr (YAPB_ERR_INVALID_PACKET, Some (ex_empty\<lparr>error := YAPB_ERR_INVALID_PACKET\<rparr>),
          Some blank_packet) \<and>
   YAPB_pop_blob (Some ex_written) (Some None) (Some 0) =
     Inr (YAPB_ERR_INVALID_PACKET, Some (ex_written\<lparr>error := YAPB_ERR_INVALID_PACKET\<rparr>),
          Some None, Some 0) \<and>
   YAPB_pop_i8 (Some ex_written) (Some 0) =
     Inr (YAPB_ERR_INVALID_MODE, Some (ex_written\<lparr>error := YAPB_ERR_INVALID_MODE\<rparr>), Some 0)"
  by (simp add: ex_empty_def ex_written_def YAPB_load_def YAPB_HEADER_SIZE_def read_u32_in
      YAPB_pop_blob_def YAPB_pop_nested_def YAPB_pop_i8_def pop_validate_def)

text \<open>
  Claim C5, at the input where the code departs from it. \<^verbatim>\<open>YAPB_pop_blob\<close> with a
  null packet handle and non-null outputs, and \<^verbatim>\<open>YAPB_pop_nested\<close> with a null packet
  handle, read \<^verbatim>\<open>p->pos\<close> through the null pointer; a primitive pop answers NullPointer
  on the same handle.
\<close>

theorem pop_blob_nested_null_packet_fault:
  "YAPB_pop_blob None (Some None) (Some 0) = Inl NullDeref \<and>
   YAPB_pop_nested None (Some blank_packet) = Inl NullDeref \<and>
   YAPB_pop_i8 None (Some 0) = Inr (YAPB_ERR_NULL_PTR, None, Some 0)"
  by (simp add: YAPB_pop_blob_def YAPB_pop_nested_def YAPB_pop_i8_def pop_validate_def)

section \<open>Further properties of the calls\<close>

text \<open>
  The pops of the primitive types on a well-formed packet. The return code is that of
  the first failing check in the order: stored error, wrong mode, cursor at or past
  the end (NoMoreElements), tag mismatch (TypeMismatch), too few bytes left for the
  value (InvalidPacket). A failure stores its code and leaves cursor and output alone.
  A success advances the cursor over tag and value, hands out the value read most
  significant byte first, and answers Complete exactly when the cursor has reached
  \<open>buffer_size\<close>. A null handle or null output answers NullPointer before any of this.
\<close>

theorem primitive_pop_checks:
  assumes "valid_packet p"
  shows "(\<exists>r p' out'.
            YAPB_pop_i8 (Some p) (Some outb) = Inr (r, Some p', out') \<and>
            (case first_failed_check p YAPB_INT8 1 of
               Some e \<Rightarrow> r = e \<and> p' = p\<lparr>error := e\<rparr> \<and> out' = Some outb
             | None \<Rightarrow> r = check_complete p' \<and> p' = p\<lparr>pos := pos p + 1 + 1\<rparr> \<and>
                       (\<exists>v. out' = Some v \<and> rd (buffer p) (pos p + 1) = Inr v))) \<and>
         (\<exists>r p' out'.
            YAPB_pop_i16 (Some p) (Some outs) = Inr (r, Some p', out') \<and>
            (case first_failed_check p YAPB_INT16 2 of
               Some e \<Rightarrow> r = e \<and> p' = p\<lparr>error := e\<rparr> \<and> out' = Some outs
             | None \<Rightarrow> r = check_complete p' \<and> p' = p\<lparr>pos := pos p + 1 + 2\<rparr> \<and>
                       (\<exists>v. out' = Some v \<and> read_u16 (buffer p) (pos p + 1) = Inr v))) \<and>
         (\<exists>r p' out'.
            YAPB_pop_i32 (Some p) (Some outw) = Inr (r, Some p', out') \<and>
            (case first_failed_check p YAPB_INT32 4 of
               Some e \<Rightarrow> r = e \<and> p' = p\<lparr>error := e\<rparr> \<and> out' = Some outw
             | None \<Rightarrow> r = check_complete p' \<and> p' = p\<lparr>pos := pos p + 1 + 4\<rparr> \<and>
                       (\<exists>v. out' = Some v \<and> read_u32 (buffer p) (pos p + 1) = Inr v))) \<and>
         (\<exists>r p' out'.
            YAPB_pop_i64 (Some p) (Some outq) = Inr (r, Some p', out') \<and>
            (case first_failed_check p YAPB_INT64 8 of
               Some e \<Rightarrow> r = e \<and> p' = p\<lparr>error := e\<rparr> \<and> out' = Some outq
             | None \<Rightarrow> r = check_complete p' \<and> p' = p\<lparr>pos := pos p + 1 + 8\<rparr> \<and>
                       (\<exists>v. out' = Some v \<and> read_u64 (buffer p) (pos p + 1) = Inr v))) \<and>
         (\<exists>r p' out'.
            YAPB_pop_float (Some p) (Some outf) = Inr (r, Some p', out') \<and>
            (case first_failed_check p YAPB_FLOAT 4 of
               Some e \<Rightarrow> r = e \<and> p' = p\<lparr>error := e\<rparr> \<and> out' = Some outf
             | None \<Rightarrow> r = check_complete p' \<and> p' = p\<lparr>pos := pos p + 1 + 4\<rparr> \<and>
                       (\<exists>v. out' = Some v \<and> read_u32 (buffer p) (pos p + 1) = Inr v))) \<and>
         (\<exists>r p' out'.
            YAPB_pop_double (Some p) (Some outd) = Inr (r, Some p', out') \<and>
            (case first_failed_check p YAPB_DOUBLE 8 of
               Some e \<Rightarrow> r = e \<and> p' = p\<lparr>error := e\<rparr> \<and> out' = Some outd
             | None \<Rightarrow> r = check_complete p' \<and> p' = p\<lparr>pos := pos p + 1 + 8\<rparr> \<and>
                       (\<exists>v. out' = Some v \<and> read_u64 (buffer p) (pos p + 1) = Inr v))) \<and>
         YAPB_pop_i8 None (Some outb) = Inr (YAPB_ERR_NULL_PTR, None, Some outb) \<and>
         YAPB_pop_i8 (Some p) None = Inr (YAPB_ERR_NULL_PTR, Some p, None) \<and>
         YAPB_pop_i16 None (Some outs) = Inr (YAPB_ERR_NULL_PTR, None, Some outs) \<and>
         YAPB_pop_i16 (Some p) None = Inr (YAPB_ERR_NULL_PTR, Some p, None) \<and>
         YAPB_pop_i32 None (Some outw) = Inr (YAPB_ERR_NULL_PTR, None, Some outw) \<and>
         YAPB_pop_i32 (Some p) None = Inr (YAPB_ERR_NULL_PTR, Some p, None) \<and>
         YAPB_pop_i64 None (Some outq) = Inr (YAPB_ERR_NULL_PTR, None, Some outq) \<and>
         YAPB_pop_i64 (Some p) None = Inr (YAPB_ERR_NULL_PTR, Some p, None) \<and>
         YAPB_pop_float None (Some outf) = Inr (YAPB_ERR_NULL_PTR, None, Some outf) \<and>
         YAPB_pop_float (Some p) None = Inr (YAPB_ERR_NULL_PTR, Some p, None) \<and>
         YAPB_pop_double None (Some outd) = Inr (YAPB_ERR_NULL_PTR, None, Some outd) \<and>
         YAPB_pop_double (Some p) None = Inr (YAPB_ERR_NULL_PTR, Some p, None)"
proof -
  have "YAPB_pop_i8 None (Some outb) = Inr (YAPB_ERR_NULL_PTR, None, Some outb) \<and>
         YAPB_pop_i8 (Some p) None = Inr (YAPB_ERR_NULL_PTR, Some p, None) \<and>
         YAPB_pop_i16 None (Some outs) = Inr (YAPB_ERR_NULL_PTR, None, Some outs) \<and>
         YAPB_pop_i16 (Some p) None = Inr (YAPB_ERR_NULL_PTR, Some p, None) \<and>
         YAPB_pop_i32 None (Some outw) = Inr (YAPB_ERR_NULL_PTR, None, Some outw) \<and>
         YAPB_pop_i32 (Some p) None = Inr (YAPB_ERR_NULL_PTR, Some p, None) \<and>
         YAPB_pop_i64 None (Some outq) = Inr (YAPB_ERR_NULL_PTR, None, Some outq) \<and>
         YAPB_pop_i64 (Some p) None = Inr (YAPB_ERR_NULL_PTR, Some p, None) \<and>
         YAPB_pop_float None (Some outf) = Inr (YAPB_ERR_NULL_PTR, None, Some outf) \<and>
         YAPB_pop_float (Some p) None = Inr (YAPB_ERR_NULL_PTR, Some p, None) \<and>
         YAPB_pop_double None (Some outd) = Inr (YAPB_ERR_NULL_PTR, None, Some outd) \<and>
         YAPB_pop_double (Some p) None = Inr (YAPB_ERR_NULL_PTR, Some p, None)"
    by (simp add: YAPB_pop_i8_def YAPB_pop_i16_def YAPB_pop_i32_def YAPB_pop_i64_def YAPB_pop_float_def YAPB_pop_double_def pop_validate_def)
  then show ?thesis
    using YAPB_pop_i8_checked [OF assms, of outb]
    YAPB_pop_i16_checked [OF assms, of outs]
    YAPB_pop_i32_checked [OF assms, of outw]
    YAPB_pop_i64_checked [OF assms, of outq]
    YAPB_pop_float_checked [OF assms, of outf]
    YAPB_pop_double_checked [OF assms, of outd]
    by blast
qed

theorem primitive_pop_checks_witness:
  "YAPB_pop_i32 (Some ex_i32_then_end) (Some 0) =
     Inr (YAPB_STS_COMPLETE, Some (ex_i32_then_end\<lparr>pos := 9\<rparr>), Some 0xDEADBEEF) \<and>
   YAPB_pop_i16 (Some ex_i32_then_end) (Some 7) =
     Inr (YAPB_ERR_TYPE_MISMATCH, Some (ex_i32_then_end\<lparr>error := YAPB_ERR_TYPE_MISMATCH\<rparr>), Some 7) \<and>
   YAPB_pop_i64 (Some ex_i16) (Some 7) =
     Inr (YAPB_ERR_TYPE_MISMATCH, Some (ex_i16\<lparr>error := YAPB_ERR_TYPE_MISMATCH\<rparr>), Some 7)"
  using primitive_pop_checks [where p = ex_i32_then_end and outw = 0 and outs = 7]
    primitive_pop_checks [where p = ex_i16 and outq = 7]
  by (simp add: ex_i32_then_end_def ex_i16_def valid_packet_def YAPB_HEADER_SIZE_def
      first_failed_check_def check_complete_def tag_defs read_u32_in)

text \<open>
  Every push, pop and finalize on a well-formed packet through a non-null handle
  returns (no null dereference, no access outside the buffer) and leaves a well-formed
  packet, so the cursor never passes \<open>buffer_size\<close>; a child handed out by a
  successful \<^verbatim>\<open>YAPB_pop_nested\<close> is well formed too. The bytes a blob push copies and
  the child a nested push copies are taken to exist, and the output packet of
  \<^verbatim>\<open>YAPB_pop_nested\<close> is taken to be another object than the packet popped from: a
  call whose output is the packet itself is outside this statement.
\<close>

theorem valid_packet_calls_return:
  assumes "valid_packet p"
  shows "(\<exists>r p'. YAPB_push_i8 (Some p) (Some vb) = Inr (r, Some p') \<and> valid_packet p') \<and>
         (\<exists>r p'. YAPB_push_i16 (Some p) (Some vs) = Inr (r, Some p') \<and> valid_packet p') \<and>
         (\<exists>r p'. YAPB_push_i32 (Some p) (Some vw) = Inr (r, Some p') \<and> valid_packet p') \<and>
         (\<exists>r p'. YAPB_push_i64 (Some p) (Some vq) = Inr (r, Some p') \<and> valid_packet p') \<and>
         (\<exists>r p'. YAPB_push_float (Some p) (Some vf) = Inr (r, Some p') \<and> valid_packet p') \<and>
         (\<exists>r p'. YAPB_push_double (Some p) (Some vd) = Inr (r, Some p') \<and> valid_packet p') \<and>
         ((\<forall>bytes. data = Some bytes \<longrightarrow> unat len \<le> length bytes) \<longrightarrow>
            (\<exists>r p'. YAPB_push_blob (Some p) data len = Inr (r, Some p') \<and> valid_packet p')) \<and>
         ((\<forall>c. nested = Some c \<longrightarrow> valid_packet c) \<longrightarrow>
            (\<exists>r p'. YAPB_push_nested (Some p) nested = Inr (r, Some p') \<and> valid_packet p')) \<and>
         (\<exists>r p' out'. YAPB_pop_i8 (Some p) (Some outb) = Inr (r, Some p', out') \<and> valid_packet p') \<and>
         (\<exists>r p' out'. YAPB_pop_i16 (Some p) (Some outs) = Inr (r, Some p', out') \<and> valid_packet p') \<and>
         (\<exists>r p' out'. YAPB_pop_i32 (Some p) (Some outw) = Inr (r, Some p', out') \<and> valid_packet p') \<and>
         (\<exists>r p' out'. YAPB_pop_i64 (Some p) (Some outq) = Inr (r, Some p', out') \<and> valid_packet p') \<and>
         (\<exists>r p' out'. YAPB_pop_float (Some p) (Some outf) = Inr (r, Some p', out') \<and> valid_packet p') \<and>
         (\<exists>r p' out'. YAPB_pop_double (Some p) (Some outd) = Inr (r, Some p', out') \<and> valid_packet p') \<and>
         (\<exists>r p' d' l'. YAPB_pop_blob (Some p) dptr (Some l) = Inr (r, Some p', d', l') \<and>
                         valid_packet p') \<and>
         (\<exists>r p' out'. YAPB_pop_nested (Some p) child = Inr (r, Some p', out') \<and> valid_packet p' \<and>
                        (0 \<le> result_code r \<longrightarrow> (\<exists>c. out' = Some c \<and> valid_packet c))) \<and>
         (\<exists>r p' e'. YAPB_pop_next (Some p) (Some e) = Inr (r, Some p', e') \<and> valid_packet p') \<and>
         (\<exists>r p' n'. YAPB_finalize (Some p) out_len = Inr (r, Some p', n') \<and> valid_packet p')"
  using YAPB_push_i8_safe [OF assms, of vb] YAPB_pop_i8_safe [OF assms, of outb]
    YAPB_push_i16_safe [OF assms, of vs] YAPB_pop_i16_safe [OF assms, of outs]
    YAPB_push_i32_safe [OF assms, of vw] YAPB_pop_i32_safe [OF assms, of outw]
    YAPB_push_i64_safe [OF assms, of vq] YAPB_pop_i64_safe [OF assms, of outq]
    YAPB_push_float_safe [OF assms, of vf] YAPB_pop_float_safe [OF assms, of outf]
    YAPB_push_double_safe [OF assms, of vd] YAPB_pop_double_safe [OF assms, of outd]
    YAPB_push_blob_safe [OF assms, of data len] YAPB_push_nested_safe [OF assms, of nested]
    YAPB_pop_blob_safe [OF assms, of dptr l] YAPB_pop_nested_safe [OF assms, of child]
    YAPB_pop_next_safe [OF assms, of e] YAPB_finalize_safe [OF assms, of out_len]
  by (intro conjI impI) blast+

theorem valid_packet_calls_return_witness:
  "valid_packet ex_i16 \<and>
   (\<exists>r p' d' l'. YAPB_pop_blob (Some ex_i16) (Some None) (Some 0) = Inr (r, Some p', d', l') \<and>
                  valid_packet p') \<and>
   (\<exists>r p' e'. YAPB_pop_next (Some ex_i16) (Some blank_element) = Inr (r, Some p', e') \<and>
               valid_packet p') \<and>
   (\<exists>r p'. YAPB_push_i64 (Some ex_i16) (Some 1) = Inr (r, Some p') \<and> valid_packet p')"
proof -
  have v: "valid_packet ex_i16"
    by (simp add: valid_packet_def ex_i16_def YAPB_HEADER_SIZE_def)
  from valid_packet_calls_return [OF v, where dptr = "Some None" and l = 0 and e = blank_element
      and vq = 1] v
  show ?thesis by blast
qed

text \<open>
  A failing \<^verbatim>\<open>YAPB_pop_nested\<close> leaves the caller's child packet as it was, and a
  failing \<^verbatim>\<open>YAPB_pop_blob\<close> leaves the caller's data pointer as it was.
\<close>

theorem failed_blob_nested_pop_outputs:
  "(\<forall>r pkt' d' l'. YAPB_pop_blob (Some p) (Some d) (Some l) = Inr (r, pkt', d', l') \<longrightarrow>
                    result_code r < 0 \<longrightarrow> d' = Some d) \<and>
   (\<forall>r pkt' out'. YAPB_pop_nested (Some p) (Some c) = Inr (r, pkt', out') \<longrightarrow>
                   result_code r < 0 \<longrightarrow> out' = Some c)"
  by (auto dest!: YAPB_pop_blob_shape YAPB_pop_nested_shape)

theorem failed_blob_nested_pop_outputs_witness:
  "YAPB_pop_nested (Some ex_i16) (Some blank_packet) =
     Inr (YAPB_ERR_INVALID_PACKET, Some (ex_i16\<lparr>error := YAPB_ERR_INVALID_PACKET\<rparr>),
          Some blank_packet) \<and>
   result_code YAPB_ERR_INVALID_PACKET < 0 \<and>
   YAPB_pop_blob (Some ex_i16) (Some None) (Some 0xFFFF) =
     Inr (YAPB_ERR_TYPE_MISMATCH, Some (ex_i16\<lparr>error := YAPB_ERR_TYPE_MISMATCH\<rparr>),
          Some None, Some 0x1234)"
  using failed_blob_nested_pop_outputs [of ex_i16 None "0xFFFF" blank_packet]
  by (simp add: ex_i16_def YAPB_pop_nested_def YAPB_HEADER_SIZE_def YAPB_pop_blob_def
      read_u16_in pop_validate_def tag_defs)

text \<open>
  Bytes at or past \<open>buffer_size\<close> are invisible to the pops of the primitive types: on
  a well-formed packet, replacing the buffer by any other that agrees with it below
  \<open>buffer_size\<close> changes neither the return code, nor the value handed out, nor the
  cursor. After \<^verbatim>\<open>YAPB_load\<close> that bound is the declared length.
\<close>

theorem pops_ignore_bytes_past_buffer_size:
  assumes "valid_packet p" and "buffer_size p \<le> length b2"
    and "\<forall>i < buffer_size p. b2 ! i = buffer p ! i"
  shows "(\<exists>r p' out'.
            YAPB_pop_i8 (Some p) (Some outb) = Inr (r, Some p', out') \<and>
            YAPB_pop_i8 (Some (p\<lparr>buffer := b2\<rparr>)) (Some outb) =
              Inr (r, Some (p'\<lparr>buffer := b2\<rparr>), out')) \<and>
         (\<exists>r p' out'.
            YAPB_pop_i16 (Some p) (Some outs) = Inr (r, Some p', out') \<and>
            YAPB_pop_i16 (Some (p\<lparr>buffer := b2\<rparr>)) (Some outs) =
              Inr (r, Some (p'\<lparr>buffer := b2\<rparr>), out')) \<and>
         (\<exists>r p' out'.
            YAPB_pop_i32 (Some p) (Some outw) = Inr (r, Some p', out') \<and>
            YAPB_pop_i32 (Some (p\<lparr>buffer := b2\<rparr>)) (Some outw) =
              Inr (r, Some (p'\<lparr>buffer := b2\<rparr>), out')) \<and>
         (\<exists>r p' out'.
            YAPB_pop_i64 (Some p) (Some outq) = Inr (r, Some p', out') \<and>
            YAPB_pop_i64 (Some (p\<lparr>buffer := b2\<rparr>)) (Some outq) =
              Inr (r, Some (p'\<lparr>buffer := b2\<rparr>), out')) \<and>
         (\<exists>r p' out'.
            YAPB_pop_float (Some p) (Some outf) = Inr (r, Some p', out') \<and>
            YAPB_pop_float (Some (p\<lparr>buffer := b2\<rparr>)) (Some outf) =
              Inr (r, Some (p'\<lparr>buffer := b2\<rparr>), out')) \<and>
         (\<exists>r p' out'.
            YAPB_pop_double (Some p) (Some outd) = Inr (r, Some p', out') \<and>
            YAPB_pop_double (Some (p\<lparr>buffer := b2\<rparr>)) (Some outd) =
              Inr (r, Some (p'\<lparr>buffer := b2\<rparr>), out'))"
  using YAPB_pop_i8_same_prefix [OF assms, of outb]
    YAPB_pop_i16_same_prefix [OF assms, of outs]
    YAPB_pop_i32_same_prefix [OF assms, of outw]
    YAPB_pop_i64_same_prefix [OF assms, of outq]
    YAPB_pop_float_same_prefix [OF assms, of outf]
    YAPB_pop_double_same_prefix [OF assms, of outd]
  by blast

theorem pops_ignore_bytes_past_buffer_size_witness:
  "\<exists>r p' out'.
     YAPB_pop_i16 (Some ex_i16) (Some 0) = Inr (r, Some p', out') \<and>
     YAPB_pop_i16 (Some (ex_i16\<lparr>buffer := [0, 0, 0, 7, 0x01, 0x12, 0x34, 0xAA, 0xBB]\<rparr>)) (Some 0) =
       Inr (r, Some (p'\<lparr>buffer := [0, 0, 0, 7, 0x01, 0x12, 0x34, 0xAA, 0xBB]\<rparr>), out')"
proof -
  have "\<forall>i < 7. [0, 0, 0, 7, 0x01, 0x12, 0x34, 0xAA, 0xBB :: 8 word] ! i
                 = [0, 0, 0, 7, 0x01, 0x12, 0x34] ! i"
    by (simp add: nth_Cons' All_less_Suc2 numeral_eq_Suc)
  then show ?thesis
    using pops_ignore_bytes_past_buffer_size
      [where p = ex_i16 and ?b2.0 = "[0, 0, 0, 7, 0x01, 0x12, 0x34, 0xAA, 0xBB]" and outs = 0]
    by (simp add: ex_i16_def valid_packet_def YAPB_HEADER_SIZE_def)
qed

end
